(* ===== verification/Prelude.thy ===== *)
theory Prelude
  imports Main "HOL-Library.Word"
begin

text \<open>
  Shared vocabulary of the REDasm development: the machine-integer types of the C++
  sources (\<open>u8\<close>, \<open>u32\<close>, \<open>u64\<close>, \<open>address_t\<close>), the flag-test idiom
  \<open>(x & flag) != 0\<close> that every bitset of the program uses (assembler capabilities,
  instruction types, symbol types, segment types), and the hexadecimal digit rendering
  shared by the byte dump of \<open>AssemblerPlugin::decode\<close> and the address rendering of
  comments.  The lemmas here are the generic facts the component theories rely on:
  setting and clearing a flag bit, incrementing a 64-bit loop counter without wrap,
  and decoding a rendered hex digit.
\<close>

unbundle bit_operations_syntax

type_synonym u8 = "8 word"
type_synonym u32 = "32 word"
type_synonym u64 = "64 word"
type_synonym address_t = u64

named_theorems flag_simps "evaluation of flag tests on the model's bitsets"

subsection \<open>Flag bitsets\<close>

text \<open>
  C++ converts \<open>x & flag\<close> to \<open>bool\<close> by comparing with zero; this is the test of
  \<open>AssemblerPlugin::hasFlag\<close>, \<open>Instruction::is\<close>, \<open>Symbol::is\<close> and
  \<open>Segment::is\<close>.
\<close>

definition has_flag :: "'a::len word \<Rightarrow> 'a word \<Rightarrow> bool" where
  "has_flag x m \<longleftrightarrow> x AND m \<noteq> 0"

definition set_flag :: "'a::len word \<Rightarrow> 'a word \<Rightarrow> 'a word" where
  "set_flag x m = x OR m"

definition clear_flag :: "'a::len word \<Rightarrow> 'a word \<Rightarrow> 'a word" where
  "clear_flag x m = x AND NOT m"

subsection \<open>Hexadecimal digits\<close>

text \<open>
  \<open>std::hex\<close> prints the digits \<open>0-9a-f\<close> (lowercase); REDasm's own \<open>hex\<close> helper
  prints \<open>0-9A-F\<close>.  Both are rendered from a digit value below 16, and both are read
  back by \<open>hex_value\<close>.
\<close>

definition hex_digit :: "nat \<Rightarrow> char" where
  "hex_digit n = (if n < 10 then char_of (48 + n) else char_of (87 + n))"

definition hex_digit_upper :: "nat \<Rightarrow> char" where
  "hex_digit_upper n = (if n < 10 then char_of (48 + n) else char_of (55 + n))"

definition hex_value :: "char \<Rightarrow> nat option" where
  "hex_value c =
     (let k = of_char c in
      if 48 \<le> k \<and> k < 58 then Some (k - 48)
      else if 97 \<le> k \<and> k < 103 then Some (k - 87)
      else if 65 \<le> k \<and> k < 71 then Some (k - 55)
      else None)"

definition is_lower_hex :: "char \<Rightarrow> bool" where
  "is_lower_hex c \<longleftrightarrow>
     (let k = (of_char c :: nat) in (48 \<le> k \<and> k < 58) \<or> (97 \<le> k \<and> k < 103))"

subsection \<open>Facts on flags\<close>

lemma has_flag_set [flag_simps]: "m \<noteq> 0 \<Longrightarrow> has_flag (set_flag x m) m"
proof -
  have "(x OR m) AND m = m" by (simp add: bit_eq_iff bit_simps)
  then show "m \<noteq> 0 \<Longrightarrow> has_flag (set_flag x m) m"
    by (simp add: has_flag_def set_flag_def)
qed

lemma has_flag_clear [flag_simps]: "\<not> has_flag (clear_flag x m) m"
proof -
  have "(x AND NOT m) AND m = 0" by (simp add: bit_eq_iff bit_simps)
  then show ?thesis by (simp add: has_flag_def clear_flag_def)
qed

lemma clear_flag_idem [flag_simps]: "clear_flag (clear_flag x m) m = clear_flag x m"
  by (simp add: clear_flag_def bit_eq_iff bit_simps)

lemma clear_flag_absent: "\<not> has_flag x m \<Longrightarrow> clear_flag x m = x"
proof -
  assume "\<not> has_flag x m"
  then have "x AND m = 0" by (simp add: has_flag_def)
  have "\<not> (bit x n \<and> bit m n)" for n
  proof -
    have "\<not> bit (x AND m) n" using \<open>x AND m = 0\<close> by simp
    then show ?thesis by (simp add: bit_and_iff)
  qed
  then show "clear_flag x m = x"
    by (auto simp: clear_flag_def bit_eq_iff bit_simps)
qed

lemma clear_set_flag [flag_simps]: "clear_flag (set_flag x m) m = clear_flag x m"
  by (auto simp: clear_flag_def set_flag_def bit_eq_iff bit_simps)

lemma has_flag_zero [simp, flag_simps]: "\<not> has_flag 0 m"
  by (simp add: has_flag_def)

lemma has_flag_or_right: "has_flag x m \<Longrightarrow> has_flag x (m' OR m)"
proof -
  assume "has_flag x m"
  then have "x AND m \<noteq> 0" by (simp add: has_flag_def)
  then obtain n where "bit (x AND m) n" using bit_eq_iff [of "x AND m" 0] by auto
  then have "bit (x AND (m' OR m)) n" by (simp add: bit_and_iff bit_or_iff)
  then show ?thesis by (auto simp: has_flag_def)
qed

subsection \<open>A 64-bit loop counter\<close>

text \<open>
  A \<open>for(u64 i = 0; i < n; i++)\<close> loop never wraps its counter: below the bound the
  increment is the successor on \<open>unat\<close>.  This is the termination argument of every
  such loop of the sources.
\<close>

lemma unat_incr_below:
  fixes i :: "'a::len word"
  assumes lt: "i < s"
  shows "unat (i + 1) = Suc (unat i)"
proof -
  have "i + 1 \<noteq> 0"
  proof
    assume "i + 1 = 0"
    then have "i = - 1" by (simp add: eq_neg_iff_add_eq_0)
    with lt show False by simp
  qed
  then show ?thesis using unatSuc [of i] by (simp add: add.commute)
qed

lemma loop_measure_decreases:
  fixes i :: "'a::len word"
  assumes "i < s"
  shows "unat s - unat (i + 1) < unat s - unat i"
  using assms unat_incr_below [OF assms] by (simp add: word_less_nat_alt)

subsection \<open>Facts on hex digits\<close>

lemma hex_value_digit [simp]: "n < 16 \<Longrightarrow> hex_value (hex_digit n) = Some n"
  by (auto simp: hex_value_def hex_digit_def Let_def)

lemma hex_value_digit_upper [simp]: "n < 16 \<Longrightarrow> hex_value (hex_digit_upper n) = Some n"
  by (auto simp: hex_value_def hex_digit_upper_def Let_def)

lemma hex_digit_lower: "n < 16 \<Longrightarrow> is_lower_hex (hex_digit n)"
  by (simp add: is_lower_hex_def hex_digit_def Let_def)

end
