(* ===== verification/REDasm_Types.thy ===== *)
theory REDasm_Types
  imports Prelude
begin

text \<open>
  The data the assembler plugin works on: \<open>Instruction\<close>, \<open>Operand\<close>, \<open>Symbol\<close> and
  \<open>Segment\<close>, and the bitset constants \<open>InstructionTypes\<close>, \<open>OperandTypes\<close>,
  \<open>SymbolTypes\<close>, \<open>SegmentTypes\<close> and \<open>AssemblerFlags\<close>.  Their declarations live
  in REDasm's headers, which are not part of the sources under \<open>src/\<close>; they are
  modelled from the design document (its data model, section 3).  The numeric values of
  the bit constants are the model's choice: the theorems only use that the named bits
  are distinct single bits, and that \<open>Branch\<close> is \<open>Jump | Call\<close>.
  Each class becomes a record, each tagged kind a datatype, each \<open>is(flag)\<close> test the
  prelude's \<^const>\<open>has_flag\<close>.
\<close>

unbundle bit_operations_syntax

datatype fault =
    EmptyStateStack    \<comment> \<open>\<open>std::stack::top\<close>/\<open>pop\<close> on an empty state stack\<close>
  | BufferOutOfRange   \<comment> \<open>a read past the end of the bounds-checked \<open>Buffer\<close>\<close>

datatype endianness = LittleEndian | BigEndian

subsection \<open>Instruction types\<close>

definition InstructionTypes_None :: u32 where "InstructionTypes_None = 0"
definition InstructionTypes_Stop :: u32 where "InstructionTypes_Stop = 0x1"
definition InstructionTypes_Nop :: u32 where "InstructionTypes_Nop = 0x2"
definition InstructionTypes_Jump :: u32 where "InstructionTypes_Jump = 0x4"
definition InstructionTypes_Call :: u32 where "InstructionTypes_Call = 0x8"
definition InstructionTypes_Conditional :: u32 where "InstructionTypes_Conditional = 0x1000000"
definition InstructionTypes_Branch :: u32 where
  "InstructionTypes_Branch = InstructionTypes_Jump OR InstructionTypes_Call"

lemmas instruction_type_defs =
  InstructionTypes_None_def InstructionTypes_Stop_def InstructionTypes_Nop_def
  InstructionTypes_Jump_def InstructionTypes_Call_def InstructionTypes_Conditional_def
  InstructionTypes_Branch_def

subsection \<open>Instructions\<close>

text \<open>
  An \<open>Instruction\<close> is owned by the analysis driver and shared by pointer; the model
  passes it as a value and returns it updated.  \<open>target_idx\<close> is the index of the
  operand that is the control-flow target (\<open>-1\<close> when none).
\<close>

record instruction =
  ins_address :: address_t
  ins_size :: u64
  ins_bytes :: string
  ins_type :: u32
  ins_target_idx :: int
  ins_targets :: "address_t list"
  ins_comments :: "string list"

definition ins_is :: "instruction \<Rightarrow> u32 \<Rightarrow> bool" where
  "ins_is i t = has_flag (ins_type i) t"

definition hasTargets :: "instruction \<Rightarrow> bool" where
  "hasTargets i \<longleftrightarrow> ins_targets i \<noteq> []"

definition cmt :: "string \<Rightarrow> instruction \<Rightarrow> instruction" where
  "cmt s i = i\<lparr>ins_comments := ins_comments i @ [s]\<rparr>"

definition set_target :: "address_t \<Rightarrow> instruction \<Rightarrow> instruction" where
  "set_target a i = i\<lparr>ins_targets := List.insert a (ins_targets i)\<rparr>"

subsection \<open>Operands\<close>

datatype operand_type = Register | Immediate | Memory | Displacement

record mem_operand =
  mem_base :: "nat option"     \<comment> \<open>\<open>None\<close>: no base register\<close>
  mem_index :: "nat option"    \<comment> \<open>\<open>None\<close>: no index register\<close>
  mem_scale :: nat
  mem_displacement :: u64

definition displacementOnly :: "mem_operand \<Rightarrow> bool" where
  "displacementOnly m \<longleftrightarrow> mem_base m = None \<and> mem_index m = None"

record operand =
  op_type :: operand_type
  op_read :: bool
  op_index :: int
  op_reg :: nat
  op_u_value :: u64
  op_mem :: mem_operand

subsection \<open>Symbols\<close>

definition SymbolTypes_Data :: u32 where "SymbolTypes_Data = 0x1"
definition SymbolTypes_String :: u32 where "SymbolTypes_String = 0x2"
definition SymbolTypes_Code :: u32 where "SymbolTypes_Code = 0x4"
definition SymbolTypes_FunctionMask :: u32 where "SymbolTypes_FunctionMask = 0x100"
definition SymbolTypes_Import :: u32 where "SymbolTypes_Import = 0x200"
definition SymbolTypes_Pointer :: u32 where "SymbolTypes_Pointer = 0x2000000"
definition SymbolTypes_WideStringMask :: u32 where "SymbolTypes_WideStringMask = 0x4000000"
definition SymbolTypes_Function :: u32 where
  "SymbolTypes_Function = SymbolTypes_FunctionMask OR SymbolTypes_Code"
definition SymbolTypes_WideString :: u32 where
  "SymbolTypes_WideString = SymbolTypes_WideStringMask OR SymbolTypes_String"

lemmas symbol_type_defs =
  SymbolTypes_Data_def SymbolTypes_String_def SymbolTypes_Code_def
  SymbolTypes_FunctionMask_def SymbolTypes_Import_def SymbolTypes_Pointer_def
  SymbolTypes_WideStringMask_def SymbolTypes_Function_def SymbolTypes_WideString_def

record symbol =
  sym_address :: address_t
  sym_name :: string
  sym_type :: u32

definition sym_is :: "symbol \<Rightarrow> u32 \<Rightarrow> bool" where
  "sym_is s t = has_flag (sym_type s) t"

definition isFunction :: "symbol \<Rightarrow> bool" where
  "isFunction s = has_flag (sym_type s) SymbolTypes_FunctionMask"

subsection \<open>Segments\<close>

definition SegmentTypes_Code :: u32 where "SegmentTypes_Code = 0x1"
definition SegmentTypes_Data :: u32 where "SegmentTypes_Data = 0x2"
definition SegmentTypes_Bss :: u32 where "SegmentTypes_Bss = 0x4"

record segment =
  seg_name :: string
  seg_type :: u32

definition seg_is :: "segment \<Rightarrow> u32 \<Rightarrow> bool" where
  "seg_is s t = has_flag (seg_type s) t"

subsection \<open>Assembler capability flags\<close>

definition AssemblerFlags_None :: u32 where "AssemblerFlags_None = 0"
definition AssemblerFlags_HasVMIL :: u32 where "AssemblerFlags_HasVMIL = 0x1"
definition AssemblerFlags_EmulateVMIL :: u32 where "AssemblerFlags_EmulateVMIL = 0x2"
definition AssemblerFlags_DelaySlot :: u32 where "AssemblerFlags_DelaySlot = 0x4"

lemmas assembler_flag_defs =
  AssemblerFlags_None_def AssemblerFlags_HasVMIL_def AssemblerFlags_EmulateVMIL_def
  AssemblerFlags_DelaySlot_def

lemma DelaySlot_nonzero [simp, flag_simps]: "AssemblerFlags_DelaySlot \<noteq> 0"
  by (simp add: AssemblerFlags_DelaySlot_def)

lemma DelaySlot_has_flag [simp, flag_simps]:
  "has_flag AssemblerFlags_DelaySlot AssemblerFlags_DelaySlot"
  by (simp add: AssemblerFlags_DelaySlot_def has_flag_def)

lemma None_clear_flag [simp, flag_simps]: "clear_flag 0 m = 0"
  by (simp add: clear_flag_def)

lemma DelaySlot_clear [simp, flag_simps]:
  "clear_flag AssemblerFlags_DelaySlot AssemblerFlags_DelaySlot = 0"
  by (simp add: clear_flag_def)

lemma DelaySlot_set_zero [simp, flag_simps]:
  "set_flag 0 AssemblerFlags_DelaySlot = AssemblerFlags_DelaySlot"
  by (simp add: set_flag_def)

lemma DelaySlot_set_idem [simp, flag_simps]:
  "set_flag AssemblerFlags_DelaySlot AssemblerFlags_DelaySlot = AssemblerFlags_DelaySlot"
  by (simp add: set_flag_def)

lemma cmt_fields [simp]:
  "ins_address (cmt s i) = ins_address i" "ins_type (cmt s i) = ins_type i"
  "ins_targets (cmt s i) = ins_targets i" "ins_target_idx (cmt s i) = ins_target_idx i"
  "ins_comments (cmt s i) = ins_comments i @ [s]"
  by (simp_all add: cmt_def)

lemma set_target_fields [simp]:
  "ins_targets (set_target a i) = List.insert a (ins_targets i)" "ins_address (set_target a i) = ins_address i"
  "ins_comments (set_target a i) = ins_comments i" "ins_type (set_target a i) = ins_type i"
  by (simp_all add: set_target_def)

lemma call_is_branch: "ins_is i InstructionTypes_Call \<Longrightarrow> ins_is i InstructionTypes_Branch"
  by (simp add: ins_is_def InstructionTypes_Branch_def has_flag_or_right)

end
