(* ===== verification/Assembler_Plugin.thy ===== *)
theory Assembler_Plugin
  imports REDasm_Types
begin

text \<open>
  \<open>AssemblerPlugin\<close> of \<open>src/redasm/plugins/assembler/assembler.cpp\<close>: its capability
  queries (\<open>flags\<close>, \<open>hasFlag\<close>, \<open>hasVMIL\<close>, \<open>canEmulateVMIL\<close>), its endianness,
  and the decode/termination state machine: the stack of per-context flag sets
  (\<open>pushState\<close>, \<open>popState\<close>) and \<open>done\<close>, which decides whether a linear run of
  decoding ends after an instruction, with the one-instruction look-ahead that branch
  delay slots need.  The plugin object becomes a record; \<open>flags()\<close>, virtual in C++,
  is the record field \<open>asm_flags\<close> that each architecture fixes at construction.
  \<open>std::stack::top\<close> and \<open>pop\<close> on an empty stack are undefined behaviour in C++; the
  model returns the error \<^const>\<open>EmptyStateStack\<close> there.  The theory closes with the
  plugin's operations as a step relation, its reachable states, and their invariant, and
  with sequences of these operations (\<open>plugin_run\<close>), whose failures are exactly the
  unbalanced sequences.
\<close>

unbundle bit_operations_syntax

record assembler_plugin =
  asm_flags :: u32
  asm_endianness :: endianness
  asm_statestack :: "u32 list"   \<comment> \<open>head is \<open>_statestack.top()\<close>\<close>

subsection \<open>Construction and capabilities\<close>

text \<open>The constructor leaves the state stack empty; the argument is what the
  architecture's override of \<open>flags()\<close> returns.\<close>

definition AssemblerPlugin :: "u32 \<Rightarrow> assembler_plugin" where
  "AssemblerPlugin fl = \<lparr>asm_flags = fl, asm_endianness = LittleEndian, asm_statestack = []\<rparr>"

definition flags_base :: u32 where
  "flags_base = AssemblerFlags_None"

definition hasFlag :: "assembler_plugin \<Rightarrow> u32 \<Rightarrow> bool" where
  "hasFlag p flag = has_flag (asm_flags p) flag"

definition hasVMIL :: "assembler_plugin \<Rightarrow> bool" where
  "hasVMIL p = hasFlag p AssemblerFlags_HasVMIL"

definition canEmulateVMIL :: "assembler_plugin \<Rightarrow> bool" where
  "canEmulateVMIL p = hasFlag p AssemblerFlags_EmulateVMIL"

definition endianness :: "assembler_plugin \<Rightarrow> endianness" where
  "endianness p = asm_endianness p"

definition setEndianness :: "endianness \<Rightarrow> assembler_plugin \<Rightarrow> assembler_plugin" where
  "setEndianness e p = p\<lparr>asm_endianness := e\<rparr>"

subsection \<open>The state stack\<close>

definition pushState :: "assembler_plugin \<Rightarrow> assembler_plugin" where
  "pushState p = p\<lparr>asm_statestack := AssemblerFlags_None # asm_statestack p\<rparr>"

definition popState :: "assembler_plugin \<Rightarrow> fault + assembler_plugin" where
  "popState p =
     (case asm_statestack p of
        [] \<Rightarrow> Inl EmptyStateStack
      | _ # rest \<Rightarrow> Inr (p\<lparr>asm_statestack := rest\<rparr>))"

subsection \<open>\<open>done\<close>: the end of a linear run\<close>

text \<open>
  The four branches of \<open>AssemblerPlugin::done\<close>, in the source's order: a pending
  delay slot ends the run and is cleared; an unconditional jump ends it at once, or, on an
  architecture with delay slots, marks the slot and lets one more instruction through; a
  stop ends it and clears the slot; anything else continues.
\<close>

definition done_asm :: "assembler_plugin \<Rightarrow> instruction \<Rightarrow> fault + (bool \<times> assembler_plugin)" where
  "done_asm p i =
     (case asm_statestack p of
        [] \<Rightarrow> Inl EmptyStateStack
      | cur # rest \<Rightarrow>
          if has_flag cur AssemblerFlags_DelaySlot then
            Inr (True, p\<lparr>asm_statestack := clear_flag cur AssemblerFlags_DelaySlot # rest\<rparr>)
          else if ins_is i InstructionTypes_Jump \<and> \<not> ins_is i InstructionTypes_Conditional then
            (if hasFlag p AssemblerFlags_DelaySlot then
               Inr (False, p\<lparr>asm_statestack := set_flag cur AssemblerFlags_DelaySlot # rest\<rparr>)
             else Inr (True, p))
          else if ins_is i InstructionTypes_Stop then
            Inr (True, p\<lparr>asm_statestack := clear_flag cur AssemblerFlags_DelaySlot # rest\<rparr>)
          else Inr (False, p))"

text \<open>A sequence of \<open>done\<close> queries, as the driver issues them inside one context.\<close>

fun done_all :: "assembler_plugin \<Rightarrow> instruction list \<Rightarrow> fault + assembler_plugin" where
  "done_all p [] = Inr p"
| "done_all p (i # is) =
     (case done_asm p i of Inl e \<Rightarrow> Inl e | Inr (_, p') \<Rightarrow> done_all p' is)"

subsection \<open>The plugin as a state machine\<close>

datatype plugin_op =
    OpPushState
  | OpPopState
  | OpDone instruction
  | OpSetEndianness endianness

fun plugin_step :: "assembler_plugin \<Rightarrow> plugin_op \<Rightarrow> fault + assembler_plugin" where
  "plugin_step p OpPushState = Inr (pushState p)"
| "plugin_step p OpPopState = popState p"
| "plugin_step p (OpDone i) = (case done_asm p i of Inl e \<Rightarrow> Inl e | Inr (_, p') \<Rightarrow> Inr p')"
| "plugin_step p (OpSetEndianness e) = Inr (setEndianness e p)"

inductive reachable_plugin :: "u32 \<Rightarrow> assembler_plugin \<Rightarrow> bool" for fl where
  init: "reachable_plugin fl (AssemblerPlugin fl)"
| step: "reachable_plugin fl p \<Longrightarrow> plugin_step p op = Inr p' \<Longrightarrow> reachable_plugin fl p'"

text \<open>
  Every entry of the state stack is either empty or the delay-slot bit, and the bit only
  ever appears on an architecture that has delay slots.
\<close>

definition state_entry_ok :: "u32 \<Rightarrow> u32 \<Rightarrow> bool" where
  "state_entry_ok fl e \<longleftrightarrow>
     e = AssemblerFlags_None \<or> (e = AssemblerFlags_DelaySlot \<and> has_flag fl AssemblerFlags_DelaySlot)"

definition plugin_inv :: "u32 \<Rightarrow> assembler_plugin \<Rightarrow> bool" where
  "plugin_inv fl p \<longleftrightarrow> asm_flags p = fl \<and> list_all (state_entry_ok fl) (asm_statestack p)"

text \<open>
  A sequence of plugin operations as the driver issues them, stopping at the first error,
  and the discipline the state stack imposes on it: every \<open>popState\<close> and every
  \<open>done\<close> needs a pushed context, counting from the stack's depth \<open>n\<close>.
\<close>

fun plugin_run :: "assembler_plugin \<Rightarrow> plugin_op list \<Rightarrow> fault + assembler_plugin" where
  "plugin_run p [] = Inr p"
| "plugin_run p (op # ops) = (case plugin_step p op of Inl e \<Rightarrow> Inl e | Inr p' \<Rightarrow> plugin_run p' ops)"

fun balanced :: "nat \<Rightarrow> plugin_op list \<Rightarrow> bool" where
  "balanced n [] = True"
| "balanced n (OpPushState # ops) = balanced (Suc n) ops"
| "balanced n (OpPopState # ops) = (0 < n \<and> balanced (n - 1) ops)"
| "balanced n (OpDone _ # ops) = (0 < n \<and> balanced n ops)"
| "balanced n (OpSetEndianness _ # ops) = balanced n ops"

fun depth_after :: "nat \<Rightarrow> plugin_op list \<Rightarrow> nat" where
  "depth_after n [] = n"
| "depth_after n (OpPushState # ops) = depth_after (Suc n) ops"
| "depth_after n (OpPopState # ops) = depth_after (n - 1) ops"
| "depth_after n (OpDone _ # ops) = depth_after n ops"
| "depth_after n (OpSetEndianness _ # ops) = depth_after n ops"

subsection \<open>A fixture\<close>

text \<open>An unconditional jump at \<open>0x1000\<close> back to \<open>0xFF0\<close> (the design's loop scenario).\<close>

definition jump_1000 :: instruction where
  "jump_1000 =
     \<lparr>ins_address = 0x1000, ins_size = 2, ins_bytes = [], ins_type = InstructionTypes_Jump,
      ins_target_idx = 0, ins_targets = [0xFF0], ins_comments = []\<rparr>"

subsection \<open>Frame and totality of \<open>done\<close>\<close>

lemma done_asm_frame:
  assumes "done_asm p i = Inr (b, p')"
  shows "\<exists>cur rest t. asm_statestack p = cur # rest \<and> p' = p\<lparr>asm_statestack := t # rest\<rparr>"
proof (cases "asm_statestack p")
  case Nil
  with assms show ?thesis by (simp add: done_asm_def)
next
  case (Cons cur rest)
  have same: "p\<lparr>asm_statestack := cur # rest\<rparr> = p" using Cons by simp
  from assms Cons have "p' = p \<or> (\<exists>t. p' = p\<lparr>asm_statestack := t # rest\<rparr>)"
    by (auto simp: done_asm_def split: if_splits)
  with Cons same show ?thesis by metis
qed

lemma done_asm_total: "asm_statestack p \<noteq> [] \<Longrightarrow> \<exists>b p'. done_asm p i = Inr (b, p')"
  by (auto simp: done_asm_def neq_Nil_conv)

text \<open>An unconditional jump that does not end the run has marked the delay slot.\<close>

lemma done_jump_marks_slot:
  assumes "done_asm p j = Inr (False, p')" "ins_is j InstructionTypes_Jump" "\<not> ins_is j InstructionTypes_Conditional"
  shows "hasFlag p AssemblerFlags_DelaySlot
         \<and> (\<exists>cur rest. asm_statestack p' = cur # rest \<and> has_flag cur AssemblerFlags_DelaySlot)"
  using assms by (auto simp: done_asm_def has_flag_set split: list.splits if_splits)

lemma done_all_keeps_below:
  "asm_statestack p = cur # rest \<Longrightarrow>
   \<exists>q t. done_all p is = Inr q \<and> q = p\<lparr>asm_statestack := t # rest\<rparr>"
proof (induction "is" arbitrary: p cur)
  case Nil
  then show ?case by (rule_tac x = p in exI, rule_tac x = cur in exI) simp
next
  case (Cons i "is")
  from Cons.prems obtain b p' where d: "done_asm p i = Inr (b, p')"
    using done_asm_total [of p i] by auto
  from done_asm_frame [OF d] Cons.prems obtain t where p': "p' = p\<lparr>asm_statestack := t # rest\<rparr>"
    by auto
  then have "asm_statestack p' = t # rest" by simp
  from Cons.IH [OF this] obtain q t' where "done_all p' is = Inr q" "q = p'\<lparr>asm_statestack := t' # rest\<rparr>"
    by blast
  with d p' show ?case by auto
qed

subsection \<open>The invariant of the reachable states\<close>

lemma state_entry_clear:
  "state_entry_ok fl e \<Longrightarrow> clear_flag e AssemblerFlags_DelaySlot = AssemblerFlags_None"
  by (auto simp: state_entry_ok_def AssemblerFlags_None_def)

lemma state_entry_set:
  "state_entry_ok fl e \<Longrightarrow> \<not> has_flag e AssemblerFlags_DelaySlot \<Longrightarrow>
   has_flag fl AssemblerFlags_DelaySlot \<Longrightarrow> state_entry_ok fl (set_flag e AssemblerFlags_DelaySlot)"
  by (auto simp: state_entry_ok_def AssemblerFlags_None_def)

lemma plugin_inv_step: "plugin_inv fl p \<Longrightarrow> plugin_step p op = Inr p' \<Longrightarrow> plugin_inv fl p'"
proof (cases op)
  case (OpDone i)
  assume inv: "plugin_inv fl p" and st: "plugin_step p op = Inr p'"
  then obtain cur rest where stk: "asm_statestack p = cur # rest"
    using OpDone by (cases "asm_statestack p") (auto simp: done_asm_def)
  from inv stk have cur: "state_entry_ok fl cur" and rest: "list_all (state_entry_ok fl) rest"
    and fl: "asm_flags p = fl"
    by (auto simp: plugin_inv_def)
  have none: "state_entry_ok fl AssemblerFlags_None" by (simp add: state_entry_ok_def)
  from st OpDone stk cur rest fl none show ?thesis
    by (auto simp: plugin_inv_def done_asm_def hasFlag_def state_entry_clear state_entry_set
        split: if_splits sum.splits)
qed (auto simp: plugin_inv_def pushState_def popState_def setEndianness_def state_entry_ok_def
      split: list.splits)

lemma reachable_plugin_inv: "reachable_plugin fl p \<Longrightarrow> plugin_inv fl p"
proof (induction rule: reachable_plugin.induct)
  case init
  show ?case by (simp add: plugin_inv_def AssemblerPlugin_def)
next
  case (step p op p')
  then show ?case by (blast intro: plugin_inv_step)
qed

lemma reachable_pushed: "reachable_plugin fl (pushState (AssemblerPlugin fl))"
  by (rule reachable_plugin.step [OF reachable_plugin.init, where op = OpPushState]) simp

lemma jump_1000_is:
  "ins_is jump_1000 InstructionTypes_Jump" "\<not> ins_is jump_1000 InstructionTypes_Conditional"
  "\<not> ins_is jump_1000 InstructionTypes_Stop"
  by (simp_all add: jump_1000_def ins_is_def has_flag_def instruction_type_defs)

subsection \<open>Termination of a linear run\<close>

text \<open>
  C1. Termination determinism: on an architecture without delay slots, in every reachable
  state of the plugin with a context pushed, \<open>done\<close> reports the end of a linear run
  exactly for an unconditional jump or a stop, and leaves the plugin unchanged.
\<close>

theorem done_without_delay_slots:
  assumes reach: "reachable_plugin fl p"
    and nods: "\<not> has_flag fl AssemblerFlags_DelaySlot"
    and ne: "asm_statestack p \<noteq> []"
  shows "done_asm p i =
           Inr ((ins_is i InstructionTypes_Jump \<and> \<not> ins_is i InstructionTypes_Conditional)
                \<or> ins_is i InstructionTypes_Stop, p)"
proof -
  have inv: "plugin_inv fl p" using reach by (rule reachable_plugin_inv)
  obtain cur rest where stk: "asm_statestack p = cur # rest"
    using ne by (cases "asm_statestack p") auto
  from inv stk nods have cur: "cur = AssemblerFlags_None" and fl: "asm_flags p = fl"
    by (auto simp: plugin_inv_def state_entry_ok_def)
  have same: "p\<lparr>asm_statestack := cur # rest\<rparr> = p" using stk by simp
  from stk cur fl nods same show ?thesis
    by (auto simp: done_asm_def hasFlag_def AssemblerFlags_None_def)
qed

theorem done_without_delay_slots_witness:
  "reachable_plugin 0 (pushState (AssemblerPlugin 0)) \<and> \<not> has_flag (0::u32) AssemblerFlags_DelaySlot
   \<and> asm_statestack (pushState (AssemblerPlugin 0)) \<noteq> []
   \<and> done_asm (pushState (AssemblerPlugin 0)) jump_1000 = Inr (True, pushState (AssemblerPlugin 0))"
proof -
  have r: "reachable_plugin 0 (pushState (AssemblerPlugin 0))" by (rule reachable_pushed)
  have n: "\<not> has_flag (0::u32) AssemblerFlags_DelaySlot" by simp
  have ne: "asm_statestack (pushState (AssemblerPlugin 0)) \<noteq> []" by (simp add: pushState_def)
  show ?thesis
    using done_without_delay_slots [OF r n ne, of jump_1000] r ne jump_1000_is by simp
qed

text \<open>
  C2. Delay slots: on an architecture with delay slots, \<open>done\<close> answers "not done" for
  an unconditional jump and "done" for the instruction right after it, whatever that
  instruction is, and the second answer restores the state the jump found.
\<close>

theorem delay_slot_lookahead:
  assumes ds: "hasFlag p AssemblerFlags_DelaySlot"
    and stk: "asm_statestack p = cur # rest"
    and clear: "\<not> has_flag cur AssemblerFlags_DelaySlot"
    and jmp: "ins_is j InstructionTypes_Jump" "\<not> ins_is j InstructionTypes_Conditional"
  shows "\<exists>p1. done_asm p j = Inr (False, p1) \<and> done_asm p1 i = Inr (True, p)"
proof -
  let ?p1 = "p\<lparr>asm_statestack := set_flag cur AssemblerFlags_DelaySlot # rest\<rparr>"
  have first: "done_asm p j = Inr (False, ?p1)"
    using ds stk clear jmp by (simp add: done_asm_def)
  have restored: "clear_flag (set_flag cur AssemblerFlags_DelaySlot) AssemblerFlags_DelaySlot = cur"
    using clear by (simp add: clear_set_flag clear_flag_absent)
  have "done_asm ?p1 i = Inr (True, p)"
    using stk by (simp add: done_asm_def has_flag_set restored)
  with first show ?thesis by blast
qed

theorem delay_slot_lookahead_witness:
  "hasFlag (pushState (AssemblerPlugin AssemblerFlags_DelaySlot)) AssemblerFlags_DelaySlot
   \<and> \<not> has_flag AssemblerFlags_None AssemblerFlags_DelaySlot
   \<and> (\<exists>p1. done_asm (pushState (AssemblerPlugin AssemblerFlags_DelaySlot)) jump_1000 = Inr (False, p1)
        \<and> done_asm p1 jump_1000 = Inr (True, pushState (AssemblerPlugin AssemblerFlags_DelaySlot)))"
proof -
  let ?p = "pushState (AssemblerPlugin AssemblerFlags_DelaySlot)"
  have ds: "hasFlag ?p AssemblerFlags_DelaySlot"
    by (simp add: hasFlag_def pushState_def AssemblerPlugin_def)
  have stk: "asm_statestack ?p = AssemblerFlags_None # []"
    by (simp add: pushState_def AssemblerPlugin_def)
  have cl: "\<not> has_flag AssemblerFlags_None AssemblerFlags_DelaySlot"
    by (simp add: AssemblerFlags_None_def)
  show ?thesis
    using delay_slot_lookahead [OF ds stk cl jump_1000_is(1,2)] ds cl by blast
qed

subsection \<open>Contexts\<close>

text \<open>
  C3. Context isolation: whatever sequence of \<open>done\<close> queries runs inside a context
  opened by \<open>pushState\<close>, none of them fails, and \<open>popState\<close> then gives back
  exactly the plugin as it was before the push, its pending delay slot included.
\<close>

theorem context_isolation: "\<exists>q. done_all (pushState p) is = Inr q \<and> popState q = Inr p"
proof -
  have "asm_statestack (pushState p) = AssemblerFlags_None # asm_statestack p"
    by (simp add: pushState_def)
  from done_all_keeps_below [OF this] obtain q t where
    q: "done_all (pushState p) is = Inr q" "q = (pushState p)\<lparr>asm_statestack := t # asm_statestack p\<rparr>"
    by blast
  then have "popState q = Inr p" by (simp add: popState_def pushState_def)
  with q show ?thesis by blast
qed

text \<open>
  C4. State-stack invariant: in every state reachable from construction by pushes, pops,
  \<open>done\<close> queries and endianness changes, each entry of the state stack is empty or
  the delay-slot bit, and the bit appears only when the architecture declares delay slots.
\<close>

theorem reachable_state_entries:
  assumes "reachable_plugin fl p"
  shows "asm_flags p = fl \<and>
         (\<forall>e \<in> set (asm_statestack p). e = AssemblerFlags_None
             \<or> (e = AssemblerFlags_DelaySlot \<and> has_flag fl AssemblerFlags_DelaySlot))"
  using reachable_plugin_inv [OF assms]
  by (simp add: plugin_inv_def state_entry_ok_def list_all_iff)

theorem reachable_state_entries_witness:
  "reachable_plugin AssemblerFlags_DelaySlot
     ((pushState (AssemblerPlugin AssemblerFlags_DelaySlot))\<lparr>asm_statestack := [AssemblerFlags_DelaySlot]\<rparr>)
   \<and> has_flag AssemblerFlags_DelaySlot AssemblerFlags_DelaySlot"
proof -
  let ?p = "pushState (AssemblerPlugin AssemblerFlags_DelaySlot)"
  have r: "reachable_plugin AssemblerFlags_DelaySlot ?p" by (rule reachable_pushed)
  have d: "plugin_step ?p (OpDone jump_1000) = Inr (?p\<lparr>asm_statestack := [AssemblerFlags_DelaySlot]\<rparr>)"
    using jump_1000_is
    by (simp add: done_asm_def pushState_def AssemblerPlugin_def hasFlag_def AssemblerFlags_None_def)
  have r2: "reachable_plugin AssemblerFlags_DelaySlot (?p\<lparr>asm_statestack := [AssemblerFlags_DelaySlot]\<rparr>)"
    by (rule reachable_plugin.step [OF r d])
  show ?thesis using reachable_state_entries [OF r2] r2 by simp
qed

lemma plugin_step_errors:
  "plugin_step p op = Inl e \<Longrightarrow>
   e = EmptyStateStack \<and> asm_statestack p = [] \<and> (op = OpPopState \<or> (\<exists>i. op = OpDone i))"
  by (cases op) (auto simp: popState_def done_asm_def split: list.splits if_splits sum.splits prod.splits)

lemma plugin_step_needs_context:
  "plugin_step p op = Inr p' \<Longrightarrow> op = OpPopState \<or> (\<exists>i. op = OpDone i) \<Longrightarrow> asm_statestack p \<noteq> []"
  by (auto simp: popState_def done_asm_def)

lemma plugin_step_length:
  assumes "plugin_step p op = Inr p'"
  shows "length (asm_statestack p') =
     (case op of OpPushState \<Rightarrow> Suc (length (asm_statestack p)) | OpPopState \<Rightarrow> length (asm_statestack p) - 1
               | _ \<Rightarrow> length (asm_statestack p))"
proof (cases op)
  case (OpDone i)
  with assms obtain b where "done_asm p i = Inr (b, p')" by (auto split: sum.splits prod.splits)
  from done_asm_frame [OF this] OpDone show ?thesis by auto
qed (use assms in \<open>auto simp: pushState_def popState_def setEndianness_def split: list.splits\<close>)

text \<open>
  C5. Stack discipline of a run: a sequence of plugin operations fails exactly when some
  \<open>popState\<close> or \<open>done\<close> finds no pushed context (counting pushes and pops from the
  initial depth), and then only with \<^const>\<open>EmptyStateStack\<close>; otherwise it succeeds
  with a state stack of exactly the depth the count predicts.
\<close>

theorem state_stack_discipline:
  "(case plugin_run p ops of
      Inl e \<Rightarrow> e = EmptyStateStack \<and> \<not> balanced (length (asm_statestack p)) ops
    | Inr q \<Rightarrow> balanced (length (asm_statestack p)) ops
               \<and> length (asm_statestack q) = depth_after (length (asm_statestack p)) ops)"
proof (induction ops arbitrary: p)
  case Nil
  then show ?case by simp
next
  case (Cons op ops)
  show ?case
  proof (cases "plugin_step p op")
    case (Inl e)
    with plugin_step_errors [OF Inl] show ?thesis by auto
  next
    case (Inr p')
    have ne: "(op = OpPopState \<or> (\<exists>i. op = OpDone i)) \<Longrightarrow> asm_statestack p \<noteq> []"
      using plugin_step_needs_context [OF Inr] by blast
    have len: "length (asm_statestack p') =
       (case op of OpPushState \<Rightarrow> Suc (length (asm_statestack p)) | OpPopState \<Rightarrow> length (asm_statestack p) - 1
                 | _ \<Rightarrow> length (asm_statestack p))"
      using plugin_step_length [OF Inr] .
    show ?thesis
      using Cons.IH [of p'] Inr ne len by (cases op) (auto split: sum.splits)
  qed
qed

end
