(* ===== verification/Decode.thy ===== *)
theory Decode
  imports REDasm_Types
begin

text \<open>
  The base \<open>AssemblerPlugin::decode\<close> (\<open>assembler.cpp\<close>, lines 108-121): the fallback
  that every architecture without its own decoder gets.  It dumps the instruction's
  \<open>size\<close> bytes from the buffer as two lowercase hex digits each
  (\<open>std::hex\<close>, \<open>std::setw(2)\<close>, \<open>std::setfill('0')\<close>) into \<open>instruction.bytes\<close> and
  reports "not decoded".  The loop runs a \<open>u64\<close> counter, kept at its width here, and
  reads the bounds-checked \<open>Buffer\<close>, whose out-of-range read is the error
  \<^const>\<open>BufferOutOfRange\<close>.  The lemmas give the loop's termination measure, its
  closed form, the result on both branches, the shape of the dump, and a parser that
  reads the dump back to the bytes.
\<close>

definition buffer_at :: "u8 list \<Rightarrow> u64 \<Rightarrow> fault + u8" where
  "buffer_at buf i = (if unat i < length buf then Inr (buf ! unat i) else Inl BufferOutOfRange)"

definition hex_byte :: "u8 \<Rightarrow> string" where
  "hex_byte b = [hex_digit (unat b div 16), hex_digit (unat b mod 16)]"

function decode_loop :: "u8 list \<Rightarrow> u64 \<Rightarrow> u64 \<Rightarrow> string \<Rightarrow> fault + string" where
  "decode_loop buf n i acc =
     (if i < n then
        (case buffer_at buf i of
           Inl e \<Rightarrow> Inl e
         | Inr b \<Rightarrow> decode_loop buf n (i + 1) (acc @ hex_byte b))
      else Inr acc)"
  by pat_completeness auto
termination
  by (relation "measure (\<lambda>(buf, n, i, acc). unat n - unat i)") (auto intro: loop_measure_decreases)

definition decode :: "u8 list \<Rightarrow> instruction \<Rightarrow> fault + (bool \<times> instruction)" where
  "decode buf ins =
     (case decode_loop buf (ins_size ins) 0 [] of
        Inl e \<Rightarrow> Inl e
      | Inr s \<Rightarrow> Inr (False, ins\<lparr>ins_bytes := s\<rparr>))"

text \<open>An instruction of two bytes at \<open>0x400000\<close>, not yet decoded.\<close>

definition raw_ins :: instruction where
  "raw_ins =
     \<lparr>ins_address = 0x400000, ins_size = 2, ins_bytes = [], ins_type = InstructionTypes_None,
      ins_target_idx = -1, ins_targets = [], ins_comments = []\<rparr>"

text \<open>The reader of a dump: pairs of hex digits back to bytes (not part of the sources).\<close>

fun unhex :: "string \<Rightarrow> u8 list option" where
  "unhex [] = Some []"
| "unhex [c] = None"
| "unhex (c1 # c2 # cs) =
     (case (hex_value c1, hex_value c2, unhex cs) of
        (Some h, Some l, Some bs) \<Rightarrow> Some (of_nat (16 * h + l) # bs)
      | _ \<Rightarrow> None)"

declare decode_loop.simps [simp del]

subsection \<open>The loop in closed form\<close>

lemma take_drop_step:
  "k < length xs \<Longrightarrow> k < n \<Longrightarrow> drop k (take n xs) = xs ! k # drop (Suc k) (take n xs)"
  using Cons_nth_drop_Suc [of k "take n xs"] by simp

text \<open>
  From counter \<open>i\<close> the loop appends the dump of bytes \<open>i\<close> to \<open>n - 1\<close>, and fails
  exactly when it has to read past the end of the buffer.  Computation induction over
  the loop, whose measure \<open>unat n - unat i\<close> is the one of its termination proof.
\<close>

lemma decode_loop_closed:
  "decode_loop buf n i acc =
     (if unat n \<le> max (length buf) (unat i)
      then Inr (acc @ concat (map hex_byte (drop (unat i) (take (unat n) buf))))
      else Inl BufferOutOfRange)"
proof (induction buf n i acc rule: decode_loop.induct)
  case (1 buf n i acc)
  show ?case
  proof (cases "i < n")
    case False
    then have "unat n \<le> unat i" by (simp add: word_less_nat_alt)
    with False show ?thesis by (simp add: decode_loop.simps [of buf n i acc])
  next
    case True
    then have lt: "unat i < unat n" by (simp add: word_less_nat_alt)
    have suc: "unat (i + 1) = Suc (unat i)" using True by (rule unat_incr_below)
    show ?thesis
    proof (cases "unat i < length buf")
      case inb: True
      then have rd: "buffer_at buf i = Inr (buf ! unat i)" by (simp add: buffer_at_def)
      have ih: "decode_loop buf n (i + 1) (acc @ hex_byte (buf ! unat i)) =
          (if unat n \<le> max (length buf) (Suc (unat i))
           then Inr (acc @ hex_byte (buf ! unat i)
                      @ concat (map hex_byte (drop (Suc (unat i)) (take (unat n) buf))))
           else Inl BufferOutOfRange)"
        using "1.IH" [OF True rd] suc by simp
      have "max (length buf) (Suc (unat i)) = max (length buf) (unat i)" using inb by simp
      with ih True rd inb lt show ?thesis
        by (simp add: decode_loop.simps [of buf n i acc] take_drop_step)
    next
      case outb: False
      then have "buffer_at buf i = Inl BufferOutOfRange" by (simp add: buffer_at_def)
      with True outb lt show ?thesis by (simp add: decode_loop.simps [of buf n i acc])
    qed
  qed
qed

subsection \<open>Shape of the dump\<close>

lemma hex_byte_length [simp]: "length (hex_byte b) = 2"
  by (simp add: hex_byte_def)

lemma unat_u8_bound: "unat (b::u8) < 256"
  using unsigned_less [of b] by simp

lemma hex_byte_lower: "list_all is_lower_hex (hex_byte b)"
  using unat_u8_bound [of b] by (simp add: hex_byte_def hex_digit_lower)

lemma unhex_hex_byte: "unhex (hex_byte b @ s) = map_option (Cons b) (unhex s)"
proof -
  have hi: "unat b div 16 < 16" and lo: "unat b mod 16 < 16" using unat_u8_bound [of b] by auto
  have "(of_nat (16 * (unat b div 16) + unat b mod 16) :: u8) = b"
    by (simp add: add.commute)
  with hi lo show ?thesis by (simp add: hex_byte_def split: option.splits)
qed

lemma unhex_dump: "unhex (concat (map hex_byte bs)) = Some bs"
  by (induction bs) (simp_all add: unhex_hex_byte)

lemma length_dump: "length (concat (map hex_byte bs)) = 2 * length bs"
  by (induction bs) simp_all

lemma dump_lower: "list_all is_lower_hex (concat (map hex_byte bs))"
  by (induction bs) (simp_all add: hex_byte_lower)

subsection \<open>The properties of the fallback decoder\<close>

text \<open>
  C6. Fallback decode: when the buffer holds the instruction's \<open>size\<close> bytes,
  \<open>decode\<close> reports "not decoded" and stores the hex dump of exactly those bytes in
  \<open>bytes\<close>, changing nothing else; when the buffer is shorter, it fails with
  \<^const>\<open>BufferOutOfRange\<close>.
\<close>

theorem decode_fallback:
  "decode buf ins =
     (if unat (ins_size ins) \<le> length buf
      then Inr (False, ins\<lparr>ins_bytes := concat (map hex_byte (take (unat (ins_size ins)) buf))\<rparr>)
      else Inl BufferOutOfRange)"
  by (simp add: decode_def decode_loop_closed)

text \<open>
  C7. Round trip: the text \<open>decode\<close> writes into \<open>bytes\<close> reads back, two hex digits
  per byte, to exactly the instruction's bytes in the buffer.
\<close>

theorem decode_roundtrip:
  "decode buf ins = Inr (r, ins') \<Longrightarrow> unhex (ins_bytes ins') = Some (take (unat (ins_size ins)) buf)"
  by (auto simp: decode_def decode_loop_closed unhex_dump split: if_splits)

theorem decode_roundtrip_witness:
  "decode [0xde, 0xad, 0x0f] raw_ins = Inr (False, raw_ins\<lparr>ins_bytes := ''dead''\<rparr>)
   \<and> unhex ''dead'' = Some [0xde, 0xad]"
proof -
  have d: "decode [0xde, 0xad, 0x0f] raw_ins = Inr (False, raw_ins\<lparr>ins_bytes := ''dead''\<rparr>)"
    by (simp add: raw_ins_def, code_simp)
  have "unhex (ins_bytes (raw_ins\<lparr>ins_bytes := ''dead''\<rparr>))
          = Some (take (unat (ins_size raw_ins)) [0xde, 0xad, 0x0f])"
    by (rule decode_roundtrip [OF d])
  with d show ?thesis by (simp add: raw_ins_def)
qed

text \<open>
  Bounds of the dump: a successful fallback decode returns "not decoded", its text
  has two characters per byte of the instruction, all of them lowercase hex digits, and
  no other field of the instruction changes.
\<close>

theorem decode_dump_shape:
  "decode buf ins = Inr (r, ins') \<Longrightarrow>
   \<not> r \<and> length (ins_bytes ins') = 2 * unat (ins_size ins) \<and> list_all is_lower_hex (ins_bytes ins')
   \<and> ins' = ins\<lparr>ins_bytes := ins_bytes ins'\<rparr>"
  by (auto simp: decode_def decode_loop_closed length_dump dump_lower min_def split: if_splits)

theorem decode_dump_shape_witness:
  "decode [1, 2, 3] raw_ins = Inr (False, raw_ins\<lparr>ins_bytes := ''0102''\<rparr>)
   \<and> length ''0102'' = 2 * unat (ins_size raw_ins) \<and> list_all is_lower_hex ''0102''"
proof -
  have d: "decode [1, 2, 3] raw_ins = Inr (False, raw_ins\<lparr>ins_bytes := ''0102''\<rparr>)"
    by (simp add: raw_ins_def, code_simp)
  from decode_dump_shape [OF d] d show ?thesis by simp
qed

end
