(* ===== verification/Decode_Loop.thy ===== *)
theory Decode_Loop
  imports Decode "HOL-Library.While_Combinator"
begin

text \<open>
  The byte loop of \<open>AssemblerPlugin::decode\<close> (\<open>assembler.cpp\<close>, lines 113-117) kept
  as a loop: \<open>while_option\<close> over the pair of the \<open>u64\<close> counter and the text written
  so far, which becomes an error when the bounds-checked buffer read fails (the loop is
  left there, as the C++ exception leaves it).  The theory proves that this loop always
  stops, by the measure \<open>unat n - unat i\<close> of the \<open>termination\<close> proof of
  \<^const>\<open>decode_loop\<close>, and that it computes what \<^const>\<open>decode_loop\<close> computes.
\<close>

type_synonym loop_state = "u64 \<times> (fault + string)"

definition decode_guard :: "u64 \<Rightarrow> loop_state \<Rightarrow> bool" where
  "decode_guard n st = (case st of (i, Inr _) \<Rightarrow> i < n | (_, Inl _) \<Rightarrow> False)"

definition decode_body :: "u8 list \<Rightarrow> loop_state \<Rightarrow> loop_state" where
  "decode_body buf st =
     (case st of
        (i, Inr acc) \<Rightarrow>
          (i + 1, case buffer_at buf i of Inl e \<Rightarrow> Inl e | Inr b \<Rightarrow> Inr (acc @ hex_byte b))
      | (i, Inl e) \<Rightarrow> (i, Inl e))"

definition decode_while :: "u8 list \<Rightarrow> u64 \<Rightarrow> loop_state option" where
  "decode_while buf n = while_option (decode_guard n) (decode_body buf) (0, Inr [])"

subsection \<open>The loop stops\<close>

lemma decode_body_decreases:
  "decode_guard n st \<Longrightarrow> unat n - unat (fst (decode_body buf st)) < unat n - unat (fst st)"
  by (auto simp: decode_guard_def decode_body_def loop_measure_decreases split: sum.splits prod.splits)

lemma decode_while_from_Some: "\<exists>t. while_option (decode_guard n) (decode_body buf) st = Some t"
  by (rule measure_while_option_Some [where P = "\<lambda>_. True" and f = "\<lambda>st. unat n - unat (fst st)"])
     (simp_all add: decode_body_decreases)

subsection \<open>The loop computes \<open>decode_loop\<close>\<close>

lemma decode_while_go:
  "decode_guard n st \<Longrightarrow>
   while_option (decode_guard n) (decode_body buf) st = while_option (decode_guard n) (decode_body buf) (decode_body buf st)"
  by (subst while_option_unfold) simp

lemma decode_while_stop:
  "\<not> decode_guard n st \<Longrightarrow> while_option (decode_guard n) (decode_body buf) st = Some st"
  by (subst while_option_unfold) simp

lemma decode_while_from:
  "map_option snd (while_option (decode_guard n) (decode_body buf) (i, Inr acc)) = Some (decode_loop buf n i acc)"
proof (induction buf n i acc rule: decode_loop.induct)
  case (1 buf n i acc)
  show ?case
  proof (cases "i < n")
    case False
    then have "\<not> decode_guard n (i, Inr acc)" by (simp add: decode_guard_def)
    with False show ?thesis by (simp add: decode_while_stop decode_loop.simps [of buf n i acc])
  next
    case True
    then have g: "decode_guard n (i, Inr acc)" by (simp add: decode_guard_def)
    show ?thesis
    proof (cases "buffer_at buf i")
      case (Inl e)
      have b: "decode_body buf (i, Inr acc) = (i + 1, Inl e)" using Inl by (simp add: decode_body_def)
      have "\<not> decode_guard n (i + 1, Inl e)" by (simp add: decode_guard_def)
      with True Inl g b show ?thesis
        by (simp add: decode_while_go decode_while_stop decode_loop.simps [of buf n i acc])
    next
      case (Inr x)
      have b: "decode_body buf (i, Inr acc) = (i + 1, Inr (acc @ hex_byte x))" using Inr by (simp add: decode_body_def)
      from True Inr g b "1.IH" [OF True Inr] show ?thesis
        by (simp add: decode_while_go decode_loop.simps [of buf n i acc])
    qed
  qed
qed

text \<open>
  C29. The byte loop terminates: run as a \<open>while\<close> loop over its \<open>u64\<close> counter, from
  any buffer and any size, it always stops, and the text (or the error) it ends with is
  exactly the result of \<^const>\<open>decode_loop\<close>, hence of \<^const>\<open>decode\<close>.
\<close>

theorem decode_while_terminates:
  "\<exists>i r. decode_while buf n = Some (i, r) \<and> r = decode_loop buf n 0 []"
proof -
  obtain t where t: "decode_while buf n = Some t"
    using decode_while_from_Some unfolding decode_while_def by blast
  have "map_option snd (decode_while buf n) = Some (decode_loop buf n 0 [])"
    unfolding decode_while_def by (rule decode_while_from)
  with t show ?thesis by (cases t) auto
qed

end
