(* ===== verification/Linear_Run.thy ===== *)
theory Linear_Run
  imports Assembler_Plugin Decode
begin

text \<open>
  A linear run of decoding as the analysis driver performs it: instructions are fed to
  \<open>done\<close> one after another until it answers "done".  The driver is REDasm's
  \<open>Disassembler\<close>, outside \<open>src/\<close>; \<open>linear_run\<close> models it from the design
  document and returns how many instructions the run consumed (\<open>None\<close> when the input
  ran out first).  The theory proves that every run ends: at the instruction after an
  unconditional jump on an architecture with delay slots, at the jump itself otherwise.
\<close>

fun linear_run :: "assembler_plugin \<Rightarrow> instruction list \<Rightarrow> fault + nat option \<times> assembler_plugin" where
  "linear_run p [] = Inr (None, p)"
| "linear_run p (i # is) =
     (case done_asm p i of
        Inl e \<Rightarrow> Inl e
      | Inr (True, p') \<Rightarrow> Inr (Some 1, p')
      | Inr (False, p') \<Rightarrow>
          (case linear_run p' is of Inl e \<Rightarrow> Inl e | Inr (k, q) \<Rightarrow> Inr (map_option Suc k, q)))"

definition ends_run :: "instruction \<Rightarrow> bool" where
  "ends_run i \<longleftrightarrow> ins_is i InstructionTypes_Jump \<and> \<not> ins_is i InstructionTypes_Conditional"

subsection \<open>One step of \<open>done\<close>\<close>

lemma done_pending_ends:
  "asm_statestack p = cur # rest \<Longrightarrow> has_flag cur AssemblerFlags_DelaySlot \<Longrightarrow> \<exists>p'. done_asm p i = Inr (True, p')"
  by (simp add: done_asm_def)

lemma done_flags:
  "done_asm p i = Inr (b, p') \<Longrightarrow> hasFlag p' f = hasFlag p f \<and> asm_statestack p' \<noteq> []"
  by (auto simp: done_asm_def hasFlag_def split: list.splits if_splits)

lemma done_jump_no_delay:
  "asm_statestack p \<noteq> [] \<Longrightarrow> ends_run j \<Longrightarrow> \<not> hasFlag p AssemblerFlags_DelaySlot \<Longrightarrow>
   \<exists>p'. done_asm p j = Inr (True, p')"
  by (auto simp: done_asm_def ends_run_def neq_Nil_conv)

lemma linear_run_next_ends:
  assumes "asm_statestack p = cur # rest" "has_flag cur AssemblerFlags_DelaySlot"
  shows "\<exists>q. linear_run p (x # xs) = Inr (Some 1, q)"
  using done_pending_ends [OF assms, of x] by auto

text \<open>
  C30. Every linear run ends: on a plugin with a pushed context, if the input holds an
  unconditional jump at position \<open>k\<close> (counting from 0) followed by at least one more
  instruction, the run stops after at most \<open>k + 2\<close> instructions with delay slots and
  after at most \<open>k + 1\<close> without, whatever comes before the jump.
\<close>

theorem linear_run_ends:
  assumes "asm_statestack p \<noteq> []" "k + 1 < length xs" "ends_run (xs ! k)"
  shows "\<exists>m q. linear_run p xs = Inr (Some m, q)
               \<and> m \<le> k + (if hasFlag p AssemblerFlags_DelaySlot then 2 else 1)"
  using assms
proof (induction xs arbitrary: p k)
  case Nil
  then show ?case by simp
next
  case (Cons x xs)
  obtain b p' where d: "done_asm p x = Inr (b, p')"
    using done_asm_total [OF Cons.prems(1)] by blast
  have fl: "hasFlag p' AssemblerFlags_DelaySlot = hasFlag p AssemblerFlags_DelaySlot" "asm_statestack p' \<noteq> []"
    using done_flags [OF d] by auto
  show ?case
  proof (cases b)
    case True
    with d show ?thesis by auto
  next
    case False
    show ?thesis
    proof (cases k)
      case 0
      then have j: "ends_run x" using Cons.prems(3) by simp
      have d': "done_asm p x = Inr (False, p')" using d False by simp
      from done_jump_marks_slot [OF d'] j obtain cur rest where
        ds: "hasFlag p AssemblerFlags_DelaySlot" and stk: "asm_statestack p' = cur # rest"
          "has_flag cur AssemblerFlags_DelaySlot" by (auto simp: ends_run_def)
      obtain y ys where xs: "xs = y # ys" using Cons.prems(2) 0 by (cases xs) auto
      from linear_run_next_ends [OF stk, of y ys] obtain q where "linear_run p' xs = Inr (Some 1, q)"
        using xs by blast
      with d False 0 ds show ?thesis by auto
    next
      case (Suc k')
      have "k' + 1 < length xs" "ends_run (xs ! k')" using Cons.prems(2,3) Suc by auto
      from Cons.IH [OF fl(2) this] obtain m q where
        "linear_run p' xs = Inr (Some m, q)" "m \<le> k' + (if hasFlag p' AssemblerFlags_DelaySlot then 2 else 1)"
        by blast
      with d False Suc fl(1) show ?thesis by auto
    qed
  qed
qed

theorem linear_run_ends_witness:
  "asm_statestack (pushState (AssemblerPlugin AssemblerFlags_DelaySlot)) \<noteq> []
   \<and> 1 + 1 < length [raw_ins, jump_1000, raw_ins] \<and> ends_run ([raw_ins, jump_1000, raw_ins] ! 1)
   \<and> (\<exists>m q. linear_run (pushState (AssemblerPlugin AssemblerFlags_DelaySlot)) [raw_ins, jump_1000, raw_ins] = Inr (Some m, q)
          \<and> m \<le> 3)"
proof -
  have h: "asm_statestack (pushState (AssemblerPlugin AssemblerFlags_DelaySlot)) \<noteq> []"
    "1 + 1 < length [raw_ins, jump_1000, raw_ins]" "ends_run ([raw_ins, jump_1000, raw_ins] ! 1)"
    by (simp_all add: pushState_def ends_run_def jump_1000_is)
  have ds: "hasFlag (pushState (AssemblerPlugin AssemblerFlags_DelaySlot)) AssemblerFlags_DelaySlot"
    by (simp add: hasFlag_def pushState_def AssemblerPlugin_def)
  from linear_run_ends [OF h] ds h show ?thesis by auto
qed

end
