(* ===== verification/Disassembler_Facade.thy ===== *)
theory Disassembler_Facade
  imports REDasm_Types
begin

text \<open>
  The collaborators operand analysis calls through \<open>DisassemblerFunctions\<close>: the symbol
  table, the reference list, the decode work-list, the instruction updates, and the
  read-only views of the loaded binary (pointer reads, segments, string detection, the
  optional VMIL emulator).  None of them is in the sources under \<open>src/\<close>; each is
  modelled from the design document's contracts (sections 2, 3 and 6):
  \<^item> the symbol table maps an address to at most one symbol; \<open>create*\<close> inserts a
    symbol only where none exists and tells whether it did (so a later, weaker
    classification never replaces an earlier one), \<open>erase\<close> removes one;
  \<^item> \<open>disassemble(a)\<close> appends a decode request for \<open>a\<close> to the work-list and returns
    whether decoding at \<open>a\<close> succeeds; \<open>pushReference\<close> appends an edge, never removes
    one; \<open>updateInstruction\<close> and \<open>checkJumpTable\<close> are recorded as calls;
  \<^item> the binary itself is the read-only \<open>environment\<close>.
  Symbol names are generated from the kind and REDasm's uppercase \<open>hex\<close> of the address.
\<close>

unbundle bit_operations_syntax

type_synonym symbol_table = "address_t \<rightharpoonup> symbol"

record disassembler =
  symtab :: symbol_table
  references :: "(address_t \<times> address_t) list"  \<comment> \<open>(symbol address, referencing instruction)\<close>
  worklist :: "address_t list"                     \<comment> \<open>\<open>disassemble\<close> requests, in order\<close>
  updated :: "instruction list"                    \<comment> \<open>\<open>updateInstruction\<close> calls\<close>
  jumptable_checks :: "(address_t \<times> int) list"    \<comment> \<open>\<open>checkJumpTable\<close>: instruction, operand index\<close>
  output_log :: "string list"                      \<comment> \<open>\<open>REDasm::log\<close>\<close>

record environment =
  env_pointer :: "address_t \<rightharpoonup> u64"           \<comment> \<open>\<open>dereferencePointer\<close>\<close>
  env_segment :: "address_t \<rightharpoonup> segment"       \<comment> \<open>\<open>format()->segment\<close>\<close>
  env_string :: "address_t \<Rightarrow> nat \<times> bool"      \<comment> \<open>\<open>locationIsString\<close>: length, wide\<close>
  env_read_string :: "address_t \<Rightarrow> string"       \<comment> \<open>\<open>readString\<close>\<close>
  env_read_wstring :: "address_t \<Rightarrow> string"      \<comment> \<open>\<open>readWString\<close>\<close>
  env_decodable :: "address_t \<Rightarrow> bool"           \<comment> \<open>result of \<open>disassemble\<close>\<close>
  env_emulator :: "(operand \<Rightarrow> address_t option) option"  \<comment> \<open>\<open>emulator()->read\<close>\<close>

subsection \<open>Names\<close>

fun hex_nat :: "nat \<Rightarrow> string" where
  "hex_nat n = (if n < 16 then [hex_digit_upper n] else hex_nat (n div 16) @ [hex_digit_upper (n mod 16)])"

definition hex_address :: "address_t \<Rightarrow> string" where
  "hex_address a = hex_nat (unat a)"

definition symbol_prefix :: "u32 \<Rightarrow> string" where
  "symbol_prefix ty =
     (if has_flag ty SymbolTypes_FunctionMask then ''sub_''
      else if has_flag ty SymbolTypes_WideStringMask then ''wstr_''
      else if has_flag ty SymbolTypes_String then ''str_''
      else if has_flag ty SymbolTypes_Code then ''loc_''
      else if has_flag ty SymbolTypes_Pointer then ''ptr_''
      else ''data_'')"

definition make_symbol :: "address_t \<Rightarrow> u32 \<Rightarrow> symbol" where
  "make_symbol a ty = \<lparr>sym_address = a, sym_name = symbol_prefix ty @ hex_address a, sym_type = ty\<rparr>"

subsection \<open>The symbol table\<close>

definition st_create :: "address_t \<Rightarrow> u32 \<Rightarrow> symbol_table \<Rightarrow> bool \<times> symbol_table" where
  "st_create a ty st = (case st a of Some _ \<Rightarrow> (False, st) | None \<Rightarrow> (True, st(a \<mapsto> make_symbol a ty)))"

definition createFunction :: "address_t \<Rightarrow> symbol_table \<Rightarrow> bool \<times> symbol_table" where
  "createFunction a st = st_create a SymbolTypes_Function st"

definition createLocation :: "address_t \<Rightarrow> u32 \<Rightarrow> symbol_table \<Rightarrow> symbol_table" where
  "createLocation a ty st = snd (st_create a ty st)"

definition createString :: "address_t \<Rightarrow> symbol_table \<Rightarrow> symbol_table" where
  "createString a st = snd (st_create a SymbolTypes_String st)"

definition createWString :: "address_t \<Rightarrow> symbol_table \<Rightarrow> symbol_table" where
  "createWString a st = snd (st_create a SymbolTypes_WideString st)"

definition erase :: "address_t \<Rightarrow> symbol_table \<Rightarrow> symbol_table" where
  "erase a st = st(a := None)"

subsection \<open>The facade's effects\<close>

definition disassemble :: "environment \<Rightarrow> address_t \<Rightarrow> disassembler \<Rightarrow> bool \<times> disassembler" where
  "disassemble env a d = (env_decodable env a, d\<lparr>worklist := worklist d @ [a]\<rparr>)"

definition pushReference :: "symbol \<Rightarrow> address_t \<Rightarrow> disassembler \<Rightarrow> disassembler" where
  "pushReference s from d = d\<lparr>references := references d @ [(sym_address s, from)]\<rparr>"

definition updateInstruction :: "instruction \<Rightarrow> disassembler \<Rightarrow> disassembler" where
  "updateInstruction i d = d\<lparr>updated := updated d @ [i]\<rparr>"

definition checkJumpTable :: "instruction \<Rightarrow> operand \<Rightarrow> disassembler \<Rightarrow> disassembler" where
  "checkJumpTable i op d = d\<lparr>jumptable_checks := jumptable_checks d @ [(ins_address i, op_index op)]\<rparr>"

definition log_line :: "string \<Rightarrow> disassembler \<Rightarrow> disassembler" where
  "log_line s d = d\<lparr>output_log := output_log d @ [s]\<rparr>"

definition MIN_STRING :: nat where
  "MIN_STRING = 4"

text \<open>
  \<open>BRANCH_DIRECTION\<close> (a macro of REDasm's headers): the target minus the instruction's
  address, both cast to \<open>s64\<close>; the 64 bits of that difference are the wrapping
  \<open>u64\<close> subtraction, kept here as a word for the caller to read.
\<close>

definition branch_direction :: "instruction \<Rightarrow> address_t \<Rightarrow> u64" where
  "branch_direction i target = target - ins_address i"

subsection \<open>Invariant of the symbol table and the references\<close>

text \<open>Every symbol sits at its own address, and every reference names a symbol.\<close>

definition symtab_wf :: "symbol_table \<Rightarrow> bool" where
  "symtab_wf st \<longleftrightarrow> (\<forall>a s. st a = Some s \<longrightarrow> sym_address s = a)"

definition disasm_inv :: "disassembler \<Rightarrow> bool" where
  "disasm_inv d \<longleftrightarrow> symtab_wf (symtab d) \<and> (\<forall>r \<in> set (references d). fst r \<in> dom (symtab d))"

text \<open>
  How the analysis may change the facade: no symbol disappears and no function is
  demoted, the invariant is carried over, and references and decode requests are only
  appended.
\<close>

definition keeps_symbols :: "symbol_table \<Rightarrow> symbol_table \<Rightarrow> bool" where
  "keeps_symbols st st' \<longleftrightarrow>
     (\<forall>a s. st a = Some s \<longrightarrow> (\<exists>s'. st' a = Some s' \<and> (isFunction s \<longrightarrow> isFunction s')))"

definition evolves :: "disassembler \<Rightarrow> disassembler \<Rightarrow> bool" where
  "evolves d d' \<longleftrightarrow>
     keeps_symbols (symtab d) (symtab d') \<and> (disasm_inv d \<longrightarrow> disasm_inv d')
     \<and> (\<exists>rs. references d' = references d @ rs) \<and> (\<exists>ws. worklist d' = worklist d @ ws)"

subsection \<open>Facts on the contracts\<close>

named_theorems facade_simps

lemma st_create_lookup [simp, facade_simps]:
  "snd (st_create a ty st) b = (if b = a \<and> st a = None then Some (make_symbol a ty) else st b)"
  by (auto simp: st_create_def split: option.splits)

lemma st_create_fst [simp, facade_simps]: "fst (st_create a ty st) \<longleftrightarrow> st a = None"
  by (simp add: st_create_def split: option.splits)

lemma create_lookups [simp, facade_simps]:
  "createLocation a ty st b = (if b = a \<and> st a = None then Some (make_symbol a ty) else st b)"
  "createString a st b = (if b = a \<and> st a = None then Some (make_symbol a SymbolTypes_String) else st b)"
  "createWString a st b = (if b = a \<and> st a = None then Some (make_symbol a SymbolTypes_WideString) else st b)"
  "snd (createFunction a st) b = (if b = a \<and> st a = None then Some (make_symbol a SymbolTypes_Function) else st b)"
  "fst (createFunction a st) \<longleftrightarrow> st a = None"
  "erase a st b = (if b = a then None else st b)"
  by (simp_all add: createLocation_def createString_def createWString_def createFunction_def erase_def)

lemma make_symbol_fields [simp, facade_simps]:
  "sym_address (make_symbol a ty) = a" "sym_type (make_symbol a ty) = ty"
  by (simp_all add: make_symbol_def)

lemma isFunction_make [simp, facade_simps]:
  "isFunction (make_symbol a ty) \<longleftrightarrow> has_flag ty SymbolTypes_FunctionMask"
  by (simp add: isFunction_def make_symbol_def)

lemma Function_is_function [simp, facade_simps]: "has_flag SymbolTypes_Function SymbolTypes_FunctionMask"
  by (simp add: has_flag_def symbol_type_defs)

lemma facade_fields [simp, facade_simps]:
  "symtab (snd (disassemble env a d)) = symtab d"
  "references (snd (disassemble env a d)) = references d"
  "worklist (snd (disassemble env a d)) = worklist d @ [a]"
  "fst (disassemble env a d) = env_decodable env a"
  "symtab (pushReference s f d) = symtab d"
  "references (pushReference s f d) = references d @ [(sym_address s, f)]"
  "worklist (pushReference s f d) = worklist d"
  "symtab (updateInstruction i d) = symtab d"
  "references (updateInstruction i d) = references d"
  "worklist (updateInstruction i d) = worklist d"
  "symtab (checkJumpTable i op d) = symtab d"
  "references (checkJumpTable i op d) = references d"
  "worklist (checkJumpTable i op d) = worklist d"
  "symtab (log_line t d) = symtab d"
  "references (log_line t d) = references d"
  "worklist (log_line t d) = worklist d"
  by (simp_all add: disassemble_def pushReference_def updateInstruction_def checkJumpTable_def log_line_def)

lemma keeps_symbols_refl [simp]: "keeps_symbols st st"
  by (auto simp: keeps_symbols_def)

lemma keeps_symbols_trans: "keeps_symbols st1 st2 \<Longrightarrow> keeps_symbols st2 st3 \<Longrightarrow> keeps_symbols st1 st3"
  by (fastforce simp: keeps_symbols_def)

lemma keeps_symbols_dom: "keeps_symbols st st' \<Longrightarrow> dom st \<subseteq> dom st'"
  by (fastforce simp: keeps_symbols_def)

lemma evolves_refl [simp]: "evolves d d"
  by (auto simp: evolves_def)

lemma evolves_trans: "evolves d1 d2 \<Longrightarrow> evolves d2 d3 \<Longrightarrow> evolves d1 d3"
  unfolding evolves_def by (auto intro: keeps_symbols_trans)

lemma symtab_wf_create: "symtab_wf st \<Longrightarrow> symtab_wf (snd (st_create a ty st))"
  by (simp add: symtab_wf_def)

lemma evolves_same_symtab:
  "symtab d' = symtab d \<Longrightarrow> references d' = references d \<Longrightarrow> worklist d' = worklist d @ ws \<Longrightarrow> evolves d d'"
  by (auto simp: evolves_def disasm_inv_def)

lemma evolves_st_create:
  "evolves d (d\<lparr>symtab := snd (st_create a ty (symtab d))\<rparr>)"
proof -
  have k: "keeps_symbols (symtab d) (snd (st_create a ty (symtab d)))"
    by (auto simp: keeps_symbols_def)
  then have "dom (symtab d) \<subseteq> dom (snd (st_create a ty (symtab d)))" by (rule keeps_symbols_dom)
  with k show ?thesis
    by (auto simp: evolves_def disasm_inv_def symtab_wf_create)
qed

lemma evolves_push_found:
  "symtab d a = Some s \<Longrightarrow> evolves d (pushReference s f d)"
  by (auto simp: evolves_def disasm_inv_def symtab_wf_def)

lemma evolves_replace_function:
  "evolves d (d\<lparr>symtab := snd (createFunction a (erase a (symtab d)))\<rparr>)"
proof -
  let ?st = "snd (createFunction a (erase a (symtab d)))"
  have k: "keeps_symbols (symtab d) ?st"
    by (auto simp: keeps_symbols_def)
  have "dom (symtab d) \<subseteq> dom ?st" using keeps_symbols_dom [OF k] .
  moreover have "symtab_wf (symtab d) \<Longrightarrow> symtab_wf ?st"
    by (simp add: symtab_wf_def)
  ultimately show ?thesis using k
    by (auto simp: evolves_def disasm_inv_def)
qed

lemma evolves_then_create:
  "evolves d d1 \<Longrightarrow> evolves d (d1\<lparr>symtab := snd (st_create a ty (symtab d1))\<rparr>)"
  using evolves_st_create evolves_trans by blast

lemma evolves_facade_calls:
  "evolves d (updateInstruction i d)" "evolves d (checkJumpTable i op d)"
  "evolves d (log_line t d)" "evolves d (snd (disassemble env a d))"
  by (rule evolves_same_symtab; simp)+

lemma evolves_update_create:
  "evolves d ((updateInstruction i' d)\<lparr>symtab := snd (st_create a ty (symtab d))\<rparr>)"
  using evolves_then_create [OF evolves_facade_calls(1) [of d i'], of a ty] by simp

lemma disassemble_evolves: "disassemble env a d1 = (b, d2) \<Longrightarrow> evolves d1 d2"
  by (auto simp: disassemble_def intro: evolves_same_symtab)

lemma disassemble_log_evolves:
  "disassemble env a (log_line t d) = (b, d2) \<Longrightarrow> evolves d d2"
  using evolves_facade_calls(3) disassemble_evolves evolves_trans by blast

lemma evolves_create_update_push:
  assumes e: "evolves d d2"
    and found: "symtab (d2\<lparr>symtab := snd (st_create a ty (symtab d2))\<rparr>) a = Some s"
  shows "evolves d (pushReference s f (updateInstruction i' (d2\<lparr>symtab := snd (st_create a ty (symtab d2))\<rparr>)))"
proof -
  let ?d3 = "d2\<lparr>symtab := snd (st_create a ty (symtab d2))\<rparr>"
  have "evolves d ?d3" using e by (rule evolves_then_create)
  then have "evolves d (updateInstruction i' ?d3)" using evolves_trans evolves_facade_calls(1) by blast
  moreover have "evolves (updateInstruction i' ?d3) (pushReference s f (updateInstruction i' ?d3))"
    using found by (intro evolves_push_found [where a = a]) simp
  ultimately show ?thesis by (rule evolves_trans)
qed

end
