(* ===== verification/Operand_Analysis.thy ===== *)
theory Operand_Analysis
  imports Assembler_Plugin Disassembler_Facade
begin

text \<open>
  \<open>AssemblerPlugin::analyzeOperand\<close> and \<open>AssemblerPlugin::analyzeRegister\<close>
  (\<open>assembler.cpp\<close>, lines 28-106 and 186-219): for one operand of a decoded
  instruction, decide what its value denotes and extend the symbol table, the work-list
  and the references.  The body of \<open>analyzeOperand\<close> is split at the source's blocks:
  the operand's value (line 37), the pointer dereference (lines 40-47), the call-target
  promotion (lines 56-60), the jump classification (lines 66-82), the string/data
  classification (lines 83-99) and the reference recording (lines 102-105); the top-level
  definition composes them in the source's order with its early returns.  The shared
  \<open>instruction\<close> object is passed and returned.  The one crash the source can reach in
  principle, \<open>symbol->name\<close> on a null symbol in \<open>analyzeRegister\<close>, is the error
  \<open>NullSymbol\<close>; the theorems show it never happens.  The loop test of a direct jump
  reads \<open>BRANCH_DIRECTION\<close> through the \<open>int dir\<close> of line 70 (\<open>jump_dir\<close>: the
  wrapping difference narrowed to 32 bits and read as signed), and the theory shows what
  that narrowing does to far jumps.
\<close>

unbundle bit_operations_syntax

datatype analysis_fault = NullSymbol

definition operand_value :: "operand \<Rightarrow> u64" where
  "operand_value op =
     (if op_type op = Displacement then mem_displacement (op_mem op) else op_u_value op)"

definition dereference_step ::
  "environment \<Rightarrow> instruction \<Rightarrow> operand \<Rightarrow> symbol option \<Rightarrow> u64 \<Rightarrow> disassembler \<Rightarrow> u64 \<times> disassembler" where
  "dereference_step env i op symbol value d =
     (if (case symbol of None \<Rightarrow> True | Some s \<Rightarrow> \<not> sym_is s SymbolTypes_Import)
         \<and> op_type op = Memory \<and> (op_read op \<or> ins_is i InstructionTypes_Branch)
      then (case env_pointer env value of
              Some v \<Rightarrow> (v, d\<lparr>symtab := createLocation value (SymbolTypes_Data OR SymbolTypes_Pointer) (symtab d)\<rparr>)
            | None \<Rightarrow> (value, d))
      else (value, d))"

definition analyze_call_target ::
  "environment \<Rightarrow> symbol option \<Rightarrow> u64 \<Rightarrow> disassembler \<Rightarrow> disassembler" where
  "analyze_call_target env symbol opvalue d =
     (let st = (case symbol of
                  Some s \<Rightarrow> if \<not> isFunction s then erase opvalue (symtab d) else symtab d
                | None \<Rightarrow> symtab d);
          (created, st') = createFunction opvalue st;
          d' = d\<lparr>symtab := st'\<rparr>
      in if created then snd (disassemble env opvalue d') else d')"

text \<open>
  Line 70 stores the direction in an \<open>int\<close>: the 64-bit difference narrowed to its low
  32 bits, read as two's complement.
\<close>

definition jump_dir :: "instruction \<Rightarrow> address_t \<Rightarrow> int" where
  "jump_dir i target = sint (ucast (branch_direction i target) :: 32 word)"

definition analyze_jump ::
  "instruction \<Rightarrow> operand \<Rightarrow> u64 \<Rightarrow> disassembler \<Rightarrow> instruction \<times> disassembler" where
  "analyze_jump i op opvalue d =
     (if op_type op \<noteq> Displacement \<or> displacementOnly (op_mem op) then
        (let dir = jump_dir i opvalue;
             i' = (if dir < 0 then cmt ''Possible loop'' i
                   else if dir = 0 then cmt ''Infinite loop'' i
                   else i);
             d' = updateInstruction i' d
         in (i', d'\<lparr>symtab := createLocation opvalue SymbolTypes_Code (symtab d')\<rparr>))
      else (i, checkJumpTable i op d))"

definition analyze_data ::
  "environment \<Rightarrow> segment \<Rightarrow> instruction \<Rightarrow> u64 \<Rightarrow> disassembler \<Rightarrow> instruction \<times> disassembler" where
  "analyze_data env seg i opvalue d =
     (let (len, wide) = env_string env opvalue in
      if \<not> seg_is seg SegmentTypes_Bss \<and> MIN_STRING \<le> len then
        (if wide then
           (let i' = cmt (''UNICODE: '' @ env_read_wstring env opvalue) i
            in (i', updateInstruction i' (d\<lparr>symtab := createWString opvalue (symtab d)\<rparr>)))
         else
           (let i' = cmt (''STRING: '' @ env_read_string env opvalue) i
            in (i', updateInstruction i' (d\<lparr>symtab := createString opvalue (symtab d)\<rparr>))))
      else (i, d\<lparr>symtab := createLocation opvalue SymbolTypes_Data (symtab d)\<rparr>))"

definition record_reference :: "instruction \<Rightarrow> u64 \<Rightarrow> disassembler \<Rightarrow> disassembler" where
  "record_reference i opvalue d =
     (case symtab d opvalue of Some s \<Rightarrow> pushReference s (ins_address i) d | None \<Rightarrow> d)"

definition is_call_target :: "instruction \<Rightarrow> operand \<Rightarrow> bool" where
  "is_call_target i op \<longleftrightarrow>
     ins_is i InstructionTypes_Call \<and> hasTargets i \<and> op_index op = ins_target_idx i"

definition analyzeRegister ::
  "assembler_plugin \<Rightarrow> environment \<Rightarrow> instruction \<Rightarrow> operand \<Rightarrow> disassembler
   \<Rightarrow> analysis_fault + instruction \<times> disassembler" where
  "analyzeRegister p env i op d =
     (case env_emulator env of
        None \<Rightarrow> Inr (i, d)
      | Some emu \<Rightarrow>
          (if \<not> ins_is i InstructionTypes_Branch \<or> op_type op \<noteq> Register \<or> op_index op \<noteq> ins_target_idx i
           then Inr (i, d)
           else
             (case emu op of
                None \<Rightarrow> Inr (i, d)
              | Some target \<Rightarrow>
                  (let d1 = log_line (''VMIL @ '' @ hex_address (ins_address i) @ '' jump to ''
                                      @ hex_address target) d
                   in if \<not> canEmulateVMIL p then
                        (let i' = cmt (''='' @ hex_address target) i in Inr (i', updateInstruction i' d1))
                      else
                        (case disassemble env target d1 of
                           (False, d2) \<Rightarrow> Inr (i, d2)
                         | (True, d2) \<Rightarrow>
                             (let d3 = d2\<lparr>symtab := (if ins_is i InstructionTypes_Call
                                                      then snd (createFunction target (symtab d2))
                                                      else createLocation target SymbolTypes_Code (symtab d2))\<rparr>
                              in (case symtab d3 target of
                                    None \<Rightarrow> Inl NullSymbol
                                  | Some s \<Rightarrow>
                                      (let i' = cmt (''='' @ sym_name s) (set_target target i)
                                       in Inr (i', pushReference s (ins_address i) (updateInstruction i' d3))))))))))"

definition analyzeOperand ::
  "assembler_plugin \<Rightarrow> environment \<Rightarrow> instruction \<Rightarrow> operand \<Rightarrow> disassembler
   \<Rightarrow> analysis_fault + instruction \<times> disassembler" where
  "analyzeOperand p env i op d =
     (if op_type op = Register then analyzeRegister p env i op d
      else
        (let value = operand_value op;
             symbol = symtab d value;
             (opvalue, d1) = dereference_step env i op symbol value d
         in case env_segment env opvalue of
              None \<Rightarrow> Inr (i, d1)
            | Some seg \<Rightarrow>
                (let (i2, d2) =
                       (if is_call_target i op then (i, analyze_call_target env symbol opvalue d1)
                        else if ins_is i InstructionTypes_Jump then analyze_jump i op opvalue d1
                        else analyze_data env seg i opvalue d1)
                 in Inr (i2, record_reference i2 opvalue d2))))"

text \<open>
  The plugin's factories (lines 17-26).  The base class has no emulator: the facade's
  \<open>emulator()\<close>, read by \<open>analyzeRegister\<close> as \<open>env_emulator\<close>, is what
  \<open>createEmulator\<close> returns.  \<open>createPrinter\<close> builds a printer over the facade and
  the symbol table it is given.
\<close>

definition createEmulator :: "assembler_plugin \<Rightarrow> disassembler \<Rightarrow> (operand \<Rightarrow> address_t option) option" where
  "createEmulator p d = None"

record printer =
  pr_disassembler :: disassembler
  pr_symboltable :: symbol_table

definition createPrinter :: "assembler_plugin \<Rightarrow> disassembler \<Rightarrow> symbol_table \<Rightarrow> printer" where
  "createPrinter p d st = \<lparr>pr_disassembler = d, pr_symboltable = st\<rparr>"

text \<open>Entries of the symbol table that a step leaves exactly as they were.\<close>

definition preserves_entries :: "disassembler \<Rightarrow> disassembler \<Rightarrow> bool" where
  "preserves_entries d d' \<longleftrightarrow> (\<forall>a s. symtab d a = Some s \<longrightarrow> symtab d' a = Some s)"

subsection \<open>Fixtures\<close>

text \<open>
  A small binary: one code segment below \<open>0x8000\<close>, a pointer at \<open>0x4000\<close> to
  \<open>0x3000\<close>, a four-character string at \<open>0x5000\<close> and a three-character one at
  \<open>0x5100\<close>, and an emulator that resolves register 1 to \<open>0x3000\<close>.
\<close>

definition seg_text :: segment where
  "seg_text = \<lparr>seg_name = ''.text'', seg_type = SegmentTypes_Code\<rparr>"

definition env0 :: environment where
  "env0 = \<lparr>env_pointer = [0x4000 \<mapsto> 0x3000],
           env_segment = (\<lambda>a. if a < 0x8000 then Some seg_text else None),
           env_string = (\<lambda>a. if a = 0x5000 then (4, False) else if a = 0x5100 then (3, False) else (0, False)),
           env_read_string = (\<lambda>a. ''abcd''),
           env_read_wstring = (\<lambda>a. ''''),
           env_decodable = (\<lambda>a. True),
           env_emulator = None\<rparr>"

definition env_emu :: environment where
  "env_emu = env0\<lparr>env_emulator := Some (\<lambda>op. if op_reg op = 1 then Some 0x3000 else None)\<rparr>"

definition d0 :: disassembler where
  "d0 = \<lparr>symtab = Map.empty, references = [], worklist = [], updated = [], jumptable_checks = [],
         output_log = []\<rparr>"

definition call_2000 :: instruction where
  "call_2000 = \<lparr>ins_address = 0x2000, ins_size = 5, ins_bytes = [], ins_type = InstructionTypes_Call,
                ins_target_idx = 0, ins_targets = [0x3000], ins_comments = []\<rparr>"

definition mov_2100 :: instruction where
  "mov_2100 = \<lparr>ins_address = 0x2100, ins_size = 5, ins_bytes = [], ins_type = InstructionTypes_None,
               ins_target_idx = -1, ins_targets = [], ins_comments = []\<rparr>"

definition jmp_reg_1800 :: instruction where
  "jmp_reg_1800 = \<lparr>ins_address = 0x1800, ins_size = 2, ins_bytes = [], ins_type = InstructionTypes_Jump,
                   ins_target_idx = 0, ins_targets = [], ins_comments = []\<rparr>"

definition no_mem :: mem_operand where
  "no_mem = \<lparr>mem_base = None, mem_index = None, mem_scale = 1, mem_displacement = 0\<rparr>"

definition imm_op :: "u64 \<Rightarrow> operand" where
  "imm_op v = \<lparr>op_type = Immediate, op_read = True, op_index = 0, op_reg = 0, op_u_value = v, op_mem = no_mem\<rparr>"

definition mem_op :: "u64 \<Rightarrow> operand" where
  "mem_op v = \<lparr>op_type = Memory, op_read = True, op_index = 0, op_reg = 0, op_u_value = v, op_mem = no_mem\<rparr>"

definition table_op :: operand where
  "table_op = \<lparr>op_type = Displacement, op_read = True, op_index = 0, op_reg = 0, op_u_value = 0,
               op_mem = \<lparr>mem_base = None, mem_index = Some 1, mem_scale = 4, mem_displacement = 0x6000\<rparr>\<rparr>"

text \<open>A jump 4 GiB above the code segment back to \<open>0x1000\<close>.\<close>

definition far_jump :: instruction where
  "far_jump = jump_1000\<lparr>ins_address := 0x100001000\<rparr>"

definition reg_op :: "nat \<Rightarrow> operand" where
  "reg_op r = \<lparr>op_type = Register, op_read = True, op_index = 0, op_reg = r, op_u_value = 0, op_mem = no_mem\<rparr>"

lemmas fixture_defs = seg_text_def env0_def env_emu_def d0_def call_2000_def mov_2100_def
  jmp_reg_1800_def no_mem_def imm_op_def mem_op_def table_op_def reg_op_def jump_1000_def

lemmas eval_defs = ins_is_def is_call_target_def hasTargets_def has_flag_def instruction_type_defs
  operand_value_def symtab_wf_def disasm_inv_def displacementOnly_def

subsection \<open>Each block carries the facade forward\<close>

lemma dereference_evolves: "evolves d (snd (dereference_step env i op sy value d))"
  by (auto simp: dereference_step_def createLocation_def evolves_st_create split: option.splits)

lemma call_target_closed:
  "analyze_call_target env sy v d =
     (let st = (case sy of Some s \<Rightarrow> if \<not> isFunction s then erase v (symtab d) else symtab d
                         | None \<Rightarrow> symtab d)
      in if st v = None
         then d\<lparr>symtab := st(v \<mapsto> make_symbol v SymbolTypes_Function), worklist := worklist d @ [v]\<rparr>
         else d\<lparr>symtab := st\<rparr>)"
  by (auto simp: analyze_call_target_def createFunction_def st_create_def disassemble_def Let_def
      split: option.splits)

lemma call_target_evolves: "evolves d (analyze_call_target env sy opvalue d)"
proof -
  let ?st = "case sy of Some s \<Rightarrow> if \<not> isFunction s then erase opvalue (symtab d) else symtab d
                      | None \<Rightarrow> symtab d"
  have created: "evolves d (d\<lparr>symtab := snd (createFunction opvalue ?st)\<rparr>)"
    by (auto simp: createFunction_def evolves_st_create evolves_replace_function [unfolded createFunction_def]
        split: option.splits)
  obtain c st' where cf: "createFunction opvalue ?st = (c, st')" by (cases "createFunction opvalue ?st")
  show ?thesis
    using evolves_trans [OF created evolves_facade_calls(4)] created cf
    by (simp add: analyze_call_target_def Let_def)
qed

lemma jump_evolves: "evolves d (snd (analyze_jump i op opvalue d))"
  by (auto simp: analyze_jump_def Let_def createLocation_def evolves_update_create evolves_facade_calls)

lemma data_evolves: "evolves d (snd (analyze_data env seg i opvalue d))"
proof -
  have s: "evolves d (updateInstruction i' (d\<lparr>symtab := snd (st_create opvalue ty (symtab d))\<rparr>))" for i' ty
    using evolves_trans [OF evolves_st_create evolves_facade_calls(1)] .
  show ?thesis
    by (auto simp: analyze_data_def Let_def createLocation_def createString_def createWString_def
        evolves_st_create s split: prod.splits)
qed

lemma record_reference_evolves: "evolves d (record_reference i opvalue d)"
  by (auto simp: record_reference_def evolves_push_found split: option.splits)

lemma register_evolves: "analyzeRegister p env i op d = Inr (i', d') \<Longrightarrow> evolves d d'"
  by (auto simp: analyzeRegister_def Let_def createFunction_def createLocation_def
      evolves_trans [OF evolves_facade_calls(3) evolves_facade_calls(1)]
      dest!: disassemble_log_evolves intro: evolves_create_update_push
      split: option.splits if_splits bool.splits prod.splits)

lemma classify_evolves:
  "evolves d1 (snd (if is_call_target i op then (i, analyze_call_target env sy opvalue d1)
                    else if ins_is i InstructionTypes_Jump then analyze_jump i op opvalue d1
                    else analyze_data env seg i opvalue d1))"
  by (simp add: call_target_evolves jump_evolves data_evolves)

lemma analyzeOperand_evolves:
  assumes r: "analyzeOperand p env i op d = Inr (i', d')"
  shows "evolves d d'"
proof (cases "op_type op = Register")
  case True
  with r show ?thesis by (simp add: analyzeOperand_def register_evolves)
next
  case False
  define v where "v = operand_value op"
  obtain opvalue d1 where dr: "dereference_step env i op (symtab d v) v d = (opvalue, d1)"
    by (cases "dereference_step env i op (symtab d v) v d")
  have e1: "evolves d d1" using dereference_evolves [of d env i op "symtab d v" v] dr by simp
  show ?thesis
  proof (cases "env_segment env opvalue")
    case None
    with r False dr e1 show ?thesis by (simp add: analyzeOperand_def v_def [symmetric])
  next
    case (Some seg)
    define X where "X = (if is_call_target i op then (i, analyze_call_target env (symtab d v) opvalue d1)
                         else if ins_is i InstructionTypes_Jump then analyze_jump i op opvalue d1
                         else analyze_data env seg i opvalue d1)"
    have e2: "evolves d (snd X)" unfolding X_def by (rule evolves_trans [OF e1 classify_evolves])
    have e3: "evolves d (record_reference (fst X) opvalue (snd X))"
      by (rule evolves_trans [OF e2 record_reference_evolves])
    from r False dr Some have "d' = record_reference (fst X) opvalue (snd X)"
      by (auto simp: analyzeOperand_def v_def [symmetric] X_def [symmetric] Let_def split: prod.splits)
    with e3 show ?thesis by simp
  qed
qed

lemma analyzeRegister_total: "\<exists>r. analyzeRegister p env i op d = Inr r"
  by (auto simp: analyzeRegister_def Let_def createFunction_def createLocation_def
      split: option.splits if_splits bool.splits prod.splits)

lemma analyzeOperand_total: "\<exists>i' d'. analyzeOperand p env i op d = Inr (i', d')"
  using analyzeRegister_total [of p env i op d]
  by (auto simp: analyzeOperand_def Let_def split: option.splits prod.splits)

subsection \<open>Unfolding for direct operands and resolved registers\<close>

lemma dereference_direct: "op_type op \<noteq> Memory \<Longrightarrow> dereference_step env i op sy v d = (v, d)"
  by (simp add: dereference_step_def)

lemma analyzeOperand_direct:
  assumes "op_type op \<noteq> Register" "op_type op \<noteq> Memory"
  shows "analyzeOperand p env i op d =
     (case env_segment env (operand_value op) of
        None \<Rightarrow> Inr (i, d)
      | Some seg \<Rightarrow>
          (let (i2, d2) =
                 (if is_call_target i op
                  then (i, analyze_call_target env (symtab d (operand_value op)) (operand_value op) d)
                  else if ins_is i InstructionTypes_Jump then analyze_jump i op (operand_value op) d
                  else analyze_data env seg i (operand_value op) d)
           in Inr (i2, record_reference i2 (operand_value op) d2)))"
  using assms by (simp add: analyzeOperand_def dereference_direct Let_def)

lemma analyzeRegister_resolved:
  assumes "op_type op = Register" "env_emulator env = Some emu" "ins_is i InstructionTypes_Branch"
    "op_index op = ins_target_idx i" "emu op = Some t"
  shows "analyzeOperand p env i op d =
    (let d1 = log_line (''VMIL @ '' @ hex_address (ins_address i) @ '' jump to '' @ hex_address t) d
     in if \<not> canEmulateVMIL p then
          (let i' = cmt (''='' @ hex_address t) i in Inr (i', updateInstruction i' d1))
        else
          (case disassemble env t d1 of
             (False, d2) \<Rightarrow> Inr (i, d2)
           | (True, d2) \<Rightarrow>
               (let d3 = d2\<lparr>symtab := (if ins_is i InstructionTypes_Call
                                        then snd (createFunction t (symtab d2))
                                        else createLocation t SymbolTypes_Code (symtab d2))\<rparr>
                in (case symtab d3 t of
                      None \<Rightarrow> Inl NullSymbol
                    | Some s \<Rightarrow>
                        (let i' = cmt (''='' @ sym_name s) (set_target t i)
                         in Inr (i', pushReference s (ins_address i) (updateInstruction i' d3)))))))"
  using assms by (simp add: analyzeOperand_def analyzeRegister_def)

text \<open>With the base plugin's emulator a register operand changes nothing.\<close>

lemma base_plugin_register_inert:
  "op_type op = Register \<Longrightarrow> analyzeOperand p (env\<lparr>env_emulator := createEmulator p d\<rparr>) i op d = Inr (i, d)"
  by (simp add: analyzeOperand_def analyzeRegister_def createEmulator_def)

lemma preserves_entries_blocks:
  "preserves_entries d (analyze_call_target env None t d)"
  "preserves_entries d (snd (analyze_jump i op t d))"
  "preserves_entries d (snd (analyze_data env sg i t d))"
  "preserves_entries d (record_reference i t d)"
  by (auto simp: preserves_entries_def call_target_closed analyze_jump_def analyze_data_def
      record_reference_def Let_def split: prod.splits option.splits)




lemma pointer_free_blocks:
  "analyzeRegister p (env\<lparr>env_pointer := ptr\<rparr>) i op d = analyzeRegister p env i op d"
  "analyze_call_target (env\<lparr>env_pointer := ptr\<rparr>) sy v d = analyze_call_target env sy v d"
  "analyze_data (env\<lparr>env_pointer := ptr\<rparr>) sg i v d = analyze_data env sg i v d"
  by (simp_all add: analyzeRegister_def analyze_call_target_def analyze_data_def disassemble_def Let_def
      cong: if_cong option.case_cong)

subsection \<open>The loop test of a direct jump\<close>


lemma jump_dir_zero: "jump_dir i t = 0 \<longleftrightarrow> (ucast (t - ins_address i) :: 32 word) = 0"
  unfolding jump_dir_def branch_direction_def by (metis signed_word_eqI sint_0)

lemma direct_jump_result:
  assumes direct: "op_type op = Immediate \<or> (op_type op = Displacement \<and> displacementOnly (op_mem op))"
    and jmp: "\<not> is_call_target i op" "ins_is i InstructionTypes_Jump"
    and seg: "env_segment env (operand_value op) = Some sg"
    and r: "analyzeOperand p env i op d = Inr (i', d')"
  shows "d' = record_reference i' (operand_value op) (snd (analyze_jump i op (operand_value op) d))"
    and "i' = fst (analyze_jump i op (operand_value op) d)"
    and "op_type op \<noteq> Displacement \<or> displacementOnly (op_mem op)"
proof -
  have nr: "op_type op \<noteq> Register" "op_type op \<noteq> Memory" using direct by auto
  show "d' = record_reference i' (operand_value op) (snd (analyze_jump i op (operand_value op) d))"
    and "i' = fst (analyze_jump i op (operand_value op) d)"
    using r by (auto simp: analyzeOperand_direct [OF nr] seg jmp split: prod.splits)
  show "op_type op \<noteq> Displacement \<or> displacementOnly (op_mem op)" using direct by auto
qed

subsection \<open>Safety and invariants\<close>

text \<open>
  C9. No crash on the indirect-branch path: after creating the symbol for a resolved
  register target, \<open>analyzeRegister\<close> always finds it, so \<open>symbol->name\<close> never
  dereferences a null symbol.
\<close>

theorem analyzeRegister_never_null:
  "analyzeRegister p env i op d \<noteq> Inl NullSymbol"
  using analyzeRegister_total [of p env i op d] by auto

text \<open>
  C10. Promotion monotonicity: once an address holds a function symbol, analysing any
  operand leaves a function symbol there.
\<close>

theorem function_never_demoted:
  assumes r: "analyzeOperand p env i op d = Inr (i', d')"
    and f: "symtab d a = Some s" "isFunction s"
  shows "\<exists>s'. symtab d' a = Some s' \<and> isFunction s'"
  using analyzeOperand_evolves [OF r] f by (auto simp: evolves_def keeps_symbols_def)

theorem function_never_demoted_witness:
  "\<exists>i' d'. analyzeOperand (AssemblerPlugin 0) env0 jump_1000 (imm_op 0x3000)
              (d0\<lparr>symtab := [0x3000 \<mapsto> make_symbol 0x3000 SymbolTypes_Function]\<rparr>) = Inr (i', d')
     \<and> (\<exists>s'. symtab d' 0x3000 = Some s' \<and> isFunction s')"
proof -
  let ?d = "d0\<lparr>symtab := [0x3000 \<mapsto> make_symbol 0x3000 SymbolTypes_Function]\<rparr>"
  obtain i' d' where r: "analyzeOperand (AssemblerPlugin 0) env0 jump_1000 (imm_op 0x3000) ?d = Inr (i', d')"
    using analyzeOperand_total by blast
  have "symtab ?d 0x3000 = Some (make_symbol 0x3000 SymbolTypes_Function)" by simp
  moreover have "isFunction (make_symbol 0x3000 SymbolTypes_Function)" by simp
  ultimately show ?thesis using function_never_demoted [OF r] r by blast
qed

text \<open>
  C11. The facade's invariant: if every symbol sits at its own address and every
  reference names a symbol before an operand is analysed, both hold afterwards; no
  symbol disappears, and references and decode requests are only appended.
\<close>

theorem analysis_preserves_invariant:
  assumes inv: "disasm_inv d" and r: "analyzeOperand p env i op d = Inr (i', d')"
  shows "disasm_inv d' \<and> dom (symtab d) \<subseteq> dom (symtab d')
         \<and> (\<exists>rs. references d' = references d @ rs) \<and> (\<exists>ws. worklist d' = worklist d @ ws)"
  using analyzeOperand_evolves [OF r] inv by (auto simp: evolves_def dest: keeps_symbols_dom)

theorem analysis_preserves_invariant_witness:
  "disasm_inv d0 \<and> (\<exists>i' d'. analyzeOperand (AssemblerPlugin 0) env0 call_2000 (imm_op 0x3000) d0 = Inr (i', d')
                            \<and> disasm_inv d')"
proof -
  have inv: "disasm_inv d0" by (simp add: d0_def disasm_inv_def symtab_wf_def)
  obtain i' d' where r: "analyzeOperand (AssemblerPlugin 0) env0 call_2000 (imm_op 0x3000) d0 = Inr (i', d')"
    using analyzeOperand_total by blast
  show ?thesis using analysis_preserves_invariant [OF inv r] inv r by blast
qed

subsection \<open>Call targets\<close>

text \<open>
  C12. Call targets and the work-list: for a direct call operand inside a segment, the
  target ends up a function symbol: a new one (and one decode request) where there was
  none, the same one (and no request) where a function already was, and a fresh function
  replacing a non-function symbol (and one request); a reference from the call is
  recorded in each case.
\<close>

theorem call_target_classification:
  assumes direct: "op_type op \<in> {Immediate, Displacement}"
    and call: "is_call_target i op"
    and seg: "env_segment env (operand_value op) = Some sg"
    and wf: "symtab_wf (symtab d)"
    and r: "analyzeOperand p env i op d = Inr (i', d')"
  shows "i' = i
    \<and> symtab d' = (symtab d)(operand_value op \<mapsto>
         (case symtab d (operand_value op) of
            Some s \<Rightarrow> if isFunction s then s else make_symbol (operand_value op) SymbolTypes_Function
          | None \<Rightarrow> make_symbol (operand_value op) SymbolTypes_Function))
    \<and> worklist d' = worklist d @
         (case symtab d (operand_value op) of Some s \<Rightarrow> if isFunction s then [] else [operand_value op]
          | None \<Rightarrow> [operand_value op])
    \<and> references d' = references d @ [(operand_value op, ins_address i)]"
proof -
  let ?v = "operand_value op"
  have nr: "op_type op \<noteq> Register" "op_type op \<noteq> Memory" using direct by auto
  have "analyzeOperand p env i op d = Inr (i, record_reference i ?v (analyze_call_target env (symtab d ?v) ?v d))"
    by (simp add: analyzeOperand_direct [OF nr] seg call)
  with r have d': "d' = record_reference i ?v (analyze_call_target env (symtab d ?v) ?v d)" and i': "i' = i"
    by auto
  show ?thesis
    using i' wf by (cases "symtab d ?v")
       (auto simp: d' call_target_closed record_reference_def pushReference_def erase_def Let_def symtab_wf_def)
qed

theorem call_target_classification_witness:
  "\<exists>i' d'. analyzeOperand (AssemblerPlugin 0) env0 call_2000 (imm_op 0x3000) d0 = Inr (i', d')
     \<and> symtab d' = [0x3000 \<mapsto> make_symbol 0x3000 SymbolTypes_Function]
     \<and> worklist d' = [0x3000] \<and> references d' = [(0x3000, 0x2000)]"
proof -
  obtain i' d' where r: "analyzeOperand (AssemblerPlugin 0) env0 call_2000 (imm_op 0x3000) d0 = Inr (i', d')"
    using analyzeOperand_total by blast
  have h: "op_type (imm_op 0x3000) \<in> {Immediate, Displacement}" "is_call_target call_2000 (imm_op 0x3000)"
    "env_segment env0 (operand_value (imm_op 0x3000)) = Some seg_text" "symtab_wf (symtab d0)"
    by (simp_all add: fixture_defs eval_defs)
  from call_target_classification [OF h r] r show ?thesis
    by (simp add: fixture_defs eval_defs)
qed

text \<open>
  C13. A call through a pointer whose own location already holds a non-function symbol
  erases whatever symbol the pointed-to target has, a function included, and creates a
  fresh function there: the target's name is reset and it is queued for decoding again.
  The lookup that guards the erase reads the pointer's location (line 38), the erase
  acts on the target (line 57).
\<close>

theorem call_through_pointer_recreates_target:
  assumes mem: "op_type op = Memory"
    and call: "is_call_target i op"
    and ptr: "symtab d (operand_value op) = Some sp" "\<not> sym_is sp SymbolTypes_Import" "\<not> isFunction sp"
    and deref: "env_pointer env (operand_value op) = Some t"
    and seg: "env_segment env t = Some sg"
    and ne: "t \<noteq> operand_value op"
    and r: "analyzeOperand p env i op d = Inr (i', d')"
  shows "symtab d' t = Some (make_symbol t SymbolTypes_Function) \<and> worklist d' = worklist d @ [t]"
proof -
  have br: "ins_is i InstructionTypes_Branch" using call by (simp add: is_call_target_def call_is_branch)
  let ?d1 = "d\<lparr>symtab := createLocation (operand_value op) (SymbolTypes_Data OR SymbolTypes_Pointer) (symtab d)\<rparr>"
  have dr: "dereference_step env i op (symtab d (operand_value op)) (operand_value op) d = (t, ?d1)"
    using mem ptr br deref by (simp add: dereference_step_def)
  have "d' = record_reference i t (analyze_call_target env (Some sp) t ?d1)"
    using r mem dr seg call ptr by (auto simp: analyzeOperand_def Let_def)
  then show ?thesis
    using ptr(3) ne by (simp add: call_target_closed record_reference_def pushReference_def Let_def)
qed

theorem call_through_pointer_recreates_target_witness:
  "\<exists>i' d'. analyzeOperand (AssemblerPlugin 0) env0 call_2000 (mem_op 0x4000)
              (d0\<lparr>symtab := [0x4000 \<mapsto> make_symbol 0x4000 (SymbolTypes_Data OR SymbolTypes_Pointer),
                             0x3000 \<mapsto> \<lparr>sym_address = 0x3000, sym_name = ''main'', sym_type = SymbolTypes_Function\<rparr>],
                   worklist := [0x3000]\<rparr>) = Inr (i', d')
     \<and> symtab d' 0x3000 = Some (make_symbol 0x3000 SymbolTypes_Function) \<and> worklist d' = [0x3000, 0x3000]"
proof -
  let ?d = "d0\<lparr>symtab := [0x4000 \<mapsto> make_symbol 0x4000 (SymbolTypes_Data OR SymbolTypes_Pointer),
                          0x3000 \<mapsto> \<lparr>sym_address = 0x3000, sym_name = ''main'', sym_type = SymbolTypes_Function\<rparr>],
                worklist := [0x3000]\<rparr>"
  obtain i' d' where r: "analyzeOperand (AssemblerPlugin 0) env0 call_2000 (mem_op 0x4000) ?d = Inr (i', d')"
    using analyzeOperand_total by blast
  have h: "op_type (mem_op 0x4000) = Memory" "is_call_target call_2000 (mem_op 0x4000)"
    "symtab ?d (operand_value (mem_op 0x4000)) = Some (make_symbol 0x4000 (SymbolTypes_Data OR SymbolTypes_Pointer))"
    "\<not> sym_is (make_symbol 0x4000 (SymbolTypes_Data OR SymbolTypes_Pointer)) SymbolTypes_Import"
    "\<not> isFunction (make_symbol 0x4000 (SymbolTypes_Data OR SymbolTypes_Pointer))"
    "env_pointer env0 (operand_value (mem_op 0x4000)) = Some 0x3000"
    "env_segment env0 0x3000 = Some seg_text" "(0x3000::u64) \<noteq> operand_value (mem_op 0x4000)"
    by (simp_all add: fixture_defs eval_defs sym_is_def symbol_type_defs)
  from call_through_pointer_recreates_target [OF h r] r show ?thesis
    by (simp add: fixture_defs eval_defs)
qed

text \<open>
  C14. Pointer locations: when a read memory operand (or any branch operand) with no
  symbol yet dereferences successfully, the location holding the pointer, not the
  pointed-to address, becomes a Data|Pointer symbol, and it stays so whatever the rest of
  the analysis does with the pointed-to address.
\<close>

theorem dereference_marks_pointer_location:
  assumes mem: "op_type op = Memory" and rd: "op_read op \<or> ins_is i InstructionTypes_Branch"
    and fresh: "symtab d (operand_value op) = None"
    and deref: "env_pointer env (operand_value op) = Some t"
    and r: "analyzeOperand p env i op d = Inr (i', d')"
  shows "symtab d' (operand_value op) =
           Some (make_symbol (operand_value op) (SymbolTypes_Data OR SymbolTypes_Pointer))"
proof -
  let ?v = "operand_value op"
  let ?d1 = "d\<lparr>symtab := createLocation ?v (SymbolTypes_Data OR SymbolTypes_Pointer) (symtab d)\<rparr>"
  have dr: "dereference_step env i op (symtab d ?v) ?v d = (t, ?d1)"
    using mem fresh rd deref by (simp add: dereference_step_def)
  have at1: "symtab ?d1 ?v = Some (make_symbol ?v (SymbolTypes_Data OR SymbolTypes_Pointer))"
    using fresh by simp
  show ?thesis
  proof (cases "env_segment env t")
    case None
    with r mem dr at1 show ?thesis by (auto simp: analyzeOperand_def Let_def)
  next
    case (Some sg)
    define X where "X = (if is_call_target i op then (i, analyze_call_target env None t ?d1)
                         else if ins_is i InstructionTypes_Jump then analyze_jump i op t ?d1
                         else analyze_data env sg i t ?d1)"
    have "preserves_entries ?d1 (snd X)" unfolding X_def by (simp add: preserves_entries_blocks)
    then have "preserves_entries ?d1 (record_reference (fst X) t (snd X))"
      using preserves_entries_blocks(4) by (fastforce simp: preserves_entries_def)
    moreover have "d' = record_reference (fst X) t (snd X)"
      using r mem dr Some fresh by (auto simp: analyzeOperand_def Let_def X_def split: prod.splits)
    ultimately show ?thesis using at1 by (simp add: preserves_entries_def)
  qed
qed

theorem dereference_marks_pointer_location_witness:
  "\<exists>i' d'. analyzeOperand (AssemblerPlugin 0) env0 call_2000 (mem_op 0x4000) d0 = Inr (i', d')
     \<and> symtab d' 0x4000 = Some (make_symbol 0x4000 (SymbolTypes_Data OR SymbolTypes_Pointer))"
proof -
  obtain i' d' where r: "analyzeOperand (AssemblerPlugin 0) env0 call_2000 (mem_op 0x4000) d0 = Inr (i', d')"
    using analyzeOperand_total by blast
  have h: "op_type (mem_op 0x4000) = Memory" "op_read (mem_op 0x4000) \<or> ins_is call_2000 InstructionTypes_Branch"
    "symtab d0 (operand_value (mem_op 0x4000)) = None"
    "env_pointer env0 (operand_value (mem_op 0x4000)) = Some 0x3000"
    by (simp_all add: fixture_defs eval_defs)
  from dereference_marks_pointer_location [OF h r] r show ?thesis by (simp add: fixture_defs eval_defs)
qed

text \<open>
  C15. Import safety: when the operand's value already holds an Import symbol, the
  analysis never reads memory through it: its result does not depend on the pointer
  contents of the binary at all.
\<close>

theorem imports_never_dereferenced:
  assumes imp: "symtab d (operand_value op) = Some s" "sym_is s SymbolTypes_Import"
  shows "analyzeOperand p (env\<lparr>env_pointer := ptr\<rparr>) i op d = analyzeOperand p env i op d"
proof -
  have "dereference_step env' i op (symtab d (operand_value op)) (operand_value op) d = (operand_value op, d)"
    for env'
    using imp by (simp add: dereference_step_def)
  then show ?thesis
    by (simp add: analyzeOperand_def pointer_free_blocks cong: if_cong option.case_cong)
qed

theorem imports_never_dereferenced_witness:
  "symtab (d0\<lparr>symtab := [0x4000 \<mapsto> make_symbol 0x4000 SymbolTypes_Import]\<rparr>) (operand_value (mem_op 0x4000))
     = Some (make_symbol 0x4000 SymbolTypes_Import)
   \<and> sym_is (make_symbol 0x4000 SymbolTypes_Import) SymbolTypes_Import
   \<and> analyzeOperand (AssemblerPlugin 0) (env0\<lparr>env_pointer := Map.empty\<rparr>) call_2000 (mem_op 0x4000)
       (d0\<lparr>symtab := [0x4000 \<mapsto> make_symbol 0x4000 SymbolTypes_Import]\<rparr>)
     = analyzeOperand (AssemblerPlugin 0) env0 call_2000 (mem_op 0x4000)
       (d0\<lparr>symtab := [0x4000 \<mapsto> make_symbol 0x4000 SymbolTypes_Import]\<rparr>)"
proof -
  have h: "symtab (d0\<lparr>symtab := [0x4000 \<mapsto> make_symbol 0x4000 SymbolTypes_Import]\<rparr>) (operand_value (mem_op 0x4000))
             = Some (make_symbol 0x4000 SymbolTypes_Import)"
    "sym_is (make_symbol 0x4000 SymbolTypes_Import) SymbolTypes_Import"
    by (simp_all add: fixture_defs eval_defs sym_is_def symbol_type_defs)
  show ?thesis using imports_never_dereferenced [OF h] h by blast
qed

subsection \<open>Early return, data, strings and jumps\<close>

text \<open>
  C16. No segment, no effect: a direct operand whose value lies in no segment leaves the
  instruction and the whole facade untouched, and records no reference even when a
  symbol already exists there (the early return of line 52).
\<close>

theorem no_segment_no_effect:
  assumes "op_type op \<in> {Immediate, Displacement}" "env_segment env (operand_value op) = None"
  shows "analyzeOperand p env i op d = Inr (i, d)"
  using assms by (auto simp: analyzeOperand_direct)

theorem no_segment_no_effect_witness:
  "op_type (imm_op 0x9000) \<in> {Immediate, Displacement} \<and> env_segment env0 (operand_value (imm_op 0x9000)) = None
   \<and> analyzeOperand (AssemblerPlugin 0) env0 call_2000 (imm_op 0x9000)
       (d0\<lparr>symtab := [0x9000 \<mapsto> make_symbol 0x9000 SymbolTypes_Data]\<rparr>)
     = Inr (call_2000, d0\<lparr>symtab := [0x9000 \<mapsto> make_symbol 0x9000 SymbolTypes_Data]\<rparr>)"
proof -
  have h: "op_type (imm_op 0x9000) \<in> {Immediate, Displacement}" "env_segment env0 (operand_value (imm_op 0x9000)) = None"
    by (simp_all add: fixture_defs eval_defs)
  show ?thesis using no_segment_no_effect [OF h] h by blast
qed

text \<open>
  C17. String threshold: a plain (non-call, non-jump) direct operand pointing at a fresh
  address outside BSS becomes a String symbol, with a \<open>STRING:\<close> comment on the
  instruction, exactly when the detected narrow string has at least \<open>MIN_STRING\<close>
  characters; otherwise, and always in BSS, it becomes a Data symbol and the instruction is
  unchanged.  A reference is recorded either way.
\<close>

theorem data_operand_classification:
  assumes direct: "op_type op \<in> {Immediate, Displacement}"
    and plain: "\<not> is_call_target i op" "\<not> ins_is i InstructionTypes_Jump"
    and seg: "env_segment env (operand_value op) = Some sg"
    and fresh: "symtab d (operand_value op) = None"
    and str: "env_string env (operand_value op) = (len, False)"
    and r: "analyzeOperand p env i op d = Inr (i', d')"
  shows "symtab d' (operand_value op) = Some (make_symbol (operand_value op)
            (if \<not> seg_is sg SegmentTypes_Bss \<and> MIN_STRING \<le> len then SymbolTypes_String else SymbolTypes_Data))
     \<and> i' = (if \<not> seg_is sg SegmentTypes_Bss \<and> MIN_STRING \<le> len
             then cmt (''STRING: '' @ env_read_string env (operand_value op)) i else i)
     \<and> references d' = references d @ [(operand_value op, ins_address i)]"
proof -
  have nr: "op_type op \<noteq> Register" "op_type op \<noteq> Memory" using direct by auto
  have "d' = record_reference i' (operand_value op) (snd (analyze_data env sg i (operand_value op) d))"
    and "i' = fst (analyze_data env sg i (operand_value op) d)"
    using r by (auto simp: analyzeOperand_direct [OF nr] seg plain split: prod.splits)
  then show ?thesis
    using fresh str
    by (auto simp: analyze_data_def record_reference_def pushReference_def updateInstruction_def
        createString_def createLocation_def Let_def)
qed

theorem data_operand_classification_witness:
  "(\<exists>i' d'. analyzeOperand (AssemblerPlugin 0) env0 mov_2100 (imm_op 0x5000) d0 = Inr (i', d')
      \<and> symtab d' 0x5000 = Some (make_symbol 0x5000 SymbolTypes_String)
      \<and> i' = cmt ''STRING: abcd'' mov_2100)
   \<and> (\<exists>i' d'. analyzeOperand (AssemblerPlugin 0) env0 mov_2100 (imm_op 0x5100) d0 = Inr (i', d')
      \<and> symtab d' 0x5100 = Some (make_symbol 0x5100 SymbolTypes_Data) \<and> i' = mov_2100)"
proof -
  have nb: "\<not> seg_is seg_text SegmentTypes_Bss"
    by (simp add: seg_text_def seg_is_def has_flag_def SegmentTypes_Code_def SegmentTypes_Bss_def)
  have common: "op_type (imm_op v) \<in> {Immediate, Displacement}" "\<not> is_call_target mov_2100 (imm_op v)"
    "\<not> ins_is mov_2100 InstructionTypes_Jump" for v
    by (simp_all add: fixture_defs eval_defs)
  obtain i1 d1 where r1: "analyzeOperand (AssemblerPlugin 0) env0 mov_2100 (imm_op 0x5000) d0 = Inr (i1, d1)"
    using analyzeOperand_total by blast
  obtain i2 d2 where r2: "analyzeOperand (AssemblerPlugin 0) env0 mov_2100 (imm_op 0x5100) d0 = Inr (i2, d2)"
    using analyzeOperand_total by blast
  have h1: "env_segment env0 (operand_value (imm_op 0x5000)) = Some seg_text"
    "symtab d0 (operand_value (imm_op 0x5000)) = None"
    "env_string env0 (operand_value (imm_op 0x5000)) = (4, False)"
    by (simp_all add: fixture_defs eval_defs)
  have h2: "env_segment env0 (operand_value (imm_op 0x5100)) = Some seg_text"
    "symtab d0 (operand_value (imm_op 0x5100)) = None"
    "env_string env0 (operand_value (imm_op 0x5100)) = (3, False)"
    by (simp_all add: fixture_defs eval_defs)
  note c1 = data_operand_classification [OF common h1 r1]
  note c2 = data_operand_classification [OF common h2 r2]
  show ?thesis
    using c1 c2 r1 r2 nb by (simp add: MIN_STRING_def fixture_defs eval_defs)
qed

text \<open>
  C18. Direct jump targets: a jump whose operand is an immediate or a bare displacement
  annotates the instruction with "Possible loop" when the direction stored in the
  \<open>int\<close> of line 70 is negative, "Infinite loop" when it is zero, and nothing otherwise;
  it emits the updated instruction, makes the target a Code location if it had no symbol,
  and records a reference.
\<close>

theorem jump_target_classification:
  assumes direct: "op_type op = Immediate \<or> (op_type op = Displacement \<and> displacementOnly (op_mem op))"
    and jmp: "\<not> is_call_target i op" "ins_is i InstructionTypes_Jump"
    and seg: "env_segment env (operand_value op) = Some sg"
    and wf: "symtab_wf (symtab d)"
    and r: "analyzeOperand p env i op d = Inr (i', d')"
  shows "i' = (if jump_dir i (operand_value op) < 0 then cmt ''Possible loop'' i
               else if jump_dir i (operand_value op) = 0 then cmt ''Infinite loop'' i else i)
     \<and> symtab d' = (case symtab d (operand_value op) of
                      None \<Rightarrow> (symtab d)(operand_value op \<mapsto> make_symbol (operand_value op) SymbolTypes_Code)
                    | Some _ \<Rightarrow> symtab d)
     \<and> updated d' = updated d @ [i']
     \<and> references d' = references d @ [(operand_value op, ins_address i)]"
  using direct_jump_result [OF direct jmp seg r] wf
  by (auto simp: analyze_jump_def record_reference_def pushReference_def updateInstruction_def
      createLocation_def Let_def symtab_wf_def fun_eq_iff split: option.splits)

theorem jump_target_classification_witness:
  "\<exists>i' d'. analyzeOperand (AssemblerPlugin 0) env0 jump_1000 (imm_op 0xFF0) d0 = Inr (i', d')
     \<and> i' = cmt ''Possible loop'' jump_1000
     \<and> symtab d' = [0xFF0 \<mapsto> make_symbol 0xFF0 SymbolTypes_Code]"
proof -
  obtain i' d' where r: "analyzeOperand (AssemblerPlugin 0) env0 jump_1000 (imm_op 0xFF0) d0 = Inr (i', d')"
    using analyzeOperand_total by blast
  have h: "op_type (imm_op 0xFF0) = Immediate \<or> (op_type (imm_op 0xFF0) = Displacement \<and> displacementOnly (op_mem (imm_op 0xFF0)))"
    "\<not> is_call_target jump_1000 (imm_op 0xFF0)" "ins_is jump_1000 InstructionTypes_Jump"
    "env_segment env0 (operand_value (imm_op 0xFF0)) = Some seg_text" "symtab_wf (symtab d0)"
    by (simp_all add: fixture_defs eval_defs)
  from jump_target_classification [OF h r] r show ?thesis
    by (simp add: fixture_defs eval_defs jump_dir_def branch_direction_def)
qed



text \<open>
  C35. A far jump is taken for an infinite loop: a direct jump whose target differs from
  its own address by a non-zero multiple of \<open>2^32\<close> is commented "Infinite loop",
  although it does not jump to itself.
\<close>

theorem far_jump_infinite_loop:
  assumes direct: "op_type op = Immediate \<or> (op_type op = Displacement \<and> displacementOnly (op_mem op))"
    and jmp: "\<not> is_call_target i op" "ins_is i InstructionTypes_Jump"
    and seg: "env_segment env (operand_value op) = Some sg"
    and far: "operand_value op \<noteq> ins_address i" "(ucast (operand_value op - ins_address i) :: 32 word) = 0"
    and r: "analyzeOperand p env i op d = Inr (i', d')"
  shows "i' = cmt ''Infinite loop'' i"
  using direct_jump_result [OF direct jmp seg r] jump_dir_zero [of i "operand_value op"] far
  by (simp add: analyze_jump_def Let_def)

theorem far_jump_infinite_loop_witness:
  "op_type (imm_op 0x1000) = Immediate \<and> \<not> is_call_target far_jump (imm_op 0x1000)
   \<and> ins_is far_jump InstructionTypes_Jump \<and> env_segment env0 (operand_value (imm_op 0x1000)) = Some seg_text
   \<and> operand_value (imm_op 0x1000) \<noteq> ins_address far_jump
   \<and> (ucast (operand_value (imm_op 0x1000) - ins_address far_jump) :: 32 word) = 0
   \<and> (\<exists>d'. analyzeOperand (AssemblerPlugin 0) env0 far_jump (imm_op 0x1000) d0
              = Inr (cmt ''Infinite loop'' far_jump, d'))"
proof -
  obtain i' d' where r: "analyzeOperand (AssemblerPlugin 0) env0 far_jump (imm_op 0x1000) d0 = Inr (i', d')"
    using analyzeOperand_total by blast
  have h: "op_type (imm_op 0x1000) = Immediate \<or> (op_type (imm_op 0x1000) = Displacement \<and> displacementOnly (op_mem (imm_op 0x1000)))"
    "\<not> is_call_target far_jump (imm_op 0x1000)" "ins_is far_jump InstructionTypes_Jump"
    "env_segment env0 (operand_value (imm_op 0x1000)) = Some seg_text"
    "operand_value (imm_op 0x1000) \<noteq> ins_address far_jump"
    "(ucast (operand_value (imm_op 0x1000) - ins_address far_jump) :: 32 word) = 0"
    by (simp_all add: fixture_defs eval_defs far_jump_def)
  from far_jump_infinite_loop [OF h r] r h show ?thesis by (auto simp: imm_op_def)
qed



text \<open>
  Jump tables: a jump through a displacement with a base or index register is not
  classified as a direct target; it is handed to \<open>checkJumpTable\<close>, and no symbol is
  created and no decode request issued for the displacement.
\<close>

theorem jump_table_delegated:
  assumes disp: "op_type op = Displacement" "\<not> displacementOnly (op_mem op)"
    and jmp: "\<not> is_call_target i op" "ins_is i InstructionTypes_Jump"
    and seg: "env_segment env (operand_value op) = Some sg"
    and r: "analyzeOperand p env i op d = Inr (i', d')"
  shows "i' = i \<and> symtab d' = symtab d \<and> worklist d' = worklist d
     \<and> jumptable_checks d' = jumptable_checks d @ [(ins_address i, op_index op)]"
proof -
  have nr: "op_type op \<noteq> Register" "op_type op \<noteq> Memory" using disp by auto
  have "d' = record_reference i (operand_value op) (checkJumpTable i op d)" and "i' = i"
    using r disp by (auto simp: analyzeOperand_direct [OF nr] seg jmp analyze_jump_def)
  then show ?thesis
    by (auto simp: record_reference_def pushReference_def checkJumpTable_def split: option.splits)
qed

theorem jump_table_delegated_witness:
  "\<exists>i' d'. analyzeOperand (AssemblerPlugin 0) env0 jump_1000 table_op d0 = Inr (i', d')
     \<and> symtab d' = Map.empty \<and> jumptable_checks d' = [(0x1000, 0)]"
proof -
  obtain i' d' where r: "analyzeOperand (AssemblerPlugin 0) env0 jump_1000 table_op d0 = Inr (i', d')"
    using analyzeOperand_total by blast
  have h: "op_type table_op = Displacement" "\<not> displacementOnly (op_mem table_op)"
    "\<not> is_call_target jump_1000 table_op" "ins_is jump_1000 InstructionTypes_Jump"
    "env_segment env0 (operand_value table_op) = Some seg_text"
    by (simp_all add: fixture_defs eval_defs)
  from jump_table_delegated [OF h r] r show ?thesis by (simp add: fixture_defs eval_defs)
qed

subsection \<open>Indirect branches through registers\<close>

text \<open>
  C20. Unresolved indirect branches are dropped silently: without an emulator, for a
  non-branch, for an operand other than the target, or when the emulator cannot read the
  register, the analysis returns the instruction and the facade unchanged, with no
  comment and no log line.
\<close>

theorem unresolved_register_branch:
  assumes reg: "op_type op = Register"
    and unresolved: "env_emulator env = None \<or> \<not> ins_is i InstructionTypes_Branch
        \<or> op_index op \<noteq> ins_target_idx i \<or> (\<exists>emu. env_emulator env = Some emu \<and> emu op = None)"
  shows "analyzeOperand p env i op d = Inr (i, d)"
  using unresolved reg by (auto simp: analyzeOperand_def analyzeRegister_def split: option.splits)

theorem unresolved_register_branch_witness:
  "analyzeOperand (AssemblerPlugin AssemblerFlags_EmulateVMIL) env_emu jmp_reg_1800 (reg_op 2) d0
     = Inr (jmp_reg_1800, d0)"
proof -
  have h: "op_type (reg_op 2) = Register"
    "env_emulator env_emu = None \<or> \<not> ins_is jmp_reg_1800 InstructionTypes_Branch
       \<or> op_index (reg_op 2) \<noteq> ins_target_idx jmp_reg_1800
       \<or> (\<exists>emu. env_emulator env_emu = Some emu \<and> emu (reg_op 2) = None)"
    by (simp_all add: fixture_defs)
  show ?thesis by (rule unresolved_register_branch [OF h])
qed

text \<open>
  Conservative mode: on an architecture that cannot emulate VMIL deeply, a resolved
  register target only becomes a comment \<open>=target\<close> on the instruction, which is emitted;
  no symbol, no reference and no decode request is made.
\<close>

theorem register_branch_comment_only:
  assumes res: "op_type op = Register" "env_emulator env = Some emu" "ins_is i InstructionTypes_Branch"
      "op_index op = ins_target_idx i" "emu op = Some t"
    and shallow: "\<not> canEmulateVMIL p"
    and r: "analyzeOperand p env i op d = Inr (i', d')"
  shows "i' = cmt (''='' @ hex_address t) i \<and> symtab d' = symtab d \<and> worklist d' = worklist d
     \<and> references d' = references d \<and> updated d' = updated d @ [i']"
  using r shallow by (auto simp: analyzeRegister_resolved [OF res] Let_def updateInstruction_def log_line_def)

theorem register_branch_comment_only_witness:
  "\<exists>i' d'. analyzeOperand (AssemblerPlugin 0) env_emu jmp_reg_1800 (reg_op 1) d0 = Inr (i', d')
     \<and> i' = cmt (''='' @ hex_address 0x3000) jmp_reg_1800 \<and> symtab d' = Map.empty \<and> worklist d' = []"
proof -
  obtain i' d' where r: "analyzeOperand (AssemblerPlugin 0) env_emu jmp_reg_1800 (reg_op 1) d0 = Inr (i', d')"
    using analyzeOperand_total by blast
  let ?emu = "\<lambda>op::operand. if op_reg op = 1 then Some (0x3000::u64) else None"
  have h: "op_type (reg_op 1) = Register" "env_emulator env_emu = Some ?emu"
    "ins_is jmp_reg_1800 InstructionTypes_Branch" "op_index (reg_op 1) = ins_target_idx jmp_reg_1800"
    "?emu (reg_op 1) = Some 0x3000" "\<not> canEmulateVMIL (AssemblerPlugin 0)"
    by (simp_all add: fixture_defs eval_defs canEmulateVMIL_def hasFlag_def AssemblerPlugin_def)
  from register_branch_comment_only [OF h r] r show ?thesis by (simp add: fixture_defs eval_defs)
qed

text \<open>
  C22. Deep mode: when the architecture can emulate VMIL and decoding at the resolved
  target succeeds, the target is queued for decoding, recorded as the instruction's
  target, becomes a Function (for a call) or a Code location (otherwise) if it had no
  symbol, is referenced from the instruction, and is named in its comment.
\<close>

theorem register_branch_followed:
  assumes res: "op_type op = Register" "env_emulator env = Some emu" "ins_is i InstructionTypes_Branch"
      "op_index op = ins_target_idx i" "emu op = Some t"
    and deep: "canEmulateVMIL p" "env_decodable env t"
    and wf: "symtab_wf (symtab d)"
    and r: "analyzeOperand p env i op d = Inr (i', d')"
  shows "worklist d' = worklist d @ [t] \<and> t \<in> set (ins_targets i')
     \<and> (\<exists>s. symtab d' t = Some s
           \<and> (symtab d t = None \<longrightarrow>
                s = make_symbol t (if ins_is i InstructionTypes_Call then SymbolTypes_Function else SymbolTypes_Code))
           \<and> references d' = references d @ [(t, ins_address i)]
           \<and> ins_comments i' = ins_comments i @ [''='' @ sym_name s])"
  using r deep wf
  by (auto simp: analyzeRegister_resolved [OF res] Let_def updateInstruction_def log_line_def
      disassemble_def pushReference_def createFunction_def createLocation_def symtab_wf_def
      split: option.splits if_splits)

theorem register_branch_followed_witness:
  "\<exists>i' d'. analyzeOperand (AssemblerPlugin AssemblerFlags_EmulateVMIL) env_emu jmp_reg_1800 (reg_op 1) d0
              = Inr (i', d')
     \<and> worklist d' = [0x3000] \<and> 0x3000 \<in> set (ins_targets i')
     \<and> symtab d' 0x3000 = Some (make_symbol 0x3000 SymbolTypes_Code)"
proof -
  let ?p = "AssemblerPlugin AssemblerFlags_EmulateVMIL"
  obtain i' d' where r: "analyzeOperand ?p env_emu jmp_reg_1800 (reg_op 1) d0 = Inr (i', d')"
    using analyzeOperand_total by blast
  let ?emu = "\<lambda>op::operand. if op_reg op = 1 then Some (0x3000::u64) else None"
  have h: "op_type (reg_op 1) = Register" "env_emulator env_emu = Some ?emu"
    "ins_is jmp_reg_1800 InstructionTypes_Branch" "op_index (reg_op 1) = ins_target_idx jmp_reg_1800"
    "?emu (reg_op 1) = Some 0x3000" "canEmulateVMIL ?p" "env_decodable env_emu 0x3000"
    "symtab_wf (symtab d0)"
    by (simp_all add: fixture_defs eval_defs canEmulateVMIL_def hasFlag_def AssemblerPlugin_def
        assembler_flag_defs)
  from register_branch_followed [OF h r] r show ?thesis by (auto simp: fixture_defs eval_defs)
qed

end
