(* ===== verification/Symbol_Kinds.thy ===== *)
theory Symbol_Kinds
  imports Operand_Analysis
begin

text \<open>
  The kind-level contract of operand analysis.  Abstracting a symbol table to the kind
  of each address (\<open>kinds\<close>: its \<open>SymbolTypes\<close> flags, forgetting names) gives a
  map on which the spec's classification steps 2-6 (section 4.2, and 4.3 for registers)
  are written as \<open>kind_operand\<close>, with \<open>k_create\<close> for the symbol table's
  create-if-absent.  The abstract steps follow the spec's words: a successful dereference
  classifies the pointed-to address as Data|Pointer (step 3), and a call target erases the
  non-function symbol found at the address being promoted (step 5).  The refinement theorem
  shows that \<open>analyzeOperand\<close> of \<open>assembler.cpp\<close> implements this contract on every
  operand that is not a memory operand with a readable pointer, the case where the source
  and the spec part: the source marks the pointer's own cell Data|Pointer and guards the
  call-target erase by the symbol at the pointer's cell, as the operand theory proves.
\<close>

unbundle bit_operations_syntax

type_synonym kind_map = "address_t \<rightharpoonup> u32"

definition kinds :: "symbol_table \<Rightarrow> kind_map" where
  "kinds st a = map_option sym_type (st a)"

definition k_create :: "address_t \<Rightarrow> u32 \<Rightarrow> kind_map \<Rightarrow> kind_map" where
  "k_create a ty K = (case K a of None \<Rightarrow> K(a \<mapsto> ty) | Some _ \<Rightarrow> K)"

text \<open>Step 3: a read memory operand or a branch operand is dereferenced unless it is an import;
  on success the pointed-to address is classified Data|Pointer and becomes the value classified next.\<close>

definition kind_deref :: "environment \<Rightarrow> instruction \<Rightarrow> operand \<Rightarrow> u64 \<Rightarrow> kind_map \<Rightarrow> u64 \<times> kind_map" where
  "kind_deref env i op v K =
     (if (case K v of None \<Rightarrow> True | Some t \<Rightarrow> \<not> has_flag t SymbolTypes_Import)
         \<and> op_type op = Memory \<and> (op_read op \<or> ins_is i InstructionTypes_Branch)
      then (case env_pointer env v of
              Some t \<Rightarrow> (t, k_create t (SymbolTypes_Data OR SymbolTypes_Pointer) K)
            | None \<Rightarrow> (v, K))
      else (v, K))"

text \<open>Steps 5 and 6 on the address \<open>ov\<close> being classified: a call target first erases a
  symbol at \<open>ov\<close> that is not a function, then creates the function.\<close>

definition kind_classify ::
  "environment \<Rightarrow> segment \<Rightarrow> instruction \<Rightarrow> operand \<Rightarrow> u64 \<Rightarrow> kind_map \<Rightarrow> kind_map" where
  "kind_classify env seg i op ov K =
     (if is_call_target i op then
        k_create ov SymbolTypes_Function
          (case K ov of Some t \<Rightarrow> if \<not> has_flag t SymbolTypes_FunctionMask then K(ov := None) else K | None \<Rightarrow> K)
      else if ins_is i InstructionTypes_Jump then
        (if op_type op \<noteq> Displacement \<or> displacementOnly (op_mem op) then k_create ov SymbolTypes_Code K else K)
      else
        (case env_string env ov of (len, wide) \<Rightarrow>
           if \<not> seg_is seg SegmentTypes_Bss \<and> MIN_STRING \<le> len
           then k_create ov (if wide then SymbolTypes_WideString else SymbolTypes_String) K
           else k_create ov SymbolTypes_Data K))"

text \<open>Section 4.3: a register target the emulator resolves is a function or a code location when it decodes.\<close>

definition kind_register :: "assembler_plugin \<Rightarrow> environment \<Rightarrow> instruction \<Rightarrow> operand \<Rightarrow> kind_map \<Rightarrow> kind_map" where
  "kind_register p env i op K =
     (case env_emulator env of
        None \<Rightarrow> K
      | Some emu \<Rightarrow>
          if ins_is i InstructionTypes_Branch \<and> op_type op = Register \<and> op_index op = ins_target_idx i
          then (case emu op of
                  Some t \<Rightarrow>
                    if canEmulateVMIL p \<and> env_decodable env t
                    then k_create t (if ins_is i InstructionTypes_Call then SymbolTypes_Function else SymbolTypes_Code) K
                    else K
                | None \<Rightarrow> K)
          else K)"

definition kind_operand :: "assembler_plugin \<Rightarrow> environment \<Rightarrow> instruction \<Rightarrow> operand \<Rightarrow> kind_map \<Rightarrow> kind_map" where
  "kind_operand p env i op K =
     (if op_type op = Register then kind_register p env i op K
      else
        (let v = operand_value op;
             (ov, K1) = kind_deref env i op v K
         in case env_segment env ov of
              None \<Rightarrow> K1
            | Some seg \<Rightarrow> kind_classify env seg i op ov K1))"

subsection \<open>The abstraction commutes with the symbol table's operations\<close>

lemma kinds_st_create: "kinds (snd (st_create a ty st)) = k_create a ty (kinds st)"
  by (auto simp: kinds_def k_create_def st_create_def split: option.splits)

lemma kinds_creates [simp]:
  "kinds (createLocation a ty st) = k_create a ty (kinds st)"
  "kinds (createString a st) = k_create a SymbolTypes_String (kinds st)"
  "kinds (createWString a st) = k_create a SymbolTypes_WideString (kinds st)"
  "kinds (snd (createFunction a st)) = k_create a SymbolTypes_Function (kinds st)"
  "kinds (erase a st) = (kinds st)(a := None)"
  by (simp_all add: createLocation_def createString_def createWString_def createFunction_def
      kinds_st_create) (auto simp: kinds_def erase_def)

lemma kinds_None: "kinds st a = None \<longleftrightarrow> st a = None"
  by (simp add: kinds_def)

subsection \<open>Each block of \<open>analyzeOperand\<close> refines its abstract step\<close>

lemma dereference_kinds:
  "dereference_step env i op (symtab d v) v d = (ov, d1) \<Longrightarrow>
   op_type op \<noteq> Memory \<or> env_pointer env v = None \<Longrightarrow>
   ov = v \<and> d1 = d \<and> kind_deref env i op v (kinds (symtab d)) = (v, kinds (symtab d))"
  by (auto simp: dereference_step_def kind_deref_def split: option.splits if_splits)

lemma call_target_kinds:
  "kinds (symtab (analyze_call_target env sy ov d)) =
     k_create ov SymbolTypes_Function
       (case map_option sym_type sy of
          Some t \<Rightarrow> if \<not> has_flag t SymbolTypes_FunctionMask then (kinds (symtab d))(ov := None) else kinds (symtab d)
        | None \<Rightarrow> kinds (symtab d))"
proof -
  obtain c st' where cf: "createFunction ov (case sy of Some s \<Rightarrow> if \<not> isFunction s then erase ov (symtab d) else symtab d
                                              | None \<Rightarrow> symtab d) = (c, st')"
    by fastforce
  then have "kinds st' = k_create ov SymbolTypes_Function
       (kinds (case sy of Some s \<Rightarrow> if \<not> isFunction s then erase ov (symtab d) else symtab d | None \<Rightarrow> symtab d))"
    using kinds_creates(4) by (metis snd_conv)
  with cf show ?thesis
    by (cases sy) (auto simp: analyze_call_target_def Let_def isFunction_def)
qed

lemma record_reference_symtab [simp]: "symtab (record_reference i v d) = symtab d"
  by (simp add: record_reference_def split: option.splits)

lemma register_kinds:
  "analyzeRegister p env i op d = Inr (i', d') \<Longrightarrow> kinds (symtab d') = kind_register p env i op (kinds (symtab d))"
  by (auto simp: analyzeRegister_def kind_register_def Let_def disassemble_def log_line_def
      split: option.splits if_splits bool.splits prod.splits)

subsection \<open>The symbol table after a non-register operand\<close>

lemma analyzeOperand_symtab:
  assumes r: "analyzeOperand p env i op d = Inr (i', d')" and nr: "op_type op \<noteq> Register"
  obtains ov d1 where "dereference_step env i op (symtab d (operand_value op)) (operand_value op) d = (ov, d1)"
      "env_segment env ov = None" "symtab d' = symtab d1"
  | ov d1 seg where "dereference_step env i op (symtab d (operand_value op)) (operand_value op) d = (ov, d1)"
      "env_segment env ov = Some seg"
      "symtab d' = symtab (snd (if is_call_target i op
                                 then (i, analyze_call_target env (symtab d (operand_value op)) ov d1)
                                 else if ins_is i InstructionTypes_Jump then analyze_jump i op ov d1
                                 else analyze_data env seg i ov d1))"
proof -
  obtain ov d1 where dr: "dereference_step env i op (symtab d (operand_value op)) (operand_value op) d = (ov, d1)"
    by fastforce
  show thesis
  proof (cases "env_segment env ov")
    case None
    with r nr dr show thesis by (intro that(1) [OF dr None]) (simp add: analyzeOperand_def)
  next
    case (Some seg)
    with r nr dr show thesis
      by (intro that(2) [OF dr Some]) (auto simp: analyzeOperand_def Let_def split: prod.splits)
  qed
qed

subsection \<open>Refinement\<close>

text \<open>
  C33. Refinement: on every operand that is not a memory operand whose value the facade
  can dereference, \<open>analyzeOperand\<close> implements the spec's kind-level classification
  (sections 4.2 and 4.3): it returns a result, and the kind map of the symbol table
  afterwards is \<open>kind_operand\<close> applied to the kind map before.  On these operands the
  classification depends on the kinds of the symbols only.
\<close>

theorem analyzeOperand_refines_kinds:
  assumes np: "op_type op \<noteq> Memory \<or> env_pointer env (operand_value op) = None"
  shows "map_sum id (\<lambda>(i', d'). kinds (symtab d')) (analyzeOperand p env i op d)
           = Inr (kind_operand p env i op (kinds (symtab d)))"
proof -
  obtain i' d' where r: "analyzeOperand p env i op d = Inr (i', d')"
    using analyzeOperand_total by blast
  have "kinds (symtab d') = kind_operand p env i op (kinds (symtab d))"
  proof (cases "op_type op = Register")
    case True
    with r show ?thesis by (simp add: analyzeOperand_def kind_operand_def register_kinds)
  next
    case False
    from r False show ?thesis
    proof (cases rule: analyzeOperand_symtab)
      case (1 ov d1)
      with False dereference_kinds [OF 1(1) np] show ?thesis by (simp add: kind_operand_def)
    next
      case (2 ov d1 seg)
      note dk = dereference_kinds [OF 2(1) np]
      have "kinds (symtab (snd (if is_call_target i op
                                 then (i, analyze_call_target env (symtab d (operand_value op)) ov d1)
                                 else if ins_is i InstructionTypes_Jump then analyze_jump i op ov d1
                                 else analyze_data env seg i ov d1)))
            = kind_classify env seg i op ov (kinds (symtab d1))"
        using dk by (auto simp: kind_classify_def call_target_kinds analyze_jump_def analyze_data_def Let_def
            kinds_def [of "symtab d"] split: prod.splits)
      with 2 False dk show ?thesis by (simp add: kind_operand_def)
    qed
  qed
  with r show ?thesis by simp
qed

theorem analyzeOperand_refines_kinds_witness:
  "op_type (imm_op 0x3000) = Immediate
   \<and> map_sum id (\<lambda>(i', d'). kinds (symtab d')) (analyzeOperand (AssemblerPlugin 0) env0 call_2000 (imm_op 0x3000) d0)
       = Inr (kind_operand (AssemblerPlugin 0) env0 call_2000 (imm_op 0x3000) (kinds (symtab d0)))
   \<and> kind_operand (AssemblerPlugin 0) env0 call_2000 (imm_op 0x3000) (kinds (symtab d0)) 0x3000
       = Some SymbolTypes_Function"
proof -
  have np: "op_type (imm_op 0x3000) = Immediate" by (simp add: imm_op_def)
  have k: "kind_operand (AssemblerPlugin 0) env0 call_2000 (imm_op 0x3000) (kinds (symtab d0)) 0x3000
       = Some SymbolTypes_Function"
    by (simp add: kind_operand_def kind_deref_def kind_classify_def k_create_def kinds_def
        Operand_Analysis.fixture_defs eval_defs Let_def)
  show ?thesis using analyzeOperand_refines_kinds [of "imm_op 0x3000" env0] np k by simp
qed
end
