(* ===== verification/RD_Api.thy ===== *)
theory RD_Api
  imports Prelude Disassembler_Facade
begin

text \<open>
  The slice of the \<open>rdapi\<close> library and of Qt that the GUI shell
  (\<open>src/hooks/disassemblerhooks.cpp\<close>, \<open>src/mainwindow.cpp\<close>) consumes.  None of it
  is under \<open>src/\<close>: the types are modelled from the design document and from the calls
  the shell makes.  A document (\<open>RDDocument\<close>) is a record of lookup functions (segment
  of an address, start of the enclosing function, symbol name, comments); a command
  (\<open>ICommand\<close>) is the view's cursor state as the shell reads it.  The flag values are
  the model's choice; the theorems only use that the named flags are distinct bits.
  \<open>QString::toUInt\<close> in base 16 is \<open>toUInt_hex\<close>: an optional \<open>0x\<close> prefix,
  hex digits, and failure above \<open>2^32 - 1\<close> (the result type is a 32-bit \<open>uint\<close>).
\<close>

unbundle bit_operations_syntax

subsection \<open>Segments, symbols, document items\<close>

definition SegmentFlags_Code :: u32 where "SegmentFlags_Code = 0x1"
definition SegmentFlags_Data :: u32 where "SegmentFlags_Data = 0x2"
definition SegmentFlags_Bss :: u32 where "SegmentFlags_Bss = 0x4"

record rd_segment =
  rseg_name :: string
  rseg_flags :: u32

datatype rd_symbol_type =
    SymbolType_None | SymbolType_Data | SymbolType_String | SymbolType_Label
  | SymbolType_Function | SymbolType_Import

definition SymbolFlags_Weak :: u32 where "SymbolFlags_Weak = 0x1"
definition SymbolFlags_Pointer :: u32 where "SymbolFlags_Pointer = 0x2"
definition SymbolFlags_Export :: u32 where "SymbolFlags_Export = 0x4"

record rd_symbol =
  rsym_address :: u64
  rsym_type :: rd_symbol_type
  rsym_flags :: u32

datatype rd_item_type =
    DocumentItemType_Instruction | DocumentItemType_Symbol | DocumentItemType_Function
  | DocumentItemType_Segment | DocumentItemType_Other

record rd_item =
  item_address :: u64
  item_type :: rd_item_type

lemmas rd_flag_defs = SegmentFlags_Code_def SegmentFlags_Data_def SegmentFlags_Bss_def
  SymbolFlags_Weak_def SymbolFlags_Pointer_def SymbolFlags_Export_def

subsection \<open>Documents and commands\<close>

record rd_document =
  doc_segment :: "u64 \<Rightarrow> rd_segment option"          \<comment> \<open>\<open>RDDocument_GetSegmentAddress\<close>\<close>
  doc_function_start :: "u64 \<Rightarrow> u64 option"        \<comment> \<open>\<open>RDDocument_GetFunctionStart\<close>, \<open>valid\<close>/\<open>value\<close>\<close>
  doc_symbol_name :: "u64 \<Rightarrow> string option"        \<comment> \<open>\<open>RDDocument_GetSymbolName\<close>, null as \<open>None\<close>\<close>
  doc_comments :: "u64 \<Rightarrow> string"                  \<comment> \<open>\<open>RDDocument_GetComments\<close>\<close>
  doc_symbol_at :: "u64 \<Rightarrow> rd_symbol option"         \<comment> \<open>\<open>RDDocument_GetSymbolByAddress\<close>\<close>

record rd_command =
  cmd_item :: "rd_item option"          \<comment> \<open>\<open>getCurrentItem\<close>\<close>
  cmd_symbol :: "rd_symbol option"      \<comment> \<open>\<open>getCurrentSymbol\<close>\<close>
  cmd_busy :: bool                      \<comment> \<open>\<open>RDContext_IsBusy\<close>\<close>
  cmd_can_back :: bool
  cmd_can_forward :: bool
  cmd_has_selection :: bool
  cmd_current_word :: string
  cmd_doc :: rd_document
  cmd_references :: "u64 \<Rightarrow> nat"                 \<comment> \<open>\<open>RDNet_GetReferences\<close>, the count\<close>
  cmd_function_hexdump :: "u64 \<Rightarrow> (rd_symbol \<times> string) option"  \<comment> \<open>\<open>RDDisassembler_FunctionHexDump\<close>\<close>

definition seg_has :: "rd_segment option \<Rightarrow> u32 \<Rightarrow> bool" where
  "seg_has s f = (case s of None \<Rightarrow> False | Some sg \<Rightarrow> has_flag (rseg_flags sg) f)"

definition sym_has :: "rd_symbol \<Rightarrow> u32 \<Rightarrow> bool" where
  "sym_has s f = has_flag (rsym_flags s) f"

subsection \<open>Rendering and parsing of numbers\<close>

text \<open>\<open>RD_ToHexAuto\<close>: the address in hex, as \<^const>\<open>hex_address\<close> writes it.\<close>

definition RD_ToHexAuto :: "u64 \<Rightarrow> string" where
  "RD_ToHexAuto a = hex_address a"

fun hex_digits_value :: "string \<Rightarrow> nat option" where
  "hex_digits_value [] = Some 0"
| "hex_digits_value (c # cs) =
     (case (hex_value c, hex_digits_value cs) of
        (Some h, Some v) \<Rightarrow> Some (h * 16 ^ length cs + v)
      | _ \<Rightarrow> None)"

definition toUInt_hex :: "string \<Rightarrow> u32 option" where
  "toUInt_hex s =
     (let ds = (if take 2 s = ''0x'' \<or> take 2 s = ''0X'' then drop 2 s else s)
      in if ds = [] then None
         else (case hex_digits_value ds of
                 Some v \<Rightarrow> if v < 2 ^ 32 then Some (of_nat v) else None
               | None \<Rightarrow> None))"

declare hex_nat.simps [simp del]

lemma seg_has_Some [simp]: "seg_has (Some sg) f = has_flag (rseg_flags sg) f"
  by (simp add: seg_has_def)

lemma seg_has_None [simp]: "\<not> seg_has None f"
  by (simp add: seg_has_def)

subsection \<open>Reading back a rendered address\<close>

lemma hex_digits_value_snoc:
  "hex_value c = Some d \<Longrightarrow>
   hex_digits_value (xs @ [c]) = map_option (\<lambda>v. 16 * v + d) (hex_digits_value xs)"
proof (induction xs)
  case Nil
  then show ?case by simp
next
  case (Cons x xs)
  then show ?case
    by (auto simp: algebra_simps split: option.splits)
qed

lemma hex_digits_value_hex_nat: "hex_digits_value (hex_nat n) = Some n"
proof (induction n rule: hex_nat.induct)
  case (1 n)
  show ?case
  proof (cases "n < 16")
    case True
    then show ?thesis by (simp add: hex_nat.simps [of n])
  next
    case False
    then have "hex_digits_value (hex_nat (n div 16)) = Some (n div 16)" using "1.IH" by simp
    with False show ?thesis by (simp add: hex_nat.simps [of n] hex_digits_value_snoc)
  qed
qed

lemma hex_digits_value_digits: "hex_digits_value s = Some v \<Longrightarrow> c \<in> set s \<Longrightarrow> hex_value c \<noteq> None"
  by (induction s arbitrary: v) (auto split: option.splits)

lemma hex_nat_no_prefix: "take 2 (hex_nat n) \<noteq> ''0x'' \<and> take 2 (hex_nat n) \<noteq> ''0X''"
proof -
  have x: "hex_value (CHR ''x'') = None" "hex_value (CHR ''X'') = None" by (simp_all add: hex_value_def)
  have "CHR ''x'' \<notin> set (hex_nat n)" "CHR ''X'' \<notin> set (hex_nat n)"
    using hex_digits_value_digits [OF hex_digits_value_hex_nat] x by metis+
  then show ?thesis by (metis in_set_takeD list.set_intros(1) list.set_intros(2))
qed

lemma hex_nat_nonempty: "hex_nat n \<noteq> []"
  by (induction n rule: hex_nat.induct) (simp add: hex_nat.simps)

lemma toUInt_hex_address:
  "toUInt_hex (hex_address a) = (if unat a < 2 ^ 32 then Some (ucast a) else None)"
proof -
  let ?s = "hex_nat (unat a)"
  have np: "\<not> (take 2 ?s = ''0x'' \<or> take 2 ?s = ''0X'')" using hex_nat_no_prefix [of "unat a"] by blast
  have ne: "?s \<noteq> []" by (rule hex_nat_nonempty)
  have u: "(of_nat (unat a) :: u32) = ucast a" by (rule bit_word_eqI) (simp add: bit_simps)
  show ?thesis
    unfolding toUInt_hex_def hex_address_def Let_def
    using np ne u by (simp del: hex_nat.simps add: hex_digits_value_hex_nat)
qed

lemma hex_address_inj: "hex_address a = hex_address b \<Longrightarrow> a = b"
  by (metis hex_address_def hex_digits_value_hex_nat option.inject word_unat_eq_iff)

end
