(* ===== verification/Hooks_Menu.thy ===== *)
theory Hooks_Menu
  imports RD_Api
begin

text \<open>
  The listing's context menu in \<open>src/hooks/disassemblerhooks.cpp\<close>:
  \<open>DisassemblerHooks::createActions\<close> (lines 390-502), which builds the thirteen actions
  with their handlers, and \<open>DisassemblerHooks::adjustActions\<close> (lines 230-319), which
  runs each time the menu is about to show and sets every action's visibility and text
  from the cursor.  The menu is a function from \<open>hook_action\<close> to the action's
  visible flag and text; \<open>setVisible\<close>/\<open>setText\<close> are the Qt setters, applied in the
  source's order.  The handlers act on the document and return the effects they request
  (a log line, a message box, a dialog, a navigation, a worker); the user's answer to an
  input dialog is a parameter.
\<close>

datatype hook_action =
    Action_Rename | Action_Comment | Action_XRefs | Action_Follow | Action_FollowPointerHexDump
  | Action_Goto | Action_CallGraph | Action_HexDump | Action_HexDumpFunction
  | Action_CreateFunction | Action_Back | Action_Forward | Action_Copy

record menu_action =
  act_visible :: bool
  act_text :: string

type_synonym context_menu = "hook_action \<Rightarrow> menu_action"

definition setVisible :: "hook_action \<Rightarrow> bool \<Rightarrow> context_menu \<Rightarrow> context_menu" where
  "setVisible a b m = m(a := (m a)\<lparr>act_visible := b\<rparr>)"

definition setText :: "hook_action \<Rightarrow> string \<Rightarrow> context_menu \<Rightarrow> context_menu" where
  "setText a s m = m(a := (m a)\<lparr>act_text := s\<rparr>)"

text \<open>\<open>QString("...%1").arg(const char*)\<close>: a null name gives the empty string.\<close>

definition qstr :: "string option \<Rightarrow> string" where
  "qstr s = (case s of Some n \<Rightarrow> n | None \<Rightarrow> [])"

subsection \<open>\<open>createActions\<close>: the menu as built\<close>

primrec action_title :: "hook_action \<Rightarrow> string" where
  "action_title Action_Rename = ''Rename''"
| "action_title Action_Comment = ''Comment''"
| "action_title Action_XRefs = ''Cross References''"
| "action_title Action_Follow = ''Follow''"
| "action_title Action_FollowPointerHexDump = ''Follow pointer in Hex Dump''"
| "action_title Action_Goto = ''Goto...''"
| "action_title Action_CallGraph = ''Call Graph''"
| "action_title Action_HexDump = ''Show Hex Dump''"
| "action_title Action_HexDumpFunction = ''Hex Dump Function''"
| "action_title Action_CreateFunction = ''Create Function''"
| "action_title Action_Back = ''Back''"
| "action_title Action_Forward = ''Forward''"
| "action_title Action_Copy = ''Copy''"

definition createActions_menu :: context_menu where
  "createActions_menu a = \<lparr>act_visible = True, act_text = action_title a\<rparr>"

subsection \<open>\<open>adjustActions\<close>\<close>

text \<open>The branch for a cursor on no symbol (lines 257-287).\<close>

definition adjust_no_symbol :: "rd_command \<Rightarrow> rd_item \<Rightarrow> context_menu \<Rightarrow> context_menu" where
  "adjust_no_symbol c item m =
     (let doc = cmd_doc c;
          symbolsegment = doc_segment doc (item_address item);
          funcname = (case doc_function_start doc (item_address item) of
                        Some fs \<Rightarrow> doc_symbol_name doc fs | None \<Rightarrow> None);
          m1 = setVisible Action_Rename False m;
          m2 = setVisible Action_XRefs False m1;
          m3 = setVisible Action_Follow False m2;
          m4 = setVisible Action_FollowPointerHexDump False m3;
          m5 = (if \<not> cmd_busy c then
                  (let cur = toUInt_hex (cmd_current_word c);
                       currentaddress = (case cur of Some v \<Rightarrow> (ucast v :: u64) | None \<Rightarrow> 0);
                       currentsegment = (case cur of Some v \<Rightarrow> doc_segment doc currentaddress | None \<Rightarrow> None);
                       m' = setVisible Action_CreateFunction (seg_has currentsegment SegmentFlags_Code) m4
                   in if currentsegment \<noteq> None
                      then setText Action_CreateFunction (''Create Function @ '' @ RD_ToHexAuto currentaddress) m'
                      else m')
                else setVisible Action_CreateFunction False m4);
          m6 = (case funcname of Some n \<Rightarrow> setText Action_CallGraph (''Callgraph '' @ n) m5 | None \<Rightarrow> m5);
          m7 = setVisible Action_CallGraph (funcname \<noteq> None \<and> seg_has symbolsegment SegmentFlags_Code) m6;
          m8 = setVisible Action_HexDumpFunction (funcname \<noteq> None) m7
      in setVisible Action_HexDump True m8)"

text \<open>The branch for a cursor on a symbol (lines 290-318).\<close>

definition adjust_symbol :: "rd_command \<Rightarrow> rd_item \<Rightarrow> rd_symbol \<Rightarrow> context_menu \<Rightarrow> context_menu" where
  "adjust_symbol c item sy m =
     (let doc = cmd_doc c;
          busy = cmd_busy c;
          itemsegment = doc_segment doc (item_address item);
          symbolname = qstr (doc_symbol_name doc (rsym_address sy));
          symbolsegment = doc_segment doc (rsym_address sy);
          m1 = setText Action_CreateFunction (''Create Function @ '' @ RD_ToHexAuto (rsym_address sy)) m;
          m2 = setVisible Action_CreateFunction
                 (\<not> busy \<and> seg_has symbolsegment SegmentFlags_Code
                  \<and> (sym_has sy SymbolFlags_Weak \<and> rsym_type sy \<noteq> SymbolType_Function)) m1;
          m3 = setText Action_FollowPointerHexDump (''Follow '' @ symbolname @ '' pointer in Hex Dump'') m2;
          m4 = setVisible Action_FollowPointerHexDump (sym_has sy SymbolFlags_Pointer) m3;
          m5 = setText Action_XRefs (''Cross Reference '' @ symbolname) m4;
          m6 = setVisible Action_XRefs (\<not> busy) m5;
          m7 = setText Action_Rename (''Rename '' @ symbolname) m6;
          m8 = setVisible Action_Rename (\<not> busy \<and> sym_has sy SymbolFlags_Weak) m7;
          m9 = setText Action_CallGraph (''Callgraph '' @ symbolname) m8;
          m10 = setVisible Action_CallGraph (\<not> busy \<and> rsym_type sy = SymbolType_Function) m9;
          m11 = setText Action_Follow (''Follow '' @ symbolname) m10;
          m12 = setVisible Action_Follow (rsym_type sy = SymbolType_Label) m11;
          m13 = setVisible Action_Comment (\<not> busy \<and> item_type item = DocumentItemType_Instruction) m12;
          m14 = setVisible Action_HexDump (seg_has symbolsegment SegmentFlags_Bss) m13
      in setVisible Action_HexDumpFunction
           (itemsegment \<noteq> None \<and> \<not> seg_has itemsegment SegmentFlags_Bss
            \<and> seg_has itemsegment SegmentFlags_Code) m14)"

text \<open>
  The whole slot (lines 241-319): nothing happens without a current item; otherwise the
  navigation actions follow the command, then one of the two branches runs.  The map
  from action ids to actions built at lines 233-239 holds all thirteen actions, since
  \<open>createActions\<close> tags each of them.
\<close>

definition adjustActions :: "rd_command \<Rightarrow> context_menu \<Rightarrow> context_menu" where
  "adjustActions c m =
     (case cmd_item c of
        None \<Rightarrow> m
      | Some item \<Rightarrow>
          (let m1 = setVisible Action_Back (cmd_can_back c) m;
               m2 = setVisible Action_Forward (cmd_can_forward c) m1;
               m3 = setVisible Action_Copy (cmd_has_selection c) m2;
               m4 = setVisible Action_Goto (\<not> cmd_busy c) m3
           in case cmd_symbol c of
                None \<Rightarrow> adjust_no_symbol c item m4
              | Some sy \<Rightarrow> adjust_symbol c item sy m4))"

subsection \<open>The handlers of \<open>createActions\<close>\<close>

datatype hook_effect =
    Log string                     \<comment> \<open>\<open>rd_log\<close>, \<open>RD_Log\<close>\<close>
  | InfoBox string string          \<comment> \<open>\<open>QMessageBox::information\<close>: title, text\<close>
  | ReferencesDialog u64           \<comment> \<open>\<open>ReferencesDialog::exec\<close> on a symbol\<close>
  | GotoDialog                     \<comment> \<open>\<open>GotoDialog::exec\<close>\<close>
  | GoToAddress u64                \<comment> \<open>\<open>ICommand::goToAddress\<close>\<close>
  | StartWorker u64                \<comment> \<open>\<open>std::async\<close> running \<open>RDDisassembler_CreateFunction\<close>\<close>
  | GoBack | GoForward | CopySelection

text \<open>
  An input dialog is a function from its title and initial text to the user's answer:
  accepted or not, and the text.
\<close>

type_synonym input_dialog = "string \<Rightarrow> string \<Rightarrow> bool \<times> string"

definition RDDocument_Rename :: "u64 \<Rightarrow> string \<Rightarrow> rd_document \<Rightarrow> rd_document" where
  "RDDocument_Rename a n doc = doc\<lparr>doc_symbol_name := (doc_symbol_name doc)(a \<mapsto> n)\<rparr>"

definition RDDocument_Comment :: "u64 \<Rightarrow> string \<Rightarrow> rd_document \<Rightarrow> rd_document" where
  "RDDocument_Comment a s doc = doc\<lparr>doc_comments := (doc_comments doc)(a := s)\<rparr>"

definition on_rename :: "rd_command \<Rightarrow> input_dialog \<Rightarrow> rd_document" where
  "on_rename c dlg =
     (case cmd_symbol c of
        None \<Rightarrow> cmd_doc c
      | Some sy \<Rightarrow>
          (case doc_symbol_name (cmd_doc c) (rsym_address sy) of
             None \<Rightarrow> cmd_doc c
           | Some name \<Rightarrow>
               (let (ok, res) = dlg (''Rename @ '' @ RD_ToHexAuto (rsym_address sy)) name
                in if \<not> ok then cmd_doc c else RDDocument_Rename (rsym_address sy) res (cmd_doc c))))"

definition on_comment :: "rd_command \<Rightarrow> input_dialog \<Rightarrow> rd_document" where
  "on_comment c dlg =
     (case cmd_item c of
        None \<Rightarrow> cmd_doc c
      | Some item \<Rightarrow>
          (let (ok, res) = dlg (''Comment @ '' @ RD_ToHexAuto (item_address item))
                               (doc_comments (cmd_doc c) (item_address item))
           in if \<not> ok then cmd_doc c else RDDocument_Comment (item_address item) res (cmd_doc c)))"

text \<open>\<open>DisassemblerHooks::showReferences\<close> (lines 85-102).\<close>

definition showReferences :: "rd_command \<Rightarrow> u64 \<Rightarrow> hook_effect list" where
  "showReferences c a =
     (case doc_symbol_at (cmd_doc c) a of
        None \<Rightarrow> []
      | Some sy \<Rightarrow>
          if cmd_references c (rsym_address sy) = 0
          then [InfoBox ''No References''
                  (''There are no references to '' @ qstr (doc_symbol_name (cmd_doc c) (rsym_address sy)) @ '' '')]
          else [ReferencesDialog (rsym_address sy)])"

definition on_xrefs :: "rd_command \<Rightarrow> hook_effect list" where
  "on_xrefs c = (case cmd_symbol c of None \<Rightarrow> [] | Some sy \<Rightarrow> showReferences c (rsym_address sy))"

definition on_follow :: "rd_command \<Rightarrow> hook_effect list" where
  "on_follow c = (case cmd_symbol c of None \<Rightarrow> [] | Some sy \<Rightarrow> [GoToAddress (rsym_address sy)])"

definition on_hexdump_function :: "rd_command \<Rightarrow> hook_effect list" where
  "on_hexdump_function c =
     (case cmd_item c of
        None \<Rightarrow> []
      | Some item \<Rightarrow>
          (case cmd_function_hexdump c (item_address item) of
             None \<Rightarrow> []
           | Some (sy, hexdump) \<Rightarrow>
               [Log (qstr (doc_symbol_name (cmd_doc c) (rsym_address sy)) @ '': '' @ hexdump)]))"

text \<open>
  The Create Function handler (lines 471-479).  When there is no current symbol the
  local \<open>RDSymbol symbol\<close> was never written, yet its \<open>address\<close> is logged: the
  model makes that indeterminate value the parameter \<open>uninit\<close>.
\<close>

definition on_create_function :: "rd_command \<Rightarrow> u64 \<Rightarrow> hook_effect list" where
  "on_create_function c uninit =
     (case cmd_symbol c of
        None \<Rightarrow> [Log (''Cannot create function @ '' @ hex_address uninit)]
      | Some sy \<Rightarrow> [StartWorker (rsym_address sy)])"

definition on_goto :: "rd_command \<Rightarrow> hook_effect list" where
  "on_goto c = [GotoDialog]"

subsection \<open>Fixtures\<close>

text \<open>
  A document with a code segment below \<open>0x2000\<close> and another above 4 GiB, a BSS
  segment at \<open>0x8000\<close>, and the function \<open>main\<close> at \<open>0x1000\<close>; a cursor on
  \<open>main\<close>'s first instruction.
\<close>

definition text_seg :: rd_segment where
  "text_seg = \<lparr>rseg_name = ''.text'', rseg_flags = SegmentFlags_Code\<rparr>"

definition bss_seg :: rd_segment where
  "bss_seg = \<lparr>rseg_name = ''.bss'', rseg_flags = SegmentFlags_Bss\<rparr>"

definition sym_main :: rd_symbol where
  "sym_main = \<lparr>rsym_address = 0x1000, rsym_type = SymbolType_Function, rsym_flags = SymbolFlags_Weak\<rparr>"

definition doc_fx :: rd_document where
  "doc_fx =
     \<lparr>doc_segment = (\<lambda>a. if a < 0x2000 \<or> (0x100000000 \<le> a \<and> a < 0x100002000) then Some text_seg
                         else if 0x8000 \<le> a \<and> a < 0x9000 then Some bss_seg else None),
      doc_function_start = (\<lambda>a. if 0x1000 \<le> a \<and> a < 0x1100 then Some 0x1000 else None),
      doc_symbol_name = [0x1000 \<mapsto> ''main''],
      doc_comments = (\<lambda>_. []),
      doc_symbol_at = [0x1000 \<mapsto> sym_main]\<rparr>"

definition cmd_fx :: rd_command where
  "cmd_fx =
     \<lparr>cmd_item = Some \<lparr>item_address = 0x1000, item_type = DocumentItemType_Instruction\<rparr>,
      cmd_symbol = Some sym_main, cmd_busy = False, cmd_can_back = True, cmd_can_forward = False,
      cmd_has_selection = False, cmd_current_word = ''main'', cmd_doc = doc_fx,
      cmd_references = (\<lambda>_. 0), cmd_function_hexdump = (\<lambda>_. None)\<rparr>"

named_theorems menu_simps

subsection \<open>Setters and the two branches\<close>

lemma menu_fields [simp, menu_simps]:
  "act_visible (setVisible a b m x) = (if x = a then b else act_visible (m x))"
  "act_text (setVisible a b m x) = act_text (m x)"
  "act_visible (setText a s m x) = act_visible (m x)"
  "act_text (setText a s m x) = (if x = a then s else act_text (m x))"
  by (simp_all add: setVisible_def setText_def)

lemma adjust_no_symbol_fields:
  "act_visible (adjust_no_symbol c item m Action_Comment) = act_visible (m Action_Comment)"
  "act_visible (adjust_no_symbol c item m Action_Rename) = False"
  "act_visible (adjust_no_symbol c item m Action_XRefs) = False"
  "cmd_busy c \<Longrightarrow> act_visible (adjust_no_symbol c item m Action_CreateFunction) = False"
  "act_visible (adjust_no_symbol c item m Action_Goto) = act_visible (m Action_Goto)"
  "act_visible (adjust_no_symbol c item m Action_Back) = act_visible (m Action_Back)"
  "act_visible (adjust_no_symbol c item m Action_Forward) = act_visible (m Action_Forward)"
  "act_visible (adjust_no_symbol c item m Action_Copy) = act_visible (m Action_Copy)"
  by (simp_all add: adjust_no_symbol_def Let_def split: option.splits)

lemma adjust_symbol_fields:
  "act_visible (adjust_symbol c item sy m Action_Goto) = act_visible (m Action_Goto)"
  "act_visible (adjust_symbol c item sy m Action_Back) = act_visible (m Action_Back)"
  "act_visible (adjust_symbol c item sy m Action_Forward) = act_visible (m Action_Forward)"
  "act_visible (adjust_symbol c item sy m Action_Copy) = act_visible (m Action_Copy)"
  "act_visible (adjust_symbol c item sy m Action_Comment) = (\<not> cmd_busy c \<and> item_type item = DocumentItemType_Instruction)"
  "act_visible (adjust_symbol c item sy m Action_Rename) = (\<not> cmd_busy c \<and> sym_has sy SymbolFlags_Weak)"
  "act_visible (adjust_symbol c item sy m Action_XRefs) = (\<not> cmd_busy c)"
  "act_visible (adjust_symbol c item sy m Action_CallGraph) = (\<not> cmd_busy c \<and> rsym_type sy = SymbolType_Function)"
  "act_visible (adjust_symbol c item sy m Action_CreateFunction) =
     (\<not> cmd_busy c \<and> seg_has (doc_segment (cmd_doc c) (rsym_address sy)) SegmentFlags_Code
      \<and> sym_has sy SymbolFlags_Weak \<and> rsym_type sy \<noteq> SymbolType_Function)"
  "act_text (adjust_symbol c item sy m Action_CreateFunction) = ''Create Function @ '' @ RD_ToHexAuto (rsym_address sy)"
  "act_visible (adjust_symbol c item sy m Action_HexDump) = seg_has (doc_segment (cmd_doc c) (rsym_address sy)) SegmentFlags_Bss"
  "act_visible (adjust_symbol c item sy m Action_HexDumpFunction) =
     (doc_segment (cmd_doc c) (item_address item) \<noteq> None \<and> \<not> seg_has (doc_segment (cmd_doc c) (item_address item)) SegmentFlags_Bss
      \<and> seg_has (doc_segment (cmd_doc c) (item_address item)) SegmentFlags_Code)"
  by (simp_all add: adjust_symbol_def Let_def)

lemma adjust_create_no_symbol:
  assumes "cmd_symbol c = None"
  shows "act_visible (adjust_no_symbol c item m Action_CreateFunction) =
     (\<not> cmd_busy c \<and> (case toUInt_hex (cmd_current_word c) of
                         None \<Rightarrow> False
                       | Some v \<Rightarrow> seg_has (doc_segment (cmd_doc c) (ucast v)) SegmentFlags_Code))"
  by (simp add: adjust_no_symbol_def Let_def split: option.splits)


lemmas fixture_defs = text_seg_def bss_seg_def sym_main_def doc_fx_def cmd_fx_def rd_flag_defs sym_has_def has_flag_def

lemma adjustActions_item:
  "cmd_item c = Some item \<Longrightarrow> adjustActions c m =
     (let m4 = setVisible Action_Goto (\<not> cmd_busy c) (setVisible Action_Copy (cmd_has_selection c)
                 (setVisible Action_Forward (cmd_can_forward c) (setVisible Action_Back (cmd_can_back c) m)))
      in case cmd_symbol c of None \<Rightarrow> adjust_no_symbol c item m4 | Some sy \<Rightarrow> adjust_symbol c item sy m4)"
  by (simp add: adjustActions_def)

text \<open>
  C23. While the context is busy, a menu opened on any item hides Goto, Rename, Cross
  References and Create Function, whether the cursor is on a symbol or not.
\<close>

theorem busy_hides_actions:
  assumes "cmd_item c = Some item" "cmd_busy c"
  shows "\<not> act_visible (adjustActions c m Action_Goto) \<and> \<not> act_visible (adjustActions c m Action_Rename)
       \<and> \<not> act_visible (adjustActions c m Action_XRefs) \<and> \<not> act_visible (adjustActions c m Action_CreateFunction)"
  using assms
  by (cases "cmd_symbol c")
     (simp_all add: adjustActions_item Let_def adjust_no_symbol_fields adjust_symbol_fields)

theorem busy_hides_actions_witness:
  "cmd_item (cmd_fx\<lparr>cmd_busy := True\<rparr>) = Some \<lparr>item_address = 0x1000, item_type = DocumentItemType_Instruction\<rparr>
   \<and> cmd_busy (cmd_fx\<lparr>cmd_busy := True\<rparr>)
   \<and> \<not> act_visible (adjustActions (cmd_fx\<lparr>cmd_busy := True\<rparr>) createActions_menu Action_Rename)"
  using busy_hides_actions [of "cmd_fx\<lparr>cmd_busy := True\<rparr>" "\<lparr>item_address = 0x1000, item_type = DocumentItemType_Instruction\<rparr>" createActions_menu]
  by (simp add: cmd_fx_def)

text \<open>
  C24. The Comment action is only ever adjusted on the symbol branch: on an item with no
  symbol, \<open>adjustActions\<close> leaves its visibility as the previous opening of the menu
  left it, so it can be offered while the context is busy or on a non-instruction item.
\<close>

theorem comment_visibility_stale:
  assumes "cmd_item c = Some item" "cmd_symbol c = None"
  shows "act_visible (adjustActions c m Action_Comment) = act_visible (m Action_Comment)"
  using assms by (simp add: adjustActions_item Let_def adjust_no_symbol_fields)

theorem comment_visibility_stale_witness:
  "cmd_item (cmd_fx\<lparr>cmd_symbol := None, cmd_busy := True, cmd_item := Some \<lparr>item_address = 0x8004, item_type = DocumentItemType_Other\<rparr>\<rparr>)
     = Some \<lparr>item_address = 0x8004, item_type = DocumentItemType_Other\<rparr>
   \<and> cmd_symbol (cmd_fx\<lparr>cmd_symbol := None, cmd_busy := True, cmd_item := Some \<lparr>item_address = 0x8004, item_type = DocumentItemType_Other\<rparr>\<rparr>) = None
   \<and> act_visible (adjustActions
        (cmd_fx\<lparr>cmd_symbol := None, cmd_busy := True, cmd_item := Some \<lparr>item_address = 0x8004, item_type = DocumentItemType_Other\<rparr>\<rparr>)
        (adjustActions cmd_fx createActions_menu) Action_Comment)"
proof -
  let ?c = "cmd_fx\<lparr>cmd_symbol := None, cmd_busy := True, cmd_item := Some \<lparr>item_address = 0x8004, item_type = DocumentItemType_Other\<rparr>\<rparr>"
  have first: "act_visible (adjustActions cmd_fx createActions_menu Action_Comment)"
    by (simp add: adjustActions_def cmd_fx_def Let_def adjust_symbol_fields)
  have "act_visible (adjustActions ?c (adjustActions cmd_fx createActions_menu) Action_Comment)
          = act_visible (adjustActions cmd_fx createActions_menu Action_Comment)"
    by (rule comment_visibility_stale) simp_all
  with first show ?thesis by simp
qed

text \<open>
  C25. On a symbol, Create Function is offered exactly when the context is idle, the
  symbol lies in a code segment, and it is a weak symbol that is not already a function;
  its text names the symbol's address.
\<close>

theorem create_function_on_symbol:
  assumes "cmd_item c = Some item" "cmd_symbol c = Some sy"
  shows "act_visible (adjustActions c m Action_CreateFunction) =
           (\<not> cmd_busy c \<and> seg_has (doc_segment (cmd_doc c) (rsym_address sy)) SegmentFlags_Code
            \<and> sym_has sy SymbolFlags_Weak \<and> rsym_type sy \<noteq> SymbolType_Function)
       \<and> act_text (adjustActions c m Action_CreateFunction) = ''Create Function @ '' @ RD_ToHexAuto (rsym_address sy)"
  using assms by (simp add: adjustActions_item Let_def adjust_symbol_fields)

theorem create_function_on_symbol_witness:
  "cmd_item (cmd_fx\<lparr>cmd_symbol := Some (sym_main\<lparr>rsym_type := SymbolType_Label\<rparr>)\<rparr>) = cmd_item cmd_fx
   \<and> cmd_symbol (cmd_fx\<lparr>cmd_symbol := Some (sym_main\<lparr>rsym_type := SymbolType_Label\<rparr>)\<rparr>) = Some (sym_main\<lparr>rsym_type := SymbolType_Label\<rparr>)
   \<and> act_visible (adjustActions (cmd_fx\<lparr>cmd_symbol := Some (sym_main\<lparr>rsym_type := SymbolType_Label\<rparr>)\<rparr>)
                   createActions_menu Action_CreateFunction)"
  using create_function_on_symbol [of "cmd_fx\<lparr>cmd_symbol := Some (sym_main\<lparr>rsym_type := SymbolType_Label\<rparr>)\<rparr>"
      "\<lparr>item_address = 0x1000, item_type = DocumentItemType_Instruction\<rparr>" "sym_main\<lparr>rsym_type := SymbolType_Label\<rparr>" createActions_menu]
  by (simp add: fixture_defs)


text \<open>
  Off a symbol, Create Function is offered exactly when the context is idle and the
  word under the cursor parses as a hexadecimal \<open>uint\<close> that lies in a code segment.
\<close>

theorem create_function_off_symbol:
  assumes "cmd_item c = Some item" "cmd_symbol c = None"
  shows "act_visible (adjustActions c m Action_CreateFunction) =
     (\<not> cmd_busy c \<and> (case toUInt_hex (cmd_current_word c) of
                         None \<Rightarrow> False
                       | Some v \<Rightarrow> seg_has (doc_segment (cmd_doc c) (ucast v)) SegmentFlags_Code))"
  using assms by (simp add: adjustActions_item Let_def adjust_create_no_symbol)

lemma toUInt_hex_1000: "toUInt_hex ''1000'' = Some 0x1000"
  by (simp add: toUInt_hex_def hex_value_def)

theorem create_function_off_symbol_witness:
  "cmd_item (cmd_fx\<lparr>cmd_symbol := None, cmd_current_word := ''1000''\<rparr>) = cmd_item cmd_fx
   \<and> cmd_symbol (cmd_fx\<lparr>cmd_symbol := None, cmd_current_word := ''1000''\<rparr>) = None
   \<and> act_visible (adjustActions (cmd_fx\<lparr>cmd_symbol := None, cmd_current_word := ''1000''\<rparr>)
                   createActions_menu Action_CreateFunction)"
  using create_function_off_symbol [of "cmd_fx\<lparr>cmd_symbol := None, cmd_current_word := ''1000''\<rparr>"
      "\<lparr>item_address = 0x1000, item_type = DocumentItemType_Instruction\<rparr>" createActions_menu]
  by (simp add: fixture_defs toUInt_hex_1000)

text \<open>
  C27. Because the word under the cursor is read with \<open>toUInt\<close>, a 32-bit conversion,
  Create Function is never offered off a symbol for an address at or above 4 GiB, even
  when the cursor shows exactly that address inside a code segment.
\<close>

theorem create_function_above_4g:
  assumes "cmd_item c = Some item" "cmd_symbol c = None"
    and "cmd_current_word c = RD_ToHexAuto a" "2 ^ 32 \<le> unat a"
  shows "\<not> act_visible (adjustActions c m Action_CreateFunction)"
  using assms by (simp add: adjustActions_item Let_def adjust_create_no_symbol RD_ToHexAuto_def toUInt_hex_address)

theorem create_function_above_4g_witness:
  "seg_has (doc_segment doc_fx 0x100001000) SegmentFlags_Code \<and> 2 ^ 32 \<le> unat (0x100001000 :: u64)
   \<and> \<not> act_visible (adjustActions (cmd_fx\<lparr>cmd_symbol := None, cmd_current_word := RD_ToHexAuto 0x100001000\<rparr>)
                     createActions_menu Action_CreateFunction)"
proof -
  have s: "seg_has (doc_segment doc_fx 0x100001000) SegmentFlags_Code" by (simp add: fixture_defs)
  have u: "2 ^ 32 \<le> unat (0x100001000 :: u64)" by simp
  have "\<not> act_visible (adjustActions (cmd_fx\<lparr>cmd_symbol := None, cmd_current_word := RD_ToHexAuto 0x100001000\<rparr>)
                     createActions_menu Action_CreateFunction)"
    by (rule create_function_above_4g [OF _ _ _ u]) (simp_all add: cmd_fx_def)
  with s u show ?thesis by blast
qed

text \<open>
  C28. On a symbol, Show Hex Dump is offered exactly for symbols in a BSS segment, while
  Hex Dump Function is offered exactly for items in a code segment that is not BSS.
\<close>

theorem hexdump_visibility:
  assumes "cmd_item c = Some item" "cmd_symbol c = Some sy"
  shows "act_visible (adjustActions c m Action_HexDump) = seg_has (doc_segment (cmd_doc c) (rsym_address sy)) SegmentFlags_Bss
     \<and> act_visible (adjustActions c m Action_HexDumpFunction) =
         (doc_segment (cmd_doc c) (item_address item) \<noteq> None
          \<and> \<not> seg_has (doc_segment (cmd_doc c) (item_address item)) SegmentFlags_Bss
          \<and> seg_has (doc_segment (cmd_doc c) (item_address item)) SegmentFlags_Code)"
  using assms by (simp add: adjustActions_item Let_def adjust_symbol_fields)

theorem hexdump_visibility_witness:
  "\<not> act_visible (adjustActions cmd_fx createActions_menu Action_HexDump)
   \<and> act_visible (adjustActions cmd_fx createActions_menu Action_HexDumpFunction)"
  using hexdump_visibility [of cmd_fx "\<lparr>item_address = 0x1000, item_type = DocumentItemType_Instruction\<rparr>" sym_main createActions_menu]
  by (simp add: fixture_defs)

text \<open>Without a current item the menu is left exactly as it was.\<close>

theorem no_item_no_change: "cmd_item c = None \<Longrightarrow> adjustActions c m = m"
  by (simp add: adjustActions_def)

theorem no_item_no_change_witness:
  "adjustActions (cmd_fx\<lparr>cmd_item := None\<rparr>) createActions_menu = createActions_menu"
  by (rule no_item_no_change) simp

text \<open>
  On any item, Back, Forward and Copy are visible exactly when the command can go
  back, go forward, and has a selection, and Goto exactly when the context is idle.
\<close>

theorem navigation_follows_command:
  assumes "cmd_item c = Some item"
  shows "act_visible (adjustActions c m Action_Back) = cmd_can_back c
    \<and> act_visible (adjustActions c m Action_Forward) = cmd_can_forward c
    \<and> act_visible (adjustActions c m Action_Copy) = cmd_has_selection c
    \<and> act_visible (adjustActions c m Action_Goto) = (\<not> cmd_busy c)"
  using assms by (cases "cmd_symbol c") (simp_all add: adjustActions_item Let_def adjust_no_symbol_fields adjust_symbol_fields)

theorem navigation_follows_command_witness:
  "act_visible (adjustActions cmd_fx createActions_menu Action_Back)
   \<and> \<not> act_visible (adjustActions cmd_fx createActions_menu Action_Forward)"
  using navigation_follows_command [of cmd_fx "\<lparr>item_address = 0x1000, item_type = DocumentItemType_Instruction\<rparr>" createActions_menu]
  by (simp add: cmd_fx_def)

text \<open>
  C31. Rename changes nothing but one name: the name of the current symbol, and only when
  that symbol has a name and the user accepts the dialog, which then shows the old name.
\<close>

theorem rename_only_current_symbol:
  "(on_rename c dlg)\<lparr>doc_symbol_name := doc_symbol_name (cmd_doc c)\<rparr> = cmd_doc c
   \<and> (\<forall>a. doc_symbol_name (on_rename c dlg) a \<noteq> doc_symbol_name (cmd_doc c) a \<longrightarrow>
        (\<exists>sy n. cmd_symbol c = Some sy \<and> a = rsym_address sy \<and> doc_symbol_name (cmd_doc c) a = Some n
               \<and> dlg (''Rename @ '' @ RD_ToHexAuto a) n = (True, the (doc_symbol_name (on_rename c dlg) a))))"
  by (auto simp: on_rename_def RDDocument_Rename_def split: option.splits prod.splits)

theorem rename_only_current_symbol_witness:
  "doc_symbol_name (on_rename cmd_fx (\<lambda>t n. (True, ''entry''))) 0x1000 = Some ''entry''
   \<and> (\<exists>sy n. cmd_symbol cmd_fx = Some sy \<and> (0x1000::u64) = rsym_address sy \<and> doc_symbol_name (cmd_doc cmd_fx) 0x1000 = Some n
        \<and> (\<lambda>t n. (True, ''entry'')) (''Rename @ '' @ RD_ToHexAuto 0x1000) n
            = (True, the (doc_symbol_name (on_rename cmd_fx (\<lambda>t n. (True, ''entry''))) 0x1000)))"
proof -
  have r: "doc_symbol_name (on_rename cmd_fx (\<lambda>t n. (True, ''entry''))) 0x1000 = Some ''entry''"
    by (simp add: on_rename_def RDDocument_Rename_def fixture_defs)
  have "doc_symbol_name (on_rename cmd_fx (\<lambda>t n. (True, ''entry''))) 0x1000 \<noteq> doc_symbol_name (cmd_doc cmd_fx) 0x1000"
    using r by (simp add: fixture_defs)
  with rename_only_current_symbol [of cmd_fx "\<lambda>t n. (True, ''entry'')"] r show ?thesis by blast
qed

text \<open>
  C32. Create Function without a current symbol logs the \<open>address\<close> of a symbol that
  was never read: the message depends on the indeterminate contents of the local, so two
  runs in the same state may log different addresses.
\<close>

theorem create_function_logs_uninitialized:
  assumes "cmd_symbol c = None" "u1 \<noteq> u2"
  shows "on_create_function c u1 \<noteq> on_create_function c u2"
  using assms by (auto simp: on_create_function_def dest: hex_address_inj)

theorem create_function_logs_uninitialized_witness:
  "on_create_function (cmd_fx\<lparr>cmd_symbol := None\<rparr>) 0 \<noteq> on_create_function (cmd_fx\<lparr>cmd_symbol := None\<rparr>) 1"
  by (rule create_function_logs_uninitialized) simp_all

end
