(* ===== verification/Hooks_Status.thy ===== *)
theory Hooks_Status
  imports RD_Api
begin

text \<open>
  \<open>DisassemblerHooks::statusAddress\<close> (\<open>src/hooks/disassemblerhooks.cpp\<close>, lines
  185-228): the status-bar line for the item under the cursor, \<open>Function: name+off\<close>,
  \<open>Address\<close>, \<open>Offset\<close> and \<open>Segment\<close>.  The result is the text passed to
  \<open>RD_Status\<close>, or \<open>None\<close> for the two early returns.  The loader's
  \<open>RD_Offset\<close> is a parameter; \<open>RD_ToHexBits\<close>, \<open>QString::number\<close> and
  \<open>toHtmlEscaped\<close> are modelled from their documented behaviour.  The distance below the
  function start is computed, as in the source, by a wrapping \<open>u64\<close> subtraction read as
  a signed \<open>size_t\<close>.
\<close>

definition MAX_FUNCTION_NAME :: nat where
  "MAX_FUNCTION_NAME = 50"

text \<open>\<open>U+00A0\<close> twice, as the source writes after each field.\<close>

definition nbsp2 :: string where
  "nbsp2 = [char_of (160::nat), char_of (160::nat)]"

definition RD_ToHexBits :: "u64 \<Rightarrow> nat \<Rightarrow> string" where
  "RD_ToHexBits v bits = (let h = hex_nat (unat v) in replicate (bits div 4 - length h) (CHR ''0'') @ h)"

fun dec_nat :: "nat \<Rightarrow> string" where
  "dec_nat n = (if n < 10 then [char_of (48 + n)] else dec_nat (n div 10) @ [char_of (48 + n mod 10)])"

definition qnumber :: "int \<Rightarrow> string" where
  "qnumber i = (if i < 0 then CHR ''-'' # dec_nat (nat (- i)) else dec_nat (nat i))"

fun toHtmlEscaped :: "string \<Rightarrow> string" where
  "toHtmlEscaped [] = []"
| "toHtmlEscaped (c # cs) =
     (if c = CHR ''<'' then ''&lt;'' else if c = CHR ''>'' then ''&gt;''
      else if c = CHR ''&'' then ''&amp;'' else if c = CHR 0x22 then ''&quot;'' else [c])
     @ toHtmlEscaped cs"

definition elide_name :: "string \<Rightarrow> string" where
  "elide_name f = (if length f > MAX_FUNCTION_NAME then take MAX_FUNCTION_NAME f @ ''...'' else f)"

text \<open>Lines 219-222: the item's position relative to the function start.\<close>

definition function_offset :: "u64 \<Rightarrow> u64 \<Rightarrow> string" where
  "function_offset a fs =
     (if a > fs then ''+'' @ RD_ToHexBits (a - fs) 8
      else if a < fs then qnumber (sint (a - fs))
      else [])"

definition statusAddress :: "rd_command \<Rightarrow> (u64 \<Rightarrow> u64 option) \<Rightarrow> string option" where
  "statusAddress c ldr =
     (if cmd_busy c then None
      else
        (case cmd_item c of
           None \<Rightarrow> None
         | Some item \<Rightarrow>
             (let doc = cmd_doc c;
                  a = item_address item;
                  segment = doc_segment doc a;
                  functionstart = doc_function_start doc a;
                  offset = ldr a;
                  segm = (case segment of Some sg \<Rightarrow> rseg_name sg | None \<Rightarrow> ''UNKNOWN'');
                  offs = (case (segment, offset) of (Some _, Some v) \<Rightarrow> RD_ToHexAuto v | _ \<Rightarrow> ''UNKNOWN'');
                  addr = RD_ToHexAuto a;
                  s = ''<b>Address: </b>'' @ addr @ nbsp2 @ ''<b>Offset: </b>'' @ offs @ nbsp2
                      @ ''<b>Segment: </b>'' @ segm @ nbsp2
              in Some (case functionstart of
                         None \<Rightarrow> s
                       | Some fs \<Rightarrow>
                           (case doc_symbol_name doc fs of
                              None \<Rightarrow> s
                            | Some name \<Rightarrow>
                                ''<b>Function: </b>'' @ toHtmlEscaped (elide_name name @ function_offset a fs)
                                @ nbsp2 @ s)))))"

subsection \<open>Fixture\<close>

text \<open>A document whose function \<open>main\<close> starts at \<open>0x1000\<close>; a cursor at a given address.\<close>

definition status_doc :: rd_document where
  "status_doc =
     \<lparr>doc_segment = (\<lambda>a. if a < 0x2000 then Some \<lparr>rseg_name = ''.text'', rseg_flags = SegmentFlags_Code\<rparr> else None),
      doc_function_start = (\<lambda>a. if 0xF00 \<le> a \<and> a < 0x1100 then Some 0x1000 else None),
      doc_symbol_name = [0x1000 \<mapsto> ''main''], doc_comments = (\<lambda>_. []), doc_symbol_at = Map.empty\<rparr>"

definition status_cmd :: "u64 \<Rightarrow> rd_command" where
  "status_cmd a =
     \<lparr>cmd_item = Some \<lparr>item_address = a, item_type = DocumentItemType_Instruction\<rparr>,
      cmd_symbol = None, cmd_busy = False, cmd_can_back = False, cmd_can_forward = False,
      cmd_has_selection = False, cmd_current_word = [], cmd_doc = status_doc,
      cmd_references = (\<lambda>_. 0), cmd_function_hexdump = (\<lambda>_. None)\<rparr>"

declare dec_nat.simps [simp del]

subsection \<open>Signed distance and rendering\<close>

lemma sint_neg_small:
  fixes w :: u64
  assumes "0 < unat w" "unat w \<le> 2 ^ 63"
  shows "sint (- w) = - int (unat w)"
proof -
  have e: "- w = word_of_int (- uint w)" by simp
  have u: "uint w = int (unat w)" by simp
  have i: "int (unat w) \<le> 2 ^ 63"
    using assms(2) by (metis of_nat_le_iff of_nat_numeral of_nat_power)
  have lo: "0 \<le> - uint w + 2 ^ 63" and hi: "- uint w + 2 ^ 63 < 2 ^ 64" using assms(1) i u power_strict_increasing [of 63 64 "2::int"] by linarith+
  have "sint (- w) = (- uint w + 2 ^ 63) mod 2 ^ 64 - 2 ^ 63"
    unfolding e by (simp only: int_word_sint) simp
  also have "\<dots> = - uint w" by (subst mod_pos_pos_trivial [OF lo hi]) simp
  finally show ?thesis by (simp only: u)
qed

lemma function_offset_below:
  assumes "a < fs" "unat fs - unat a \<le> 2 ^ 63"
  shows "function_offset a fs = CHR ''-'' # dec_nat (unat fs - unat a)"
proof -
  define k where "k = unat fs - unat a"
  have le: "a \<le> fs" using assms(1) by simp
  have d: "unat (fs - a) = k" using le by (simp add: unat_sub k_def)
  have pos: "0 < unat (fs - a)" using assms(1) d by (simp add: word_less_nat_alt k_def)
  have "a - fs = - (fs - a)" by simp
  then have s: "sint (a - fs) = - int k"
    using sint_neg_small [OF pos] assms(2) d by (simp add: k_def)
  have kpos: "0 < k" using pos d by simp
  have q: "qnumber (- int k) = CHR ''-'' # dec_nat k"
    using kpos by (simp add: qnumber_def)
  have nfs: "\<not> fs < a" using assms(1) by (rule less_not_sym)
  have "function_offset a fs = qnumber (sint (a - fs))"
    using assms(1) nfs by (simp add: function_offset_def)
  then show ?thesis unfolding k_def [symmetric] using s q by simp
qed

lemma function_offset_above:
  "fs < a \<Longrightarrow> function_offset a fs =
     ''+'' @ (let h = hex_nat (unat a - unat fs) in replicate (2 - length h) (CHR ''0'') @ h)"
  by (simp add: function_offset_def RD_ToHexBits_def unat_sub less_imp_le)

text \<open>
  Long names are elided: the function part of the status line shows at most
  \<open>MAX_FUNCTION_NAME\<close> characters of the name followed by \<open>...\<close>, never more than
  \<open>MAX_FUNCTION_NAME + 3\<close> characters, and a name that fits is shown whole.
\<close>

theorem function_name_elided:
  "length (elide_name f) \<le> MAX_FUNCTION_NAME + 3
   \<and> take MAX_FUNCTION_NAME (elide_name f) = take MAX_FUNCTION_NAME f
   \<and> (length f \<le> MAX_FUNCTION_NAME \<longrightarrow> elide_name f = f)"
  by (simp add: elide_name_def)

theorem function_name_elided_witness:
  "elide_name (replicate 60 (CHR ''a'')) = replicate 50 (CHR ''a'') @ ''...''
   \<and> length ''main'' \<le> MAX_FUNCTION_NAME \<and> elide_name ''main'' = ''main''"
proof -
  have "elide_name (replicate 60 (CHR ''a'')) = replicate 50 (CHR ''a'') @ ''...''"
    by (simp add: elide_name_def MAX_FUNCTION_NAME_def)
  moreover have "length ''main'' \<le> MAX_FUNCTION_NAME" by (simp add: MAX_FUNCTION_NAME_def)
  ultimately show ?thesis using function_name_elided [of "''main''"] by blast
qed

text \<open>
  C34. The position inside the function: above the start it is \<open>+\<close> and the distance
  in hex, padded to two digits; at the start nothing; below the start the wrapping
  subtraction read as a signed \<open>size_t\<close> is exactly minus the distance, in decimal,
  as long as the distance is at most \<open>2^63\<close>.
\<close>

theorem function_offset_distance:
  "(fs < a \<longrightarrow> function_offset a fs =
       ''+'' @ (let h = hex_nat (unat a - unat fs) in replicate (2 - length h) (CHR ''0'') @ h))
   \<and> (a < fs \<and> unat fs - unat a \<le> 2 ^ 63 \<longrightarrow> function_offset a fs = CHR ''-'' # dec_nat (unat fs - unat a))
   \<and> function_offset a a = []"
  by (simp add: function_offset_above function_offset_below) (simp add: function_offset_def)

theorem function_offset_distance_witness:
  "(0x1000 :: u64) < 0x1004 \<and> function_offset 0x1004 0x1000 = ''+'' @ ''04''
   \<and> (0xFF0 :: u64) < 0x1000 \<and> function_offset 0xFF0 0x1000 = ''-16''"
proof -
  note d = function_offset_distance [of "0x1000 :: u64" "0x1004"] function_offset_distance [of "0x1000 :: u64" "0xFF0"]
  have c4: "char_of (52::nat) = CHR ''4''" by code_simp
  have h4: "hex_nat 4 = ''4''" by (simp add: hex_nat.simps hex_digit_upper_def c4)
  have c16: "char_of (49::nat) = CHR ''1''" "char_of (54::nat) = CHR ''6''" by code_simp+
  have d16: "dec_nat 16 = ''16''" by (simp add: dec_nat.simps c16)
  show ?thesis using d h4 d16 by (simp add: Let_def)
qed

text \<open>
  The status line is left alone (no \<open>RD_Status\<close> call) exactly while the context
  is busy or when there is no current item.
\<close>

theorem status_silent:
  "statusAddress c ldr = None \<longleftrightarrow> cmd_busy c \<or> cmd_item c = None"
  by (simp add: statusAddress_def Let_def split: option.splits)

text \<open>
  When the item lies in a function with a name, the status line starts with that
  name, elided and followed by the position, HTML-escaped; the address, offset and
  segment fields follow, the last two \<open>UNKNOWN\<close> outside every segment whatever the
  loader reports.
\<close>

theorem status_function_label:
  assumes "\<not> cmd_busy c" "cmd_item c = Some item"
    and "doc_function_start (cmd_doc c) (item_address item) = Some fs" "doc_symbol_name (cmd_doc c) fs = Some n"
  shows "\<exists>r. statusAddress c ldr =
           Some (''<b>Function: </b>'' @ toHtmlEscaped (elide_name n @ function_offset (item_address item) fs) @ nbsp2
                 @ ''<b>Address: </b>'' @ RD_ToHexAuto (item_address item) @ nbsp2 @ r)
         \<and> (doc_segment (cmd_doc c) (item_address item) = None \<longrightarrow>
              r = ''<b>Offset: </b>UNKNOWN'' @ nbsp2 @ ''<b>Segment: </b>UNKNOWN'' @ nbsp2)"
  using assms by (simp add: statusAddress_def Let_def split: option.splits)

theorem status_function_label_witness:
  "\<exists>r. statusAddress (status_cmd 0x1004) (\<lambda>a. Some (a - 0x1000)) =
      Some (''<b>Function: </b>'' @ toHtmlEscaped (elide_name ''main'' @ function_offset 0x1004 0x1000) @ nbsp2
            @ ''<b>Address: </b>'' @ RD_ToHexAuto 0x1004 @ nbsp2 @ r)"
proof -
  have h: "\<not> cmd_busy (status_cmd 0x1004)" "cmd_item (status_cmd 0x1004) = Some \<lparr>item_address = 0x1004, item_type = DocumentItemType_Instruction\<rparr>"
    "doc_function_start (cmd_doc (status_cmd 0x1004)) (item_address \<lparr>item_address = 0x1004, item_type = DocumentItemType_Instruction\<rparr>) = Some 0x1000"
    "doc_symbol_name (cmd_doc (status_cmd 0x1004)) 0x1000 = Some ''main''"
    by (simp_all add: status_cmd_def status_doc_def)
  from status_function_label [OF h, of "\<lambda>a. Some (a - 0x1000)"] show ?thesis by auto
qed

end
