(* ===== verification/Hooks_Window.thy ===== *)
theory Hooks_Window
  imports Hooks_Status
begin

text \<open>
  The window-level part of \<open>DisassemblerHooks\<close> (\<open>src/hooks/disassemblerhooks.cpp\<close>):
  the widgets it enables and shows (\<open>enableCommands\<close>, \<open>enableViewCommands\<close>,
  \<open>enableMenu\<close>, \<open>updateViewWidgets\<close>, \<open>updateCommandStates\<close>,
  \<open>checkListingMode\<close>), the life cycle of the disassembler view (\<open>close\<close>,
  \<open>loadDisassemblerView\<close>, \<open>replaceWidget\<close>, \<open>showWelcome\<close>, \<open>load\<close>,
  \<open>showLoaders\<close>), the recent-files menu (\<open>loadRecents\<close>), and the dispatch of the
  toolbar and of the Window menu.  The singleton's members become the record
  \<open>hooks_state\<close>.  A view is named by the number of its context; a command tab records
  the view it belongs to, so that a tab of a deleted view is recognisable: using it is the
  error \<open>DanglingTab\<close>, and dereferencing the null view is \<open>NullView\<close>
  (\<open>NullTab\<close> and \<open>NullOutputDock\<close> are the null dereferences of
  \<open>Hooks_Tools\<close>).  Dialog outcomes, file contents and the settings store are parameters.
\<close>

datatype central_widget = CentralNone | CentralWelcome | CentralView nat

datatype tab_kind = ListingTab | TableTab | OtherTab

record command_tab =
  tab_view :: nat
  tab_kind :: tab_kind
  tab_can_back :: bool
  tab_can_forward :: bool

datatype recent_entry = RecentHidden | RecentFile string string   \<comment> \<open>label, path\<close>

record hooks_state =
  hs_view :: "nat option"               \<comment> \<open>\<open>m_disassemblerview\<close>\<close>
  hs_activetab :: "command_tab option"  \<comment> \<open>\<open>m_activecommandtab\<close>\<close>
  hs_central :: central_widget
  hs_toolbar_visible :: "bool list"     \<comment> \<open>\<open>m_toolbar->actions()\<close>\<close>
  hs_toolbar_enabled :: "bool list"
  hs_window_menu_enabled :: bool
  hs_saveas_enabled :: bool
  hs_close_enabled :: bool
  hs_devtools_visible :: bool
  hs_renderer_visible :: bool
  hs_renderer_text :: string
  hs_problems_visible :: bool
  hs_statusicon_visible :: bool
  hs_title :: string
  hs_recent_enabled :: bool
  hs_recent_menu :: "recent_entry list"
  hs_fileinfo :: string
  hs_log :: "string list"

datatype hooks_fault = NullView | DanglingTab | NullTab | NullOutputDock

datatype ui_request =
    ReqGoBack | ReqGoForward | ReqGotoDialog | ReqToggleFilter | ReqFocusTab
  | ReqShowSegments | ReqShowFunctions | ReqShowExports | ReqShowImports | ReqShowStrings
  | ReqProblemsDialog nat | ReqSettingsDialog | ReqAboutDialog | ReqDatabaseDialog | ReqExit
  | ReqMessage string string nat   \<comment> \<open>title, text, icon\<close>

subsection \<open>Enabling and showing\<close>

definition enableMenu :: "bool \<Rightarrow> hooks_state \<Rightarrow> hooks_state" where
  "enableMenu e s = s\<lparr>hs_window_menu_enabled := e\<rparr>"

definition enableViewCommands :: "bool \<Rightarrow> hooks_state \<Rightarrow> hooks_state" where
  "enableViewCommands e s =
     (let s1 = enableMenu e s
      in s1\<lparr>hs_toolbar_enabled := (hs_toolbar_enabled s1)[1 := e], hs_saveas_enabled := e,
            hs_close_enabled := e\<rparr>)"

definition checkListingMode :: "bool \<Rightarrow> hooks_state \<Rightarrow> hooks_state" where
  "checkListingMode rdil s = s\<lparr>hs_renderer_text := (if rdil then ''RDIL'' else ''Listing'')\<rparr>"

text \<open>
  \<open>enableCommands(w)\<close>: \<open>None\<close> is \<open>nullptr\<close>; otherwise whether the widget is a
  command tab and whether it is a table tab.  \<open>rdil\<close> is the active context's
  \<open>ShowRDIL\<close> flag read by \<open>checkListingMode\<close>.
\<close>

definition enableCommands :: "(bool \<times> bool) option \<Rightarrow> bool \<Rightarrow> hooks_state \<Rightarrow> hooks_state" where
  "enableCommands w rdil s =
     (case w of
        None \<Rightarrow>
          s\<lparr>hs_toolbar_visible := map (\<lambda>(i, v). if 2 \<le> i then False else v) (enumerate 0 (hs_toolbar_visible s)),
            hs_devtools_visible := False, hs_renderer_visible := False\<rparr>
      | Some (commandtab, tabletab) \<Rightarrow>
          (let s1 = checkListingMode rdil s
           in s1\<lparr>hs_renderer_visible := commandtab, hs_devtools_visible := commandtab,
                 hs_toolbar_visible := (hs_toolbar_visible s1)[2 := commandtab, 3 := commandtab,
                                                               4 := commandtab, 5 := tabletab]\<rparr>))"

definition updateViewWidgets :: "bool \<Rightarrow> bool \<Rightarrow> hooks_state \<Rightarrow> hooks_state" where
  "updateViewWidgets busy hasproblems s =
     (case hs_view s of
        None \<Rightarrow> s\<lparr>hs_toolbar_enabled := (hs_toolbar_enabled s)[4 := False], hs_statusicon_visible := False,
                  hs_problems_visible := False, hs_title := []\<rparr>
      | Some _ \<Rightarrow>
          s\<lparr>hs_title := (if busy then hs_fileinfo s @ '' (Working)'' else hs_fileinfo s),
            hs_toolbar_enabled := (hs_toolbar_enabled s)[4 := \<not> busy], hs_statusicon_visible := True,
            hs_problems_visible := (\<not> busy \<and> hasproblems)\<rparr>)"

definition updateCommandStates :: "command_tab option \<Rightarrow> hooks_state \<Rightarrow> hooks_state" where
  "updateCommandStates w s =
     (case w of
        None \<Rightarrow> s
      | Some t \<Rightarrow> s\<lparr>hs_toolbar_enabled := (hs_toolbar_enabled s)[2 := tab_can_back t, 3 := tab_can_forward t]\<rparr>)"

subsection \<open>The view's life cycle\<close>

text \<open>
  \<open>replaceWidget\<close> (lines 589-603) installs the new central widget, at once or when the
  old one is destroyed; the model installs it.
\<close>

definition replaceWidget :: "central_widget \<Rightarrow> hooks_state \<Rightarrow> hooks_state" where
  "replaceWidget w s = s\<lparr>hs_central := w\<rparr>"

definition showWelcome :: "hooks_state \<Rightarrow> hooks_state" where
  "showWelcome s = replaceWidget CentralWelcome s"

definition close_hooks :: "bool \<Rightarrow> hooks_state \<Rightarrow> hooks_state" where
  "close_hooks showwelcome s =
     (let s1 = enableCommands None False (enableViewCommands False s);
          s2 = (if showwelcome then showWelcome s1 else s1)
      in s2\<lparr>hs_view := None\<rparr>)"

definition loadDisassemblerView :: "nat \<Rightarrow> hooks_state \<Rightarrow> hooks_state" where
  "loadDisassemblerView ctx s =
     (let s1 = close_hooks False s
      in replaceWidget (CentralView ctx) (s1\<lparr>hs_view := Some ctx\<rparr>))"

text \<open>\<open>activeCommandTab\<close> (lines 126-130); the tab \<open>showListing\<close> creates is a parameter.\<close>

definition activeCommandTab :: "command_tab \<Rightarrow> hooks_state \<Rightarrow> hooks_fault + command_tab \<times> hooks_state" where
  "activeCommandTab listing s =
     (case hs_activetab s of
        Some t \<Rightarrow> if hs_view s = Some (tab_view t) then Inr (t, s) else Inl DanglingTab
      | None \<Rightarrow>
          (case hs_view s of
             None \<Rightarrow> Inl NullView
           | Some v \<Rightarrow> (let t = listing\<lparr>tab_view := v\<rparr> in Inr (t, s\<lparr>hs_activetab := Some t\<rparr>))))"

definition showProblems :: "command_tab \<Rightarrow> hooks_state \<Rightarrow> hooks_fault + ui_request list \<times> hooks_state" where
  "showProblems listing s =
     (case activeCommandTab listing s of
        Inl e \<Rightarrow> Inl e
      | Inr (t, s') \<Rightarrow> Inr ([ReqProblemsDialog (tab_view t)], s'))"


subsection \<open>Toolbar and Window menu\<close>

text \<open>
  \<open>onToolBarActionTriggered\<close> (lines 141-161): \<open>idx\<close> is the action's index in the
  toolbar (\<open>-1\<close> if absent), \<open>current\<close> the kind of the view's current widget.
\<close>

definition onToolBarActionTriggered ::
  "int \<Rightarrow> tab_kind \<Rightarrow> hooks_state \<Rightarrow> hooks_fault + ui_request list" where
  "onToolBarActionTriggered idx current s =
     (case hs_activetab s of
        None \<Rightarrow> Inr []
      | Some t \<Rightarrow>
          if idx = 2 \<or> idx = 3 \<or> idx = 4 then
            (if hs_view s \<noteq> Some (tab_view t) then Inl DanglingTab
             else Inr [if idx = 2 then ReqGoBack else if idx = 3 then ReqGoForward else ReqGotoDialog])
          else if idx = 5 then
            (case hs_view s of
               None \<Rightarrow> Inl NullView
             | Some _ \<Rightarrow> Inr (if current = TableTab then [ReqToggleFilter] else []))
          else Inr [])"

definition onWindowActionTriggered :: "int \<Rightarrow> hooks_state \<Rightarrow> hooks_fault + ui_request list" where
  "onWindowActionTriggered idx s =
     (if idx = 0 then
        (case hs_activetab s of
           Some t \<Rightarrow> if hs_view s = Some (tab_view t) then Inr [ReqFocusTab] else Inl DanglingTab
         | None \<Rightarrow> (case hs_view s of None \<Rightarrow> Inl NullView | Some _ \<Rightarrow> Inr [ReqFocusTab]))
      else if 1 \<le> idx \<and> idx \<le> 5 then
        (case hs_view s of
           None \<Rightarrow> Inl NullView
         | Some _ \<Rightarrow> Inr [if idx = 1 then ReqShowSegments else if idx = 2 then ReqShowFunctions
                          else if idx = 3 then ReqShowExports else if idx = 4 then ReqShowImports
                          else ReqShowStrings])
      else Inr [])"

subsection \<open>Recent files\<close>

text \<open>
  \<open>MAX_RECENT_FILES\<close> and \<open>REDasmSettings::updateRecentFiles\<close> live in
  \<open>redasmsettings.h\<close>/\<open>.cpp\<close>, outside \<open>src/\<close>: the path moves to the front, without
  duplicates, and the list keeps at most \<open>MAX_RECENT_FILES\<close> entries.
\<close>

definition MAX_RECENT_FILES :: nat where
  "MAX_RECENT_FILES = 10"

definition updateRecentFiles :: "string \<Rightarrow> string list \<Rightarrow> string list" where
  "updateRecentFiles f rs = take MAX_RECENT_FILES (f # removeAll f rs)"

definition recent_label :: "nat \<Rightarrow> string \<Rightarrow> string" where
  "recent_label i path = dec_nat i @ '' - '' @ path"

text \<open>The loop of \<open>loadRecents\<close> (lines 517-534), one iteration per index.\<close>

definition recent_entries :: "(string \<Rightarrow> bool) \<Rightarrow> string list \<Rightarrow> recent_entry list" where
  "recent_entries fexists recents =
     concat (map (\<lambda>i. if length recents \<le> i then [RecentHidden]
                      else if \<not> fexists (recents ! i) then []
                      else [RecentFile (recent_label i (recents ! i)) (recents ! i)])
                 [0..<MAX_RECENT_FILES])"

definition loadRecents :: "(string \<Rightarrow> bool) \<Rightarrow> string list \<Rightarrow> hooks_state \<Rightarrow> hooks_state" where
  "loadRecents fexists recents s =
     s\<lparr>hs_recent_enabled := recents \<noteq> [], hs_recent_menu := recent_entries fexists recents\<rparr>"

subsection \<open>Loading a file\<close>

text \<open>
  What the outside world answers while a file loads: the file's bytes
  (\<open>RDBuffer_CreateFromFile\<close>, \<open>None\<close> for a null buffer), whether the loader dialog
  is accepted, the loader and assembler names of a successful
  \<open>RDContext_BuildDisassembler\<close>, whether the analyzer dialog is accepted, and the
  number of the new context.
\<close>

record load_outcome =
  lo_buffer :: "u8 list option"
  lo_loader_accepted :: bool
  lo_build :: "(string \<times> string) option"
  lo_analyzer_accepted :: bool
  lo_ctx :: nat

definition file_name :: "string \<Rightarrow> string" where
  "file_name p = rev (takeWhile (\<lambda>c. c \<noteq> CHR ''/'') (rev p))"

definition showLoaders :: "string \<Rightarrow> load_outcome \<Rightarrow> hooks_state \<Rightarrow> hooks_state" where
  "showLoaders filepath out s =
     (if \<not> lo_loader_accepted out then s
      else
        (let s1 = s\<lparr>hs_log := []\<rparr>
         in case lo_build out of
              None \<Rightarrow> s1
            | Some (ldr, asm) \<Rightarrow>
                (let s2 = s1\<lparr>hs_log := hs_log s1 @ [''Selected loader '' @ [CHR 0x27] @ ldr @ [CHR 0x27]
                                                     @ '' with '' @ [CHR 0x27] @ asm @ [CHR 0x27] @ '' assembler'']\<rparr>
                 in if \<not> lo_analyzer_accepted out then s2
                    else loadDisassemblerView (lo_ctx out) (s2\<lparr>hs_fileinfo := file_name filepath\<rparr>))))"

text \<open>
  \<open>load\<close> (lines 540-554) returns the updated recent-files list with the state;
  \<open>openDatabase\<close> (lines 620-623) always answers \<open>false\<close>.
\<close>

definition openDatabase :: "string \<Rightarrow> bool" where
  "openDatabase filepath = False"

definition load_hooks ::
  "(string \<Rightarrow> bool) \<Rightarrow> string \<Rightarrow> load_outcome \<Rightarrow> string list \<Rightarrow> hooks_state \<Rightarrow> string list \<times> hooks_state" where
  "load_hooks fexists filepath out recents s =
     (let recents' = updateRecentFiles filepath recents;
          s1 = loadRecents fexists recents' s
      in if openDatabase filepath then (recents', s1)
         else (case lo_buffer out of
                 Some b \<Rightarrow> if b \<noteq> [] then (recents', showLoaders filepath out s1) else (recents', s1)
               | None \<Rightarrow> (recents', s1)))"

subsection \<open>Set-up and entry points\<close>

definition setActiveCommandTab :: "command_tab option \<Rightarrow> hooks_state \<Rightarrow> hooks_state" where
  "setActiveCommandTab t s = s\<lparr>hs_activetab := t\<rparr>"

text \<open>
  \<open>hook\<close> (lines 329-355) after the widgets are found and the signals connected: the
  welcome page, all commands off, the recent files loaded.
\<close>

definition hook_init :: "(string \<Rightarrow> bool) \<Rightarrow> string list \<Rightarrow> hooks_state \<Rightarrow> hooks_state" where
  "hook_init fexists recents s =
     loadRecents fexists recents (enableViewCommands False (enableCommands None False (showWelcome s)))"

text \<open>\<open>open\<close> (lines 53-57): the file dialog's answer, empty when cancelled.\<close>

definition open_hooks ::
  "(string \<Rightarrow> bool) \<Rightarrow> string \<Rightarrow> load_outcome \<Rightarrow> string list \<Rightarrow> hooks_state \<Rightarrow> string list \<times> hooks_state" where
  "open_hooks fexists chosen out recents s =
     (if chosen = [] then (recents, s) else load_hooks fexists chosen out recents s)"

subsection \<open>Fixtures\<close>

text \<open>A window showing view 1 with its listing tab active; a load that succeeds with context 2.\<close>

definition tab1 :: command_tab where
  "tab1 = \<lparr>tab_view = 1, tab_kind = ListingTab, tab_can_back = True, tab_can_forward = False\<rparr>"

definition hs0 :: hooks_state where
  "hs0 = \<lparr>hs_view = Some 1, hs_activetab = Some tab1, hs_central = CentralView 1,
          hs_toolbar_visible = replicate 6 True, hs_toolbar_enabled = replicate 6 True,
          hs_window_menu_enabled = True, hs_saveas_enabled = True, hs_close_enabled = True,
          hs_devtools_visible = True, hs_renderer_visible = True, hs_renderer_text = ''Listing'',
          hs_problems_visible = True, hs_statusicon_visible = True, hs_title = ''a.out'',
          hs_recent_enabled = True, hs_recent_menu = [], hs_fileinfo = ''a.out'', hs_log = []\<rparr>"

definition load_ok :: load_outcome where
  "load_ok = \<lparr>lo_buffer = Some [0x7f, 0x45], lo_loader_accepted = True, lo_build = Some (''ELF'', ''x86_64''),
              lo_analyzer_accepted = True, lo_ctx = 2\<rparr>"

definition load_succeeds :: "load_outcome \<Rightarrow> bool" where
  "load_succeeds out \<longleftrightarrow>
     (case lo_buffer out of Some b \<Rightarrow> b \<noteq> [] | None \<Rightarrow> False)
     \<and> lo_loader_accepted out \<and> lo_build out \<noteq> None \<and> lo_analyzer_accepted out"

subsection \<open>Recent files, closing and loading\<close>

lemma concat_map_skip:
  "concat (map (\<lambda>i. if \<not> P i then [] else [F i]) xs) = map F (filter P xs)"
  by (induction xs) simp_all

lemma recent_entries_split:
  "recent_entries fexists rs =
     concat (map (\<lambda>i. if \<not> fexists (rs ! i) then [] else [RecentFile (recent_label i (rs ! i)) (rs ! i)])
                 [0..<min (length rs) MAX_RECENT_FILES])
     @ replicate (MAX_RECENT_FILES - length rs) RecentHidden"
proof -
  let ?k = "min (length rs) MAX_RECENT_FILES"
  let ?g = "\<lambda>i. if length rs \<le> i then [RecentHidden] else if \<not> fexists (rs ! i) then []
                 else [RecentFile (recent_label i (rs ! i)) (rs ! i)]"
  have up: "[0..<MAX_RECENT_FILES] = [0..<?k] @ [?k..<MAX_RECENT_FILES]"
    by (metis min.cobounded2 le_add_diff_inverse upt_add_eq_append zero_le)
  have first: "map ?g [0..<?k] = map (\<lambda>i. if \<not> fexists (rs ! i) then [] else [RecentFile (recent_label i (rs ! i)) (rs ! i)]) [0..<?k]"
    by (rule map_cong) auto
  have second: "concat (map ?g [?k..<MAX_RECENT_FILES]) = replicate (MAX_RECENT_FILES - length rs) RecentHidden"
  proof (cases "length rs \<le> MAX_RECENT_FILES")
    case True
    then have "map ?g [?k..<MAX_RECENT_FILES] = map (\<lambda>i. [RecentHidden]) [length rs..<MAX_RECENT_FILES]"
      by (intro map_cong) auto
    then show ?thesis by (simp add: concat_replicate_trivial map_replicate_const)
  next
    case False
    then show ?thesis by simp
  qed
  show ?thesis
    unfolding recent_entries_def up map_append concat_append first second ..
qed

lemma close_fields:
  "hs_view (close_hooks sw s) = None" "hs_activetab (close_hooks sw s) = hs_activetab s"
  "hs_problems_visible (close_hooks sw s) = hs_problems_visible s"
  "\<not> hs_window_menu_enabled (close_hooks sw s)"
  "length (hs_toolbar_visible (close_hooks sw s)) = length (hs_toolbar_visible s)"
  "2 \<le> i \<Longrightarrow> i < length (hs_toolbar_visible s) \<Longrightarrow> \<not> hs_toolbar_visible (close_hooks sw s) ! i"
  "hs_fileinfo (close_hooks sw s) = hs_fileinfo s"
  by (simp_all add: close_hooks_def enableCommands_def enableViewCommands_def enableMenu_def showWelcome_def
      replaceWidget_def Let_def nth_enumerate_eq)

text \<open>
  C37. The recent-files menu: its visible entries are exactly the files among the first
  \<open>MAX_RECENT_FILES\<close> recents that exist, in order, each labelled with its index in
  the list (so skipped files leave gaps in the numbering); one hidden placeholder pads each
  missing slot; and the Recent Files action is enabled whenever the list is non-empty,
  even when none of its files exists.
\<close>

theorem recent_menu_entries:
  "[e \<leftarrow> hs_recent_menu (loadRecents fexists rs s). e \<noteq> RecentHidden] =
      map (\<lambda>i. RecentFile (recent_label i (rs ! i)) (rs ! i))
          (filter (\<lambda>i. fexists (rs ! i)) [0..<min (length rs) MAX_RECENT_FILES])
   \<and> length [e \<leftarrow> hs_recent_menu (loadRecents fexists rs s). e = RecentHidden] = MAX_RECENT_FILES - length rs
   \<and> hs_recent_enabled (loadRecents fexists rs s) = (rs \<noteq> [])"
proof -
  let ?F = "\<lambda>i. RecentFile (recent_label i (rs ! i)) (rs ! i)"
  have m: "hs_recent_menu (loadRecents fexists rs s) =
             map ?F (filter (\<lambda>i. fexists (rs ! i)) [0..<min (length rs) MAX_RECENT_FILES])
             @ replicate (MAX_RECENT_FILES - length rs) RecentHidden"
    by (simp add: loadRecents_def recent_entries_split concat_map_skip)
  have nh: "[e \<leftarrow> map ?F xs. e \<noteq> RecentHidden] = map ?F xs" for xs :: "nat list"
    by (induction xs) simp_all
  have nh2: "[e \<leftarrow> map ?F xs. e = RecentHidden] = []" for xs :: "nat list"
    by (induction xs) simp_all
  have e: "hs_recent_enabled (loadRecents fexists rs s) = (rs \<noteq> [])" by (simp add: loadRecents_def)
  show ?thesis
    by (simp only: m e) (simp add: nh nh2 filter_replicate)
qed


text \<open>
  C38. Closing the view keeps a dangling active tab: \<open>close\<close> clears the view, hides
  the tab commands and disables the Window menu, but leaves \<open>m_activecommandtab\<close>
  pointing at a tab of the deleted view and the problems button as it was, so a click on
  that button reaches the dead tab.
\<close>

theorem close_keeps_stale_tab:
  "hs_view (close_hooks sw s) = None \<and> hs_activetab (close_hooks sw s) = hs_activetab s
   \<and> hs_problems_visible (close_hooks sw s) = hs_problems_visible s
   \<and> \<not> hs_window_menu_enabled (close_hooks sw s)
   \<and> (\<forall>i. 2 \<le> i \<and> i < length (hs_toolbar_visible s) \<longrightarrow> \<not> hs_toolbar_visible (close_hooks sw s) ! i)
   \<and> (hs_activetab s \<noteq> None \<longrightarrow> showProblems l (close_hooks sw s) = Inl DanglingTab)"
  by (auto simp: close_fields showProblems_def activeCommandTab_def)

theorem close_keeps_stale_tab_witness:
  "hs_problems_visible (close_hooks True hs0) \<and> hs_activetab hs0 \<noteq> None
   \<and> 2 \<le> (2::nat) \<and> 2 < length (hs_toolbar_visible hs0) \<and> \<not> hs_toolbar_visible (close_hooks True hs0) ! 2
   \<and> showProblems tab1 (close_hooks True hs0) = Inl DanglingTab"
proof -
  have h: "hs_activetab hs0 \<noteq> None" "hs_problems_visible hs0" "2 < length (hs_toolbar_visible hs0)"
    by (simp_all add: hs0_def)
  with close_keeps_stale_tab [of True hs0 tab1] show ?thesis by auto
qed

lemma updateRecentFiles_props:
  "hd (updateRecentFiles f rs) = f \<and> length (updateRecentFiles f rs) \<le> MAX_RECENT_FILES
   \<and> (distinct rs \<longrightarrow> distinct (updateRecentFiles f rs))"
  by (auto simp: updateRecentFiles_def MAX_RECENT_FILES_def distinct_removeAll dest: in_set_takeD)

lemma loadDisassemblerView_fields:
  "hs_view (loadDisassemblerView c s) = Some c" "hs_central (loadDisassemblerView c s) = CentralView c"
  "hs_activetab (loadDisassemblerView c s) = hs_activetab s"
  "hs_recent_menu (loadDisassemblerView c s) = hs_recent_menu s"
  "hs_fileinfo (loadDisassemblerView c s) = hs_fileinfo s"
  by (simp_all add: loadDisassemblerView_def replaceWidget_def close_hooks_def enableCommands_def
      enableViewCommands_def enableMenu_def showWelcome_def Let_def)

text \<open>
  C39. Loading a file: the path always moves to the front of the recent files (at most
  \<open>MAX_RECENT_FILES\<close>, no duplicates added) and the menu is rebuilt from them; the view
  is replaced by one for the new context exactly when the buffer is non-empty, both
  dialogs are accepted and the disassembler is built, and otherwise the view stays; in both
  cases the active tab is not reset.
\<close>

theorem load_outcomes:
  assumes "load_hooks fexists f out rs s = (rs', s')"
  shows "rs' = updateRecentFiles f rs \<and> hd rs' = f \<and> length rs' \<le> MAX_RECENT_FILES
     \<and> (distinct rs \<longrightarrow> distinct rs') \<and> hs_recent_menu s' = recent_entries fexists rs'
     \<and> (load_succeeds out \<longrightarrow> hs_view s' = Some (lo_ctx out) \<and> hs_central s' = CentralView (lo_ctx out)
                               \<and> hs_fileinfo s' = file_name f \<and> hs_activetab s' = hs_activetab s)
     \<and> (\<not> load_succeeds out \<longrightarrow> hs_view s' = hs_view s \<and> hs_central s' = hs_central s
                                 \<and> hs_activetab s' = hs_activetab s)"
  using assms updateRecentFiles_props [of f rs]
  by (auto simp: load_hooks_def openDatabase_def showLoaders_def load_succeeds_def loadRecents_def
      loadDisassemblerView_fields Let_def split: option.splits if_splits)

theorem load_outcomes_witness:
  "\<exists>rs' s'. load_hooks (\<lambda>_. True) ''/bin/ls'' load_ok [''/bin/ls'', ''/bin/cat''] hs0 = (rs', s')
     \<and> load_succeeds load_ok \<and> distinct [''/bin/ls'', ''/bin/cat'']
     \<and> rs' = [''/bin/ls'', ''/bin/cat''] \<and> hs_view s' = Some 2 \<and> hs_activetab s' = Some tab1"
proof -
  obtain rs' s' where r: "load_hooks (\<lambda>_. True) ''/bin/ls'' load_ok [''/bin/ls'', ''/bin/cat''] hs0 = (rs', s')"
    by (cases "load_hooks (\<lambda>_. True) ''/bin/ls'' load_ok [''/bin/ls'', ''/bin/cat''] hs0")
  have ok: "load_succeeds load_ok" by (simp add: load_succeeds_def load_ok_def)
  note c = load_outcomes [OF r]
  have "rs' = [''/bin/ls'', ''/bin/cat'']" using c by (simp add: updateRecentFiles_def MAX_RECENT_FILES_def)
  with c ok r show ?thesis by (auto simp: load_ok_def hs0_def)
qed
end
