(* ===== verification/Hooks_Tools.thy ===== *)
theory Hooks_Tools
  imports Hooks_Window
begin

text \<open>
  The tool windows of \<open>DisassemblerHooks\<close> (\<open>src/hooks/disassemblerhooks.cpp\<close>): the
  docks of the main window (\<open>dock\<close>, \<open>undock\<close>, lines 135-139 and 556-569), the output
  dock and the messages written to it (\<open>outputDock\<close>, \<open>log\<close>, \<open>clearLog\<close>,
  \<open>clearOutput\<close>, lines 44-46, 571 and 605-609), the developer tools
  (\<open>showDeveloperTools\<close>, lines 110-115, over the \<open>DevDialog\<close> class of
  \<open>src/dialogs/devdialog/devdialog.h\<close>), the active command and context
  (lines 132-133), the renderer button's handler installed by \<open>hook\<close>
  (lines 345-349), \<open>focusOn\<close>, \<open>close()\<close> and \<open>initialize\<close>.  The main window's dock children are a list in creation order, which is
  the order \<open>findChild\<close> searches; \<open>OutputDock\<close> itself (its lines) and
  \<open>DevDialog::setCommand\<close> are outside \<open>src/\<close> and modelled by what they store.
  Dereferencing a null output dock or a null active tab is the error \<open>NullOutputDock\<close>
  or \<open>NullTab\<close>.
\<close>

record dev_dialog =
  dd_command :: "command_tab option"     \<comment> \<open>\<open>m_command\<close>, the tab's command\<close>
  dd_rdilmodel :: bool                   \<comment> \<open>\<open>m_rdilmodel\<close> is not null\<close>
  dd_blocklistmodel :: bool              \<comment> \<open>\<open>m_blocklistmodel\<close> is not null\<close>
  dd_visible :: bool

text \<open>The constructor: the members' initialisers \<open>{nullptr}\<close>, the dialog hidden.\<close>

definition new_DevDialog :: dev_dialog where
  "new_DevDialog = \<lparr>dd_command = None, dd_rdilmodel = False, dd_blocklistmodel = False, dd_visible = False\<rparr>"

definition setCommand :: "command_tab \<Rightarrow> dev_dialog \<Rightarrow> dev_dialog" where
  "setCommand t dd = dd\<lparr>dd_command := Some t\<rparr>"

datatype dock_area = LeftDockWidgetArea | RightDockWidgetArea | TopDockWidgetArea | BottomDockWidgetArea

text \<open>
  A widget handed to \<open>dock\<close>: the \<open>OutputDock\<close> (a dock widget holding its lines),
  another dock widget, or a plain widget, each with its window title.
\<close>

datatype widget = OutputDockWidget "string list" | DockWidget string | PlainWidget string

datatype dock_content = OutputLines "string list" | Panel string

record tools_state =
  ts_docks :: "(dock_content \<times> dock_area) list"   \<comment> \<open>the main window's dock children\<close>
  ts_devdialog :: "dev_dialog option"             \<comment> \<open>\<open>m_devdialog\<close>\<close>

definition dock :: "widget \<Rightarrow> dock_area \<Rightarrow> tools_state \<Rightarrow> tools_state" where
  "dock w area ts =
     (let dw = (case w of OutputDockWidget l \<Rightarrow> OutputLines l | DockWidget t \<Rightarrow> Panel t | PlainWidget t \<Rightarrow> Panel t)
      in ts\<lparr>ts_docks := ts_docks ts @ [(dw, area)]\<rparr>)"

definition undock :: "nat \<Rightarrow> tools_state \<Rightarrow> tools_state" where
  "undock k ts = ts\<lparr>ts_docks := take k (ts_docks ts) @ drop (Suc k) (ts_docks ts)\<rparr>"

fun is_output :: "dock_content \<Rightarrow> bool" where
  "is_output (OutputLines _) = True"
| "is_output (Panel _) = False"

definition outputDock :: "tools_state \<Rightarrow> nat option" where
  "outputDock ts = find (\<lambda>k. is_output (fst (ts_docks ts ! k))) [0..<length (ts_docks ts)]"

fun od_log :: "string \<Rightarrow> dock_content \<Rightarrow> dock_content" where
  "od_log s (OutputLines l) = OutputLines (l @ [s])"
| "od_log s c = c"

fun od_clear :: "dock_content \<Rightarrow> dock_content" where
  "od_clear (OutputLines _) = OutputLines []"
| "od_clear c = c"

definition update_dock :: "nat \<Rightarrow> (dock_content \<Rightarrow> dock_content) \<Rightarrow> tools_state \<Rightarrow> tools_state" where
  "update_dock k f ts = ts\<lparr>ts_docks := (ts_docks ts)[k := (f (fst (ts_docks ts ! k)), snd (ts_docks ts ! k))]\<rparr>"

definition log_hooks :: "string \<Rightarrow> tools_state \<Rightarrow> hooks_fault + tools_state" where
  "log_hooks s ts = (case outputDock ts of None \<Rightarrow> Inl NullOutputDock | Some k \<Rightarrow> Inr (update_dock k (od_log s) ts))"

definition clearLog :: "tools_state \<Rightarrow> hooks_fault + tools_state" where
  "clearLog ts = (case outputDock ts of None \<Rightarrow> Inl NullOutputDock | Some k \<Rightarrow> Inr (update_dock k od_clear ts))"

definition clearOutput :: "tools_state \<Rightarrow> tools_state" where
  "clearOutput ts = (case outputDock ts of None \<Rightarrow> ts | Some k \<Rightarrow> update_dock k od_clear ts)"

text \<open>The dock \<open>hook\<close> creates (line 351).\<close>

definition hook_docks :: "tools_state \<Rightarrow> tools_state" where
  "hook_docks ts = dock (OutputDockWidget []) BottomDockWidgetArea ts"

definition showDeveloperTools :: "hooks_state \<Rightarrow> tools_state \<Rightarrow> hooks_fault + tools_state" where
  "showDeveloperTools s ts =
     (let dd = (case ts_devdialog ts of None \<Rightarrow> new_DevDialog | Some d \<Rightarrow> d)
      in case hs_activetab s of
           None \<Rightarrow> Inl NullTab
         | Some t \<Rightarrow>
             if hs_view s \<noteq> Some (tab_view t) then Inl DanglingTab
             else Inr (ts\<lparr>ts_devdialog := Some ((setCommand t dd)\<lparr>dd_visible := True\<rparr>)\<rparr>))"

text \<open>\<open>activeCommand\<close> and \<open>activeContext\<close>: the active tab's command and its context.\<close>

definition activeCommand :: "command_tab \<Rightarrow> hooks_state \<Rightarrow> hooks_fault + command_tab \<times> hooks_state" where
  "activeCommand listing s = activeCommandTab listing s"

definition activeContext :: "command_tab \<Rightarrow> hooks_state \<Rightarrow> hooks_fault + nat \<times> hooks_state" where
  "activeContext listing s =
     (case activeCommand listing s of Inl e \<Rightarrow> Inl e | Inr (t, s') \<Rightarrow> Inr (tab_view t, s'))"

text \<open>
  The renderer button (lines 345-349) flips the active context's \<open>ShowRDIL\<close> flag, kept
  per context in \<open>rdil\<close>, and relabels the button from the new value.
\<close>

definition renderer_clicked ::
  "command_tab \<Rightarrow> (nat \<Rightarrow> bool) \<Rightarrow> hooks_state \<Rightarrow> hooks_fault + (nat \<Rightarrow> bool) \<times> hooks_state" where
  "renderer_clicked listing rdil s =
     (case activeContext listing s of
        Inl e \<Rightarrow> Inl e
      | Inr (c, s') \<Rightarrow> (let rdil' = rdil(c := \<not> rdil c) in Inr (rdil', checkListingMode (rdil' c) s')))"

text \<open>
  \<open>focusOn\<close> (line 124) forwards to the view when there is one; \<open>close()\<close> (line 59)
  is \<open>close(true)\<close>; \<open>initialize\<close> (lines 37-41) runs \<open>hook\<close>, whose window part is
  \<open>hook_init\<close> and whose dock part is \<open>hook_docks\<close>.
\<close>

definition focusOn :: "hooks_state \<Rightarrow> ui_request list" where
  "focusOn s = (case hs_view s of Some _ \<Rightarrow> [ReqFocusTab] | None \<Rightarrow> [])"

definition close_default :: "hooks_state \<Rightarrow> hooks_state" where
  "close_default s = close_hooks True s"

definition initialize_hooks ::
  "(string \<Rightarrow> bool) \<Rightarrow> string list \<Rightarrow> hooks_state \<times> tools_state \<Rightarrow> hooks_state \<times> tools_state" where
  "initialize_hooks fexists recents st = (hook_init fexists recents (fst st), hook_docks (snd st))"

text \<open>
  The modal dialogs and the slots with empty bodies (lines 48-51, 61-83, 103-108, 117-121,
  639-646): each dialog handler only requests its dialog, \<open>exit\<close> quits the application,
  and \<open>resetLayout\<close>, \<open>save\<close> and \<open>saveAs\<close> do nothing.
\<close>

definition settings_hooks :: "ui_request list" where
  "settings_hooks = [ReqSettingsDialog]"

definition about_hooks :: "ui_request list" where
  "about_hooks = [ReqAboutDialog]"

definition exit_hooks :: "ui_request list" where
  "exit_hooks = [ReqExit]"

definition showGoto :: "command_tab \<Rightarrow> ui_request list" where
  "showGoto t = [ReqGotoDialog]"

definition showDatabase :: "ui_request list" where
  "showDatabase = [ReqDatabaseDialog]"

definition showMessage :: "string \<Rightarrow> string \<Rightarrow> nat \<Rightarrow> ui_request list" where
  "showMessage title msg icon = [ReqMessage title msg icon]"

definition resetLayout :: "hooks_state \<Rightarrow> hooks_state" where
  "resetLayout s = s"

definition save_hooks :: "hooks_state \<Rightarrow> hooks_state" where
  "save_hooks s = s"

definition saveAs_hooks :: "hooks_state \<Rightarrow> hooks_state" where
  "saveAs_hooks s = s"

subsection \<open>The tool operations as one step function\<close>

datatype tools_op = OpLog string | OpClearLog | OpClearOutput | OpDock widget dock_area | OpUndock nat | OpDevTools

fun tools_step :: "hooks_state \<Rightarrow> tools_op \<Rightarrow> tools_state \<Rightarrow> hooks_fault + tools_state" where
  "tools_step s (OpLog m) ts = log_hooks m ts"
| "tools_step s OpClearLog ts = clearLog ts"
| "tools_step s OpClearOutput ts = Inr (clearOutput ts)"
| "tools_step s (OpDock w area) ts = Inr (dock w area ts)"
| "tools_step s (OpUndock k) ts = Inr (undock k ts)"
| "tools_step s OpDevTools ts = showDeveloperTools s ts"

definition ts_empty :: tools_state where
  "ts_empty = \<lparr>ts_docks = [], ts_devdialog = None\<rparr>"

subsection \<open>The active context and the renderer button\<close>

lemma activeCommandTab_settled:
  "activeCommandTab listing s = Inr (t, s') \<Longrightarrow> activeCommandTab listing s' = Inr (t, s')"
  by (auto simp: activeCommandTab_def Let_def split: option.splits if_splits)

lemma activeCommandTab_checkListingMode:
  "activeCommandTab listing (checkListingMode x s) =
     (case activeCommandTab listing s of Inl e \<Rightarrow> Inl e | Inr (t, s') \<Rightarrow> Inr (t, checkListingMode x s'))"
  by (auto simp: activeCommandTab_def checkListingMode_def Let_def split: option.splits if_splits)

lemma checkListingMode_twice [simp]: "checkListingMode x (checkListingMode y s) = checkListingMode x s"
  by (simp add: checkListingMode_def)

subsection \<open>Fixtures\<close>

text \<open>
  \<open>log\<close> dereferences the output dock unchecked: once the user undocks the only output
  dock that \<open>hook\<close> created, the next message is the null dereference.
\<close>

lemma log_after_last_undock: "log_hooks m (undock 0 (hook_docks ts_empty)) = Inl NullOutputDock"
  by (simp add: log_hooks_def undock_def hook_docks_def dock_def ts_empty_def outputDock_def)

text \<open>
  C36. The renderer button round trip: a click that succeeds flips the active context's
  \<open>ShowRDIL\<close> flag and labels the button by the new value; a second click restores the
  flags exactly and leaves the state as if only the label had been refreshed.
\<close>

theorem renderer_toggle_roundtrip:
  assumes "renderer_clicked listing rdil s = Inr (r1, s1)"
  shows "\<exists>c s'. activeContext listing s = Inr (c, s') \<and> r1 = rdil(c := \<not> rdil c)
     \<and> hs_renderer_text s1 = (if rdil c then ''Listing'' else ''RDIL'')
     \<and> renderer_clicked listing r1 s1 = Inr (rdil, checkListingMode (rdil c) s')"
proof -
  obtain c s' where ac: "activeContext listing s = Inr (c, s')"
    using assms by (auto simp: renderer_clicked_def split: sum.splits)
  then obtain t where t: "activeCommandTab listing s = Inr (t, s')" "c = tab_view t"
    by (auto simp: activeContext_def activeCommand_def split: sum.splits)
  have r: "r1 = rdil(c := \<not> rdil c)" "s1 = checkListingMode (\<not> rdil c) s'"
    using assms ac by (auto simp: renderer_clicked_def)
  have "activeContext listing s1 = Inr (c, checkListingMode (\<not> rdil c) s')"
    using activeCommandTab_settled [OF t(1)] t(2) r(2)
    by (simp add: activeContext_def activeCommand_def activeCommandTab_checkListingMode)
  with ac r show ?thesis by (auto simp: renderer_clicked_def checkListingMode_def)
qed

theorem renderer_toggle_roundtrip_witness:
  "renderer_clicked tab1 (\<lambda>_. False) hs0 = Inr ((\<lambda>_. False)(1 := True), checkListingMode True hs0)
   \<and> (\<exists>c s'. activeContext tab1 hs0 = Inr (c, s') \<and> (\<lambda>_. False)(1 := True) = (\<lambda>_. False)(c := \<not> False)
      \<and> hs_renderer_text (checkListingMode True hs0) = (if False then ''Listing'' else ''RDIL'')
      \<and> renderer_clicked tab1 ((\<lambda>_. False)(1 := True)) (checkListingMode True hs0)
          = Inr (\<lambda>_. False, checkListingMode False s'))"
proof -
  have r: "renderer_clicked tab1 (\<lambda>_. False) hs0 = Inr ((\<lambda>_. False)(1 := True), checkListingMode True hs0)"
    by (simp add: renderer_clicked_def activeContext_def activeCommand_def activeCommandTab_def hs0_def tab1_def)
  from renderer_toggle_roundtrip [OF r] r show ?thesis by simp
qed

subsection \<open>Developer tools\<close>

text \<open>
  The dialog is created once: a second call on the state a successful call left reuses it
  and changes nothing.  After \<open>close\<close> the action is hidden, and the call it would make
  dereferences the tab of the deleted view.
\<close>

lemma devtools_idempotent:
  "showDeveloperTools s ts = Inr ts' \<Longrightarrow> showDeveloperTools s ts' = Inr ts'"
  by (auto simp: showDeveloperTools_def setCommand_def Let_def split: option.splits if_splits)

lemma devtools_after_close:
  "hs_activetab s = Some t \<Longrightarrow>
   showDeveloperTools (close_hooks b s) ts = Inl DanglingTab \<and> \<not> hs_devtools_visible (close_hooks b s)"
  by (simp add: showDeveloperTools_def close_fields Let_def close_hooks_def enableCommands_def
      enableViewCommands_def enableMenu_def showWelcome_def replaceWidget_def)

end
