(* ===== verification/Main_Window.thy ===== *)
theory Main_Window
  imports Hooks_Window
begin

text \<open>
  \<open>MainWindow\<close> (\<open>src/mainwindow.cpp\<close>): the older main window that loads a file into
  a \<open>REDasm::Buffer\<close> and builds the disassembler itself.  Modelled are the handlers
  that decide something: \<open>closeEvent\<close> (lines 54-73), \<open>dropEvent\<close> (91-107),
  \<open>onOpenClicked\<close> (109-117), \<open>onRecentFileClicked\<close> (119-125), \<open>loadRecents\<close>
  (148-178), \<open>load\<close> (180-196), \<open>checkCommandLine\<close> (198-217), \<open>checkPlugins\<close>
  (219-240) and \<open>initDisassembler\<close> (242-261).  The file system is a record of
  predicates and contents; dialog answers and the plugin registry are parameters.  The
  constructor's widget set-up, \<open>loadGeometry\<close> and the drag handlers are GUI I/O.
\<close>

record file_system =
  fs_exists :: "string \<Rightarrow> bool"
  fs_isfile :: "string \<Rightarrow> bool"
  fs_readable :: "string \<Rightarrow> bool"
  fs_contents :: "string \<Rightarrow> u8 list"      \<comment> \<open>\<open>Buffer::fromFile\<close>, empty when unreadable\<close>

text \<open>
  What \<open>checkPlugins\<close> finds: whether the format is a binary that needs the manual
  loader, whether that dialog is accepted, and whether an assembler is registered for it.
\<close>

record plugin_env =
  pe_is_binary :: bool
  pe_manual_accepted :: bool
  pe_assembler_found :: bool

text \<open>
  The window's geometry after \<open>loadGeometry\<close>: the one the settings saved, or the
  frame centred on the primary screen.
\<close>

datatype geometry = NoGeometry | RestoredGeometry "u8 list" | CenteredOnScreen

record mw_state =
  mw_buffer :: "u8 list"
  mw_title :: string
  mw_current_dir :: string
  mw_recents :: "string list"          \<comment> \<open>the settings store\<close>
  mw_recent_enabled :: bool
  mw_recent_menu :: "recent_entry list"
  mw_views :: "nat list"               \<comment> \<open>\<open>ui->stackView\<close>, index 0 first\<close>
  mw_geometry_saved :: bool
  mw_messages :: "string list"
  mw_geometry :: geometry
  mw_accept_drops :: bool
  mw_status_visible :: bool             \<comment> \<open>\<open>m_pbstatus\<close>\<close>

definition dir_of :: "string \<Rightarrow> string" where
  "dir_of p = rev (drop 1 (dropWhile (\<lambda>c. c \<noteq> CHR ''/'') (rev p)))"

definition mw_loadRecents :: "mw_state \<Rightarrow> mw_state" where
  "mw_loadRecents s =
     s\<lparr>mw_recent_enabled := mw_recents s \<noteq> [],
       mw_recent_menu := map (\<lambda>i. if length (mw_recents s) \<le> i then RecentHidden
                                  else RecentFile (recent_label i (mw_recents s ! i)) (mw_recents s ! i))
                             [0..<MAX_RECENT_FILES]\<rparr>"

definition checkPlugins :: "plugin_env \<Rightarrow> mw_state \<Rightarrow> bool \<times> mw_state" where
  "checkPlugins pe s =
     (if pe_is_binary pe \<and> \<not> pe_manual_accepted pe then (False, s)
      else if \<not> pe_assembler_found pe then (False, s\<lparr>mw_messages := mw_messages s @ [''Assembler not found'']\<rparr>)
      else (True, s))"

text \<open>
  \<open>initDisassembler\<close>: the new view (numbered \<open>v\<close>) is appended to the stack and the
  stack's first widget is removed.
\<close>

definition initDisassembler :: "plugin_env \<Rightarrow> nat \<Rightarrow> mw_state \<Rightarrow> mw_state" where
  "initDisassembler pe v s =
     (case checkPlugins pe s of
        (False, s') \<Rightarrow> s'
      | (True, s') \<Rightarrow> s'\<lparr>mw_views := drop 1 (mw_views s' @ [v])\<rparr>)"

definition mw_load :: "file_system \<Rightarrow> plugin_env \<Rightarrow> nat \<Rightarrow> string \<Rightarrow> mw_state \<Rightarrow> mw_state" where
  "mw_load fsys pe v filepath s =
     (let s1 = s\<lparr>mw_current_dir := dir_of filepath, mw_title := file_name filepath,
                 mw_buffer := fs_contents fsys filepath\<rparr>
      in if mw_buffer s1 \<noteq> []
         then initDisassembler pe v (mw_loadRecents (s1\<lparr>mw_recents := updateRecentFiles filepath (mw_recents s1)\<rparr>))
         else s1)"

text \<open>The loop of \<open>checkCommandLine\<close>: \<open>continue\<close> past unusable arguments, \<open>break\<close> after a load.\<close>

fun cmdline_loop :: "file_system \<Rightarrow> plugin_env \<Rightarrow> nat \<Rightarrow> string list \<Rightarrow> mw_state \<Rightarrow> mw_state" where
  "cmdline_loop fsys pe v [] s = s"
| "cmdline_loop fsys pe v (arg # args) s =
     (if \<not> fs_exists fsys arg \<or> \<not> fs_isfile fsys arg \<or> \<not> fs_readable fsys arg
      then cmdline_loop fsys pe v args s
      else mw_load fsys pe v arg s)"

definition checkCommandLine :: "file_system \<Rightarrow> plugin_env \<Rightarrow> nat \<Rightarrow> string list \<Rightarrow> mw_state \<Rightarrow> mw_state" where
  "checkCommandLine fsys pe v args s =
     (if length args \<le> 1 then s else cmdline_loop fsys pe v (drop 1 args) s)"

text \<open>
  \<open>closeEvent\<close>: with a file loaded the user is asked; any answer but Yes ignores the
  event.  The result says whether the window closes.
\<close>

datatype answer = Yes | No | Cancel

definition closeEvent :: "answer \<Rightarrow> mw_state \<Rightarrow> bool \<times> mw_state" where
  "closeEvent a s =
     (if mw_buffer s \<noteq> [] \<and> a \<noteq> Yes then (False, s)
      else (True, s\<lparr>mw_geometry_saved := True\<rparr>))"

definition dropEvent :: "file_system \<Rightarrow> plugin_env \<Rightarrow> nat \<Rightarrow> string list \<Rightarrow> mw_state \<Rightarrow> mw_state" where
  "dropEvent fsys pe v urls s =
     (case urls of
        [] \<Rightarrow> s
      | locfile # _ \<Rightarrow> if \<not> fs_isfile fsys locfile then s else mw_load fsys pe v locfile s)"

definition onOpenClicked :: "file_system \<Rightarrow> plugin_env \<Rightarrow> nat \<Rightarrow> string \<Rightarrow> mw_state \<Rightarrow> mw_state" where
  "onOpenClicked fsys pe v chosen s = (if chosen = [] then s else mw_load fsys pe v chosen s)"

definition onRecentFileClicked :: "file_system \<Rightarrow> plugin_env \<Rightarrow> nat \<Rightarrow> recent_entry \<Rightarrow> mw_state \<Rightarrow> mw_state" where
  "onRecentFileClicked fsys pe v e s =
     (case e of RecentFile _ path \<Rightarrow> mw_load fsys pe v path s | RecentHidden \<Rightarrow> mw_load fsys pe v [] s)"


text \<open>\<open>loadGeometry\<close> (lines 133-146): \<open>saved\<close> is the settings' geometry, if any.\<close>

definition loadGeometry :: "u8 list option \<Rightarrow> mw_state \<Rightarrow> mw_state" where
  "loadGeometry saved s =
     (case saved of Some g \<Rightarrow> s\<lparr>mw_geometry := RestoredGeometry g\<rparr> | None \<Rightarrow> s\<lparr>mw_geometry := CenteredOnScreen\<rparr>)"

text \<open>\<open>dragEnterEvent\<close> and \<open>dragMoveEvent\<close> (lines 75-89): the proposed action is accepted exactly for URLs.\<close>

definition dragEnterEvent :: "string list \<Rightarrow> bool" where
  "dragEnterEvent urls \<longleftrightarrow> urls \<noteq> []"

definition dragMoveEvent :: "string list \<Rightarrow> bool" where
  "dragMoveEvent urls \<longleftrightarrow> urls \<noteq> []"

text \<open>
  The constructor (lines 14-50) after the widgets are set up: the status button hidden,
  the geometry loaded, drops accepted, then the command line and the recent files, in this
  order.  The status callback, \<open>REDasm::init\<close>, the icons and the signal connections are
  GUI set-up.
\<close>

definition mw_create ::
  "file_system \<Rightarrow> plugin_env \<Rightarrow> nat \<Rightarrow> string list \<Rightarrow> u8 list option \<Rightarrow> mw_state \<Rightarrow> mw_state" where
  "mw_create fsys pe v args saved s0 =
     (let s1 = loadGeometry saved (s0\<lparr>mw_status_visible := False\<rparr>);
          s2 = s1\<lparr>mw_accept_drops := True\<rparr>
      in mw_loadRecents (checkCommandLine fsys pe v args s2))"

text \<open>The dialog slots (lines 126-131, 262-273) only request their dialogs.\<close>

definition onSettingsClicked :: "ui_request list" where
  "onSettingsClicked = [ReqSettingsDialog]"

definition onDatabaseClicked :: "ui_request list" where
  "onDatabaseClicked = [ReqDatabaseDialog]"

definition onAboutClicked :: "ui_request list" where
  "onAboutClicked = [ReqAboutDialog]"

subsection \<open>The command line\<close>

lemma cmdline_loop_find:
  "cmdline_loop fsys pe v args s =
     (case find (\<lambda>a. fs_exists fsys a \<and> fs_isfile fsys a \<and> fs_readable fsys a) args of
        None \<Rightarrow> s | Some a \<Rightarrow> mw_load fsys pe v a s)"
  by (induction args) auto

text \<open>
  C40. Command line: the window loads the first argument after the program's own path
  that exists, is a regular file and is readable, and nothing else; without such an
  argument, or with no argument at all, the state is unchanged.
\<close>

theorem command_line_first_usable:
  "checkCommandLine fsys pe v args s =
     (case find (\<lambda>a. fs_exists fsys a \<and> fs_isfile fsys a \<and> fs_readable fsys a) (drop 1 args) of
        None \<Rightarrow> s | Some a \<Rightarrow> mw_load fsys pe v a s)"
proof (cases "length args \<le> 1")
  case True
  then have "drop 1 args = []" by simp
  with True show ?thesis by (simp add: checkCommandLine_def)
next
  case False
  then show ?thesis by (simp add: checkCommandLine_def cmdline_loop_find)
qed

subsection \<open>Construction and drops\<close>

lemma mw_load_fields:
  "fs_contents fsys a \<noteq> [] \<Longrightarrow>
   mw_recents (mw_load fsys pe v a s) = updateRecentFiles a (mw_recents s)
   \<and> mw_title (mw_load fsys pe v a s) = file_name a
   \<and> mw_accept_drops (mw_load fsys pe v a s) = mw_accept_drops s
   \<and> mw_status_visible (mw_load fsys pe v a s) = mw_status_visible s
   \<and> mw_geometry (mw_load fsys pe v a s) = mw_geometry s"
  by (simp add: mw_load_def initDisassembler_def checkPlugins_def mw_loadRecents_def Let_def)

lemma updateRecentFiles_head: "updateRecentFiles a rs ! 0 = a" "updateRecentFiles a rs \<noteq> []"
  by (simp_all add: updateRecentFiles_def MAX_RECENT_FILES_def)

text \<open>
  After construction with a usable command-line argument whose file is not empty, the
  window shows that file, it heads the recent files, and the menu's first entry opens it;
  drops are accepted and the status button is hidden whatever the plugins decide.
\<close>

lemma mw_create_command_line:
  assumes "find (\<lambda>a. fs_exists fsys a \<and> fs_isfile fsys a \<and> fs_readable fsys a) (drop 1 args) = Some a"
    and "fs_contents fsys a \<noteq> []"
  shows "mw_title (mw_create fsys pe v args saved s0) = file_name a
    \<and> mw_recents (mw_create fsys pe v args saved s0) = updateRecentFiles a (mw_recents s0)
    \<and> mw_recent_menu (mw_create fsys pe v args saved s0) ! 0 = RecentFile (recent_label 0 a) a
    \<and> mw_accept_drops (mw_create fsys pe v args saved s0) \<and> \<not> mw_status_visible (mw_create fsys pe v args saved s0)"
proof -
  have long: "\<not> length args \<le> 1" using assms(1) by (cases "drop 1 args") auto
  let ?s2 = "(loadGeometry saved (s0\<lparr>mw_status_visible := False\<rparr>))\<lparr>mw_accept_drops := True\<rparr>"
  have c: "checkCommandLine fsys pe v args ?s2 = mw_load fsys pe v a ?s2"
    using long assms(1) by (simp add: checkCommandLine_def cmdline_loop_find)
  have g: "mw_recents ?s2 = mw_recents s0" "mw_accept_drops ?s2" "\<not> mw_status_visible ?s2"
    by (simp_all add: loadGeometry_def split: option.splits)
  define S where "S = mw_load fsys pe v a ?s2"
  have cr: "mw_create fsys pe v args saved s0 = mw_loadRecents S"
    using c by (simp add: mw_create_def S_def)
  have f: "mw_recents S = updateRecentFiles a (mw_recents s0)" "mw_title S = file_name a"
    "mw_accept_drops S" "\<not> mw_status_visible S"
    using mw_load_fields [OF assms(2), of pe v ?s2] g by (simp_all add: S_def)
  have "mw_recent_menu (mw_loadRecents S) ! 0 = RecentFile (recent_label 0 a) a"
    using f(1) updateRecentFiles_head [of a "mw_recents s0"]
    by (simp add: mw_loadRecents_def MAX_RECENT_FILES_def)
  with cr f show ?thesis by (simp add: mw_loadRecents_def)
qed

lemma drop_needs_drag:
  "\<not> dragEnterEvent urls \<Longrightarrow> dropEvent fsys pe v urls s = s"
  by (simp add: dragEnterEvent_def dropEvent_def)

end
