(* ===== verification/Spec2Isabelle.thy ===== *)
theory Spec2Isabelle
  imports Assembler_Plugin Decode Decode_Loop Linear_Run Operand_Analysis Symbol_Kinds Hooks_Menu Hooks_Status Hooks_Tools
    Hooks_Window Main_Window
begin

text \<open>
  \<^bold>\<open>A verification library for REDasm's analysis core and its GUI shell.\<close>

  \<^medskip>\<^bold>\<open>The program.\<close>  REDasm loads a binary, decodes its instructions and builds a
  symbol table (functions, code and data labels, strings, pointers, references).  Its
  core is the per-architecture assembler plugin,
  \<open>src/redasm/plugins/assembler/assembler.cpp\<close>: \<open>AssemblerPlugin\<close> answers
  capability queries, decodes bytes into instructions (\<open>decode\<close>), tells the analysis
  driver where a linear run of decoding ends (\<open>done\<close>, with a stack of per-context
  states for delay slots), and classifies every operand (\<open>analyzeOperand\<close>,
  \<open>analyzeRegister\<close>), extending the symbol table and the work-list through the
  \<open>DisassemblerFunctions\<close> facade.  Around it the GUI shell
  (\<open>src/hooks/disassemblerhooks.cpp\<close>, \<open>src/mainwindow.cpp\<close>) drives loading and
  shows the results; its context menu decides which actions it offers on the item under
  the cursor.

  \<^medskip>\<^bold>\<open>Theories.\<close>
  \<^item> \<open>Prelude\<close>: machine words (\<open>u8\<close>, \<open>u32\<close>, \<open>u64\<close>), the C++ flag test
    \<open>(x & f) != 0\<close> as \<open>has_flag\<close> with its set/clear lemmas (collection
    \<open>flag_simps\<close>), hex digits and their reader, the loop-counter measure lemma.
  \<^item> \<open>REDasm_Types\<close>: \<open>Instruction\<close>, \<open>Operand\<close>, \<open>Symbol\<close>, \<open>Segment\<close> as records,
    the bitset constants of \<open>InstructionTypes\<close>, \<open>SymbolTypes\<close>, \<open>SegmentTypes\<close>,
    \<open>AssemblerFlags\<close>; the error type \<open>fault\<close>.  These headers are not under
    \<open>src/\<close> and are modelled from the design document.
  \<^item> \<open>Assembler_Plugin\<close> (\<open>assembler.cpp\<close> 8-15, 123-184): the plugin record (flags,
    endianness, state stack with its head as \<open>top()\<close>), \<open>hasFlag\<close>,
    \<open>hasVMIL\<close>, \<open>canEmulateVMIL\<close>, \<open>setEndianness\<close>, \<open>pushState\<close>, \<open>popState\<close>,
    \<open>done_asm\<close> (the method \<open>done\<close>) with its four branches, and the plugin's
    operations as the step relation \<open>reachable_plugin\<close>.  Claims C1-C5: termination
    without delay slots, the one-instruction delay-slot look-ahead, isolation of contexts,
    the invariant of reachable state stacks (rule induction), and the stack discipline of
    a run of plugin calls (\<open>plugin_run\<close>): it fails, always with \<open>EmptyStateStack\<close>,
    exactly when the calls pop or query \<open>done\<close> below the starting depth
    (\<open>balanced\<close>), and otherwise ends at the depth \<open>depth_after\<close> counts.
  \<^item> \<open>Decode\<close> (\<open>assembler.cpp\<close> 108-121): the fallback \<open>decode\<close>, its \<open>u64\<close>
    counted loop \<open>decode_loop\<close> (a \<open>function\<close> with the measure
    \<open>unat n - unat i\<close>), the bounds-checked buffer read with error
    \<open>BufferOutOfRange\<close>.  Claims C6, C7: the loop's closed form on both branches and
    the round trip dump/parse; a lemma on the length and alphabet of the dump.
  \<^item> \<open>Decode_Loop\<close> (\<open>assembler.cpp\<close> 111-117): the same loop as it is written, a
    \<open>while_option\<close> over (counter, accumulated text) with the condition
    \<open>decode_guard\<close> and the body \<open>decode_body\<close>.  Claim C29: it terminates
    (\<open>measure_while_option_Some\<close>) and computes \<open>decode_loop\<close>'s result.
  \<^item> \<open>Linear_Run\<close> (spec-modelled driver, \<open>assembler.cpp\<close> 123-149): a linear run
    feeds instructions to \<open>done_asm\<close> until it answers true.  Claim C30 (liveness):
    the run ends at most one instruction after an unconditional jump with delay slots,
    at the jump without them.
  \<^item> \<open>Disassembler_Facade\<close> (spec-modelled): the facade state (symbol table as a map,
    references, work-list, emitted instructions, jump-table requests, log) and a read-only
    environment for the binary (pointers, segments, strings, emulator); the symbol-table
    operations with create-if-absent semantics; the relation \<open>evolves\<close> (no symbol lost,
    no function demoted, logs only appended, invariant kept) that every block of the
    analysis is shown to respect.
  \<^item> \<open>Operand_Analysis\<close> (\<open>assembler.cpp\<close> 28-106, 186-219): \<open>analyzeOperand\<close> split at
    the source's blocks (\<open>operand_value\<close>, \<open>dereference_step\<close>,
    \<open>analyze_call_target\<close>, \<open>analyze_jump\<close>, \<open>analyze_data\<close>,
    \<open>record_reference\<close>) and composed with its early returns, the loop test reading
    the direction narrowed to a 32-bit \<open>int\<close> as line 70 does (\<open>jump_dir\<close> over the
    wrapping \<open>u64\<close> difference \<open>branch_direction\<close>); \<open>analyzeRegister\<close> with
    the null-symbol dereference as the error \<open>NullSymbol\<close>; the factories
    \<open>createEmulator\<close> (no emulator: register operands are left alone) and
    \<open>createPrinter\<close> (lines 17-26).  Claims C9-C18, C20-C22, C26 and C35: the
    error is unreachable, functions are never demoted, the facade invariant, call targets
    and the work-list, the pointer-call defect, where the pointer symbol goes, import
    safety, the no-segment early return, the string threshold, loop comments, the
    outcomes of an indirect branch, the bounds of the narrowed direction, the rule that
    the first classification of an address wins (so operand order decides a kind), and
    the far jump a multiple of \<open>2^32\<close> away that is taken for an infinite loop; a
    lemma on jump tables.
  \<^item> \<open>Symbol_Kinds\<close>: the symbol table abstracted to its kind map (\<open>kinds\<close>) and the
    spec's classification (sections 4.2-4.3) written on kinds from the spec's words
    (\<open>kind_operand\<close>: Data|Pointer at the pointed-to address, the call-target erase
    guarded by the kind at the promoted address).  Claim C33 (refinement): on every
    operand that is not a memory operand with a dereferenceable value
    \<open>analyzeOperand\<close> never fails and maps kinds as \<open>kind_operand\<close> does; on the
    others source and spec part, as C13 and C14 show.
  \<^item> \<open>RD_Api\<close> (spec-modelled): the \<open>rdapi\<close> document and command as the shell reads
    them, and \<open>QString::toUInt\<close> in base 16, with the lemma that it reads a rendered
    address back exactly when the address fits 32 bits.
  \<^item> \<open>Hooks_Menu\<close> (\<open>disassemblerhooks.cpp\<close> 85-102, 230-319, 390-502): the context
    menu as a map from action ids to visibility and text, \<open>adjustActions\<close> with both of
    its branches, and the handlers of \<open>createActions\<close> returning the effects they
    request.  Claims C23-C25, C27, C28, C31, C32: busy contexts hide the editing actions,
    the stale Comment visibility, Create Function on a symbol and the 4 GiB limit off a
    symbol, the hex-dump rules, the rename frame, and the log of an uninitialised address;
    lemmas on Create Function off a symbol, the no-item frame and navigation.
  \<^item> \<open>Hooks_Status\<close> (\<open>disassemblerhooks.cpp\<close> 31, 185-228): \<open>statusAddress\<close> as the
    text it passes to \<open>RD_Status\<close>.  Claim C34: the signed position inside the
    function (a wrapping \<open>u64\<close> subtraction read as signed, exact up to \<open>2^63\<close>);
    lemmas on name elision, the two early returns and the layout of the line.
  \<^item> \<open>Hooks_Window\<close> (\<open>disassemblerhooks.cpp\<close> 53-57, 123-183, 321-388, 504-719): the
    singleton's members as the record \<open>hooks_state\<close>; enabling and showing, the view's
    life cycle (\<open>close_hooks\<close> is \<open>close\<close>, \<open>load_hooks\<close> is \<open>load\<close>),
    \<open>activeCommandTab\<close> with the errors \<open>NullView\<close> and \<open>DanglingTab\<close>, the toolbar and
    Window-menu dispatch, the recent-files menu.  Claims C37-C39: the recent menu, the
    dangling active tab after \<open>close\<close>, and what \<open>load\<close> does on each outcome.
  \<^item> \<open>Hooks_Tools\<close> (\<open>disassemblerhooks.cpp\<close> 44-46, 110-115, 132-139, 345-351,
    556-571, 605-609; \<open>devdialog.h\<close>): the main window's docks as a list, the output
    dock and \<open>log\<close>/\<open>clearLog\<close>/\<open>clearOutput\<close>, \<open>showDeveloperTools\<close> over the
    \<open>DevDialog\<close> record, \<open>activeCommand\<close>/\<open>activeContext\<close> and the renderer
    button; the tool operations as the datatype \<open>tools_op\<close> with the step function
    \<open>tools_step\<close>; the lemma \<open>log_after_last_undock\<close> shows the null dereference of
    \<open>log\<close> once the only output dock is undocked.  The
    modal dialogs, \<open>showMessage\<close> and \<open>exit\<close> are the requests they make;
    \<open>resetLayout\<close>, \<open>save\<close> and \<open>saveAs\<close> have empty bodies.  Claim C36
    (round trip): two clicks on the renderer button restore the \<open>ShowRDIL\<close> flags.
  \<^item> \<open>Main_Window\<close> (\<open>mainwindow.cpp\<close> 14-261): the older main window's
    constructor sequence, \<open>loadGeometry\<close>, the drag handlers, the dialog slots and the
    handlers over a file-system record.  Claim C40 (equivalence): the command line's continue/break loop
    loads the first usable argument found by \<open>find\<close>; a lemma shows what the
    constructor shows after it.

  \<^medskip>\<^bold>\<open>Interaction.\<close>  This theory composes the core: \<open>driver_step\<close> decodes an
  instruction, runs \<open>analyzeOperand\<close> over its operands and asks \<open>done_asm\<close>;
  \<open>driver_step_invariants\<close> shows that on every reachable plugin state with a pushed
  context and a long enough buffer the step succeeds, the plugin stays reachable, and the
  facade keeps its invariant, its symbols and its work-list prefix.  \<open>driver_run\<close>
  iterates the step over the decode items of one context; claim C19 shows that the whole
  run stops at most one item after an unconditional jump (at it without delay slots) in a
  reachable plugin state with the facade invariant kept, composing \<open>decode\<close>,
  \<open>analyzeOperand\<close> (which keeps the instruction's type) and \<open>done_asm\<close>.  Claim C8 gives the error behaviour of a run: it fails only on a buffer
  shorter than its instruction or when started without a pushed context; operand analysis
  never faults.  The operand
  analysis reads the plugin's capabilities (\<open>canEmulateVMIL\<close>) and acts on the facade only through the facade operations, so its
  theorems hold for every environment (every binary); the menu reads the document only
  through \<open>RD_Api\<close>'s lookups; the window theories share the recent-files helpers
  and the file-name rendering.  Each claim's theorem is proved from the lemmas of its
  theory; each theorem with hypotheses has a witness on a small fixture (an unconditional
  jump at \<open>0x1000\<close>, a call from \<open>0x2000\<close> to \<open>0x3000\<close>, a document with a
  function \<open>main\<close>) evaluated by \<open>simp\<close> or \<open>code_simp\<close>.

  \<^medskip>\<^bold>\<open>Bounds and termination.\<close>  The only loop of the core, the byte loop of
  \<open>decode\<close>, runs a \<open>u64\<close> counter below \<open>size\<close>; it terminates by the measure
  \<open>unat n - unat i\<close>, which is exact because \<open>i < n\<close> excludes wrap-around
  (\<open>unat_incr_below\<close>), both as the \<open>function\<close> \<open>decode_loop\<close> and as the
  \<open>while_option\<close> of \<open>Decode_Loop\<close>, where not terminating would be \<open>None\<close> and
  C29 proves \<open>Some\<close>.  The linear run is structural over the finite instruction list,
  and C30 bounds the position where it stops.  No fuel is used.  Addresses are \<open>u64\<close>; the menu's parse of
  the current word is a 32-bit \<open>uint\<close> as in the source.

  \<^medskip>\<^bold>\<open>Not modelled.\<close>  The concrete decoders of the architectures; the facade's
  own algorithms (\<open>checkJumpTable\<close>, string detection, the emulator), which are
  parameters; the \<open>Printer\<close> itself (only its construction is modelled); what the GUI's
  modal dialogs do once opened (their classes are outside \<open>src/\<close>) and the signal
  wiring; the singleton's constructor and accessors (\<open>instance\<close>, \<open>mainWindow\<close>)
  and \<open>MainWindow\<close>'s destructor, which hold no decisions; the widget set-up,
  icons and status callback of \<open>MainWindow\<close>'s constructor; \<open>DevDialog\<close>'s
  implementation, which is not in the repository (its state is modelled from the header).
  \<open>loadRecents\<close> (\<open>disassemblerhooks.cpp\<close> 506-538) is modelled with its Recent
  Files action present, since the main window's form declares that action
  (\<open>mainwindow.cpp\<close> line 152 uses \<open>ui->action_Recent_Files\<close>); the early return of
  line 509, taken only when \<open>findChild\<close> misses it, is not a branch of the model.
  \<open>updateViewWidgets\<close> (648-680) takes the active context as a parameter instead of
  calling \<open>activeContext()\<close>, so the lazy creation of the active tab and the
  \<open>DanglingTab\<close> error are modelled in \<open>activeCommandTab\<close> only.
  Deferred deletion (\<open>deleteLater\<close>) and the re-parenting in \<open>replaceWidget\<close> are
  collapsed into the state change they end in.
\<close>

subsection \<open>One step of the analysis driver\<close>

text \<open>
  The driver that calls the plugin lives in REDasm's \<open>Disassembler\<close>, outside \<open>src/\<close>;
  it is modelled from the design document: decode one instruction, analyse each of its
  operands in order, then ask \<open>done\<close> whether the linear run ends.
\<close>

datatype driver_fault = DecodeFault fault | AnalysisFault analysis_fault

fun analyze_operands ::
  "assembler_plugin \<Rightarrow> environment \<Rightarrow> instruction \<Rightarrow> operand list \<Rightarrow> disassembler
   \<Rightarrow> analysis_fault + instruction \<times> disassembler" where
  "analyze_operands p env i [] d = Inr (i, d)"
| "analyze_operands p env i (op # ops) d =
     (case analyzeOperand p env i op d of
        Inl e \<Rightarrow> Inl e
      | Inr (i', d') \<Rightarrow> analyze_operands p env i' ops d')"

definition driver_step ::
  "assembler_plugin \<Rightarrow> environment \<Rightarrow> u8 list \<Rightarrow> instruction \<Rightarrow> operand list \<Rightarrow> disassembler
   \<Rightarrow> driver_fault + bool \<times> assembler_plugin \<times> instruction \<times> disassembler" where
  "driver_step p env buf i ops d =
     (case decode buf i of
        Inl e \<Rightarrow> Inl (DecodeFault e)
      | Inr (_, i1) \<Rightarrow>
          (case analyze_operands p env i1 ops d of
             Inl e \<Rightarrow> Inl (AnalysisFault e)
           | Inr (i2, d2) \<Rightarrow>
               (case done_asm p i2 of
                  Inl e \<Rightarrow> Inl (DecodeFault e)
                | Inr (stop, p') \<Rightarrow> Inr (stop, p', i2, d2))))"

text \<open>
  A linear run of the driver over the decode items of one context, each a buffer, an
  instruction and its operands: steps until \<open>done\<close> answers true, counting the items
  consumed (\<open>None\<close> when the items run out first).
\<close>

fun driver_run ::
  "assembler_plugin \<Rightarrow> environment \<Rightarrow> (u8 list \<times> instruction \<times> operand list) list \<Rightarrow> disassembler
   \<Rightarrow> driver_fault + nat option \<times> assembler_plugin \<times> disassembler" where
  "driver_run p env [] d = Inr (None, p, d)"
| "driver_run p env ((buf, i, ops) # items) d =
     (case driver_step p env buf i ops d of
        Inl e \<Rightarrow> Inl e
      | Inr (True, p', i', d') \<Rightarrow> Inr (Some 1, p', d')
      | Inr (False, p', i', d') \<Rightarrow>
          (case driver_run p' env items d' of
             Inl e \<Rightarrow> Inl e
           | Inr (k, q, d'') \<Rightarrow> Inr (map_option Suc k, q, d'')))"

subsection \<open>Properties across components\<close>

lemma analyze_operands_evolves:
  "\<exists>i' d'. analyze_operands p env i ops d = Inr (i', d') \<and> evolves d d'"
proof (induction ops arbitrary: i d)
  case Nil
  then show ?case by (simp add: evolves_refl)
next
  case (Cons op ops)
  obtain i1 d1 where r: "analyzeOperand p env i op d = Inr (i1, d1)"
    using analyzeOperand_total by blast
  from Cons.IH [of i1 d1] obtain i' d' where "analyze_operands p env i1 ops d1 = Inr (i', d')" "evolves d1 d'"
    by blast
  with r analyzeOperand_evolves [OF r] show ?case by (auto intro: evolves_trans)
qed

theorem driver_step_invariants:
  assumes reach: "reachable_plugin fl p" and ne: "asm_statestack p \<noteq> []"
    and sz: "unat (ins_size i) \<le> length buf" and inv: "disasm_inv d"
  shows "\<exists>stop p' i' d'. driver_step p env buf i ops d = Inr (stop, p', i', d')
           \<and> reachable_plugin fl p' \<and> disasm_inv d' \<and> dom (symtab d) \<subseteq> dom (symtab d')
           \<and> (\<exists>ws. worklist d' = worklist d @ ws)"
proof -
  let ?i1 = "i\<lparr>ins_bytes := concat (map hex_byte (take (unat (ins_size i)) buf))\<rparr>"
  have dec: "decode buf i = Inr (False, ?i1)"
    using sz by (simp add: decode_def decode_loop_closed)
  obtain i2 d2 where an: "analyze_operands p env ?i1 ops d = Inr (i2, d2)" and ev: "evolves d d2"
    using analyze_operands_evolves by blast
  obtain stop p' where dn: "done_asm p i2 = Inr (stop, p')"
    using done_asm_total [OF ne] by blast
  have "plugin_step p (OpDone i2) = Inr p'" using dn by simp
  then have r': "reachable_plugin fl p'" by (rule reachable_plugin.step [OF reach])
  have "disasm_inv d2 \<and> dom (symtab d) \<subseteq> dom (symtab d2) \<and> (\<exists>ws. worklist d2 = worklist d @ ws)"
    using ev inv by (auto simp: evolves_def dest: keeps_symbols_dom)
  with dec an dn r' show ?thesis by (auto simp: driver_step_def)
qed

theorem driver_step_invariants_witness:
  "reachable_plugin 0 (pushState (AssemblerPlugin 0)) \<and> asm_statestack (pushState (AssemblerPlugin 0)) \<noteq> []
   \<and> unat (ins_size jump_1000) \<le> length [0xeb, 0xfe :: u8] \<and> disasm_inv d0
   \<and> (\<exists>stop p' i' d'. driver_step (pushState (AssemblerPlugin 0)) env0 [0xeb, 0xfe] jump_1000 [imm_op 0xFF0] d0
                         = Inr (stop, p', i', d') \<and> disasm_inv d')"
proof -
  have r: "reachable_plugin 0 (pushState (AssemblerPlugin 0))" by (rule reachable_pushed)
  have h: "asm_statestack (pushState (AssemblerPlugin 0)) \<noteq> []"
    "unat (ins_size jump_1000) \<le> length [0xeb, 0xfe :: u8]" "disasm_inv d0"
    by (simp_all add: pushState_def jump_1000_def d0_def disasm_inv_def symtab_wf_def)
  from driver_step_invariants [OF r h, of env0 "[imm_op 0xFF0]"] r h show ?thesis by blast
qed


lemma analyzeOperand_type: "analyzeOperand p env i op d = Inr (i', d') \<Longrightarrow> ins_type i' = ins_type i"
  by (auto simp: analyzeOperand_def analyzeRegister_def analyze_jump_def analyze_data_def cmt_def
      set_target_def Let_def split: option.splits if_splits prod.splits bool.splits)

lemma analyze_operands_type:
  "analyze_operands p env i ops d = Inr (i', d') \<Longrightarrow> ins_type i' = ins_type i"
proof (induction ops arbitrary: i d)
  case (Cons op ops)
  then show ?case
    by (auto simp: analyzeOperand_type split: sum.splits prod.splits)
qed simp

text \<open>One driver step, as far as a run needs it: \<open>done\<close> sees an instruction of the decoded type.\<close>

lemma driver_step_done:
  assumes "unat (ins_size i) \<le> length buf"
  shows "\<exists>i' d'. driver_step p env buf i ops d =
                  (case done_asm p i' of Inl e \<Rightarrow> Inl (DecodeFault e) | Inr (stop, p') \<Rightarrow> Inr (stop, p', i', d'))
               \<and> ins_type i' = ins_type i \<and> evolves d d'"
proof -
  let ?i1 = "i\<lparr>ins_bytes := concat (map hex_byte (take (unat (ins_size i)) buf))\<rparr>"
  have dec: "decode buf i = Inr (False, ?i1)"
    using assms by (simp add: decode_def decode_loop_closed)
  obtain i2 d2 where an: "analyze_operands p env ?i1 ops d = Inr (i2, d2)" and ev: "evolves d d2"
    using analyze_operands_evolves by blast
  have "ins_type i2 = ins_type i" using analyze_operands_type [OF an] by simp
  moreover have "driver_step p env buf i ops d =
      (case done_asm p i2 of Inl e \<Rightarrow> Inl (DecodeFault e) | Inr (stop, p') \<Rightarrow> Inr (stop, p', i2, d2))"
    using dec an by (simp add: driver_step_def)
  ultimately show ?thesis using ev by blast
qed

lemma evolves_inv_dom: "evolves d d' \<Longrightarrow> disasm_inv d \<Longrightarrow> disasm_inv d' \<and> dom (symtab d) \<subseteq> dom (symtab d')"
  by (auto simp: evolves_def dest: keeps_symbols_dom)

lemma driver_run_Cons:
  assumes "reachable_plugin fl p" "asm_statestack p \<noteq> []" "unat (ins_size i) \<le> length buf" "disasm_inv d"
  shows "\<exists>b p' i' d1. done_asm p i' = Inr (b, p') \<and> ins_type i' = ins_type i
           \<and> reachable_plugin fl p' \<and> asm_statestack p' \<noteq> []
           \<and> hasFlag p' AssemblerFlags_DelaySlot = hasFlag p AssemblerFlags_DelaySlot
           \<and> disasm_inv d1 \<and> dom (symtab d) \<subseteq> dom (symtab d1)
           \<and> driver_run p env ((buf, i, ops) # items) d =
               (if b then Inr (Some 1, p', d1)
                else (case driver_run p' env items d1 of
                        Inl e \<Rightarrow> Inl e | Inr (k, q, d'') \<Rightarrow> Inr (map_option Suc k, q, d'')))"
proof -
  obtain i' d1 where st: "driver_step p env buf i ops d =
      (case done_asm p i' of Inl e \<Rightarrow> Inl (DecodeFault e) | Inr (stop, p') \<Rightarrow> Inr (stop, p', i', d1))"
    and ty: "ins_type i' = ins_type i" and ev: "evolves d d1"
    using driver_step_done [OF assms(3)] by blast
  obtain b p' where dn: "done_asm p i' = Inr (b, p')" using done_asm_total [OF assms(2)] by blast
  have "reachable_plugin fl p'" using reachable_plugin.step [OF assms(1), of "OpDone i'"] dn by simp
  with dn ty done_flags [OF dn] evolves_inv_dom [OF ev assms(4)] st show ?thesis
    by (intro exI [of _ b] exI [of _ p'] exI [of _ i'] exI [of _ d1]) auto
qed

lemma driver_run_pending:
  assumes "reachable_plugin fl p" "asm_statestack p = cur # rest" "has_flag cur AssemblerFlags_DelaySlot"
    "unat (ins_size i) \<le> length buf" "disasm_inv d"
  shows "\<exists>q d'. driver_run p env ((buf, i, ops) # items) d = Inr (Some 1, q, d')
           \<and> reachable_plugin fl q \<and> disasm_inv d' \<and> dom (symtab d) \<subseteq> dom (symtab d')"
proof -
  have ne: "asm_statestack p \<noteq> []" using assms(2) by simp
  from driver_run_Cons [OF assms(1) ne assms(4,5), of env ops items] obtain b p' i' d1 where
    dn: "done_asm p i' = Inr (b, p')" and r: "reachable_plugin fl p'" "disasm_inv d1" "dom (symtab d) \<subseteq> dom (symtab d1)"
    and run: "driver_run p env ((buf, i, ops) # items) d =
               (if b then Inr (Some 1, p', d1)
                else (case driver_run p' env items d1 of
                        Inl e \<Rightarrow> Inl e | Inr (k, q, d'') \<Rightarrow> Inr (map_option Suc k, q, d'')))"
    by blast
  have b using done_pending_ends [OF assms(2,3), of i'] dn by auto
  with run r show ?thesis by auto
qed

text \<open>
  C19. A run of the whole driver ends, and keeps the invariants on the way: from a
  reachable plugin state with a pushed context, over decode items whose buffers hold their
  instructions, with an unconditional jump at position \<open>k\<close> followed by another item, the
  run of decode, operand analysis and \<open>done\<close> stops after at most \<open>k + 2\<close> items (delay
  slots) or \<open>k + 1\<close> (none), in a reachable plugin state, with the facade invariant kept
  and no symbol lost.
\<close>

theorem driver_run_ends:
  assumes "reachable_plugin fl p" "asm_statestack p \<noteq> []"
    and "list_all (\<lambda>(buf, i, ops). unat (ins_size i) \<le> length buf) items" "disasm_inv d"
    and "k + 1 < length items" "ends_run (fst (snd (items ! k)))"
  shows "\<exists>m q d'. driver_run p env items d = Inr (Some m, q, d')
           \<and> m \<le> k + (if hasFlag p AssemblerFlags_DelaySlot then 2 else 1)
           \<and> reachable_plugin fl q \<and> disasm_inv d' \<and> dom (symtab d) \<subseteq> dom (symtab d')"
  using assms
proof (induction items arbitrary: p d k)
  case Nil
  then show ?case by simp
next
  case (Cons it items)
  obtain buf i ops where it: "it = (buf, i, ops)" by (cases it) auto
  have sz: "unat (ins_size i) \<le> length buf" using Cons.prems(3) it by auto
  from driver_run_Cons [OF Cons.prems(1,2) sz Cons.prems(4), of env ops items] obtain b p' i' d1 where
    dn: "done_asm p i' = Inr (b, p')" and ty: "ins_type i' = ins_type i"
    and r': "reachable_plugin fl p'" "asm_statestack p' \<noteq> []"
    and fl: "hasFlag p' AssemblerFlags_DelaySlot = hasFlag p AssemblerFlags_DelaySlot"
    and i1: "disasm_inv d1" "dom (symtab d) \<subseteq> dom (symtab d1)"
    and run: "driver_run p env ((buf, i, ops) # items) d =
               (if b then Inr (Some 1, p', d1)
                else (case driver_run p' env items d1 of
                        Inl e \<Rightarrow> Inl e | Inr (k, q, d'') \<Rightarrow> Inr (map_option Suc k, q, d'')))"
    by blast
  show ?case
  proof (cases b)
    case True
    with run r' i1 it show ?thesis by auto
  next
    case False
    show ?thesis
    proof (cases k)
      case 0
      have "ins_is i' InstructionTypes_Jump" "\<not> ins_is i' InstructionTypes_Conditional"
        using Cons.prems(6) 0 it ty by (simp_all add: ends_run_def ins_is_def)
      moreover have "done_asm p i' = Inr (False, p')" using dn False by simp
      ultimately obtain cur rest where
        ds: "hasFlag p AssemblerFlags_DelaySlot" and stk: "asm_statestack p' = cur # rest"
          "has_flag cur AssemblerFlags_DelaySlot" using done_jump_marks_slot by blast
      obtain buf2 i2 ops2 rest2 where its: "items = (buf2, i2, ops2) # rest2"
        using Cons.prems(5) 0 by (cases items) auto
      have sz2: "unat (ins_size i2) \<le> length buf2" using Cons.prems(3) its by auto
      from driver_run_pending [OF r'(1) stk sz2 i1(1), of env ops2 rest2] obtain q d' where
        "driver_run p' env items d1 = Inr (Some 1, q, d')" "reachable_plugin fl q" "disasm_inv d'"
        "dom (symtab d1) \<subseteq> dom (symtab d')"
        using its by blast
      moreover from this(4) i1(2) have "dom (symtab d) \<subseteq> dom (symtab d')" by blast
      ultimately show ?thesis using run False it ds 0 by auto
    next
      case (Suc k')
      have "list_all (\<lambda>(buf, i, ops). unat (ins_size i) \<le> length buf) items" using Cons.prems(3) by auto
      moreover have "k' + 1 < length items" "ends_run (fst (snd (items ! k')))" using Cons.prems(5,6) Suc by auto
      ultimately obtain m q d' where
        "driver_run p' env items d1 = Inr (Some m, q, d')"
        "m \<le> k' + (if hasFlag p' AssemblerFlags_DelaySlot then 2 else 1)"
        "reachable_plugin fl q" "disasm_inv d'" "dom (symtab d1) \<subseteq> dom (symtab d')"
        using Cons.IH [OF r' _ i1(1)] by blast
      moreover from this(5) i1(2) have "dom (symtab d) \<subseteq> dom (symtab d')" by blast
      ultimately show ?thesis using run False Suc fl it by auto
    qed
  qed
qed

theorem driver_run_ends_witness:
  "reachable_plugin 0 (pushState (AssemblerPlugin 0)) \<and> asm_statestack (pushState (AssemblerPlugin 0)) \<noteq> []
   \<and> list_all (\<lambda>(buf, i, ops). unat (ins_size i) \<le> length buf)
       [([0x90, 0x90], raw_ins, []), ([0xeb, 0xfe], jump_1000, [imm_op 0xFF0]), ([0x90, 0x90], raw_ins, [])]
   \<and> disasm_inv d0 \<and> 1 + 1 < length [([0x90, 0x90 :: u8], raw_ins, [] :: operand list),
                                        ([0xeb, 0xfe], jump_1000, [imm_op 0xFF0]), ([0x90, 0x90], raw_ins, [])]
   \<and> ends_run jump_1000
   \<and> (\<exists>m q d'. driver_run (pushState (AssemblerPlugin 0)) env0
                  [([0x90, 0x90], raw_ins, []), ([0xeb, 0xfe], jump_1000, [imm_op 0xFF0]), ([0x90, 0x90], raw_ins, [])] d0
                = Inr (Some m, q, d') \<and> m \<le> 2 \<and> reachable_plugin 0 q \<and> disasm_inv d')"
proof -
  let ?items = "[([0x90, 0x90 :: u8], raw_ins, [] :: operand list), ([0xeb, 0xfe], jump_1000, [imm_op 0xFF0]),
                 ([0x90, 0x90], raw_ins, [])]"
  have r: "reachable_plugin 0 (pushState (AssemblerPlugin 0))" by (rule reachable_pushed)
  have h: "asm_statestack (pushState (AssemblerPlugin 0)) \<noteq> []"
    "list_all (\<lambda>(buf, i, ops). unat (ins_size i) \<le> length buf) ?items" "disasm_inv d0"
    "1 + 1 < length ?items"
    by (simp_all add: pushState_def raw_ins_def jump_1000_def d0_def disasm_inv_def symtab_wf_def)
  have j: "ends_run (fst (snd (?items ! 1)))" by (simp add: ends_run_def jump_1000_is)
  have nf: "\<not> hasFlag (pushState (AssemblerPlugin 0)) AssemblerFlags_DelaySlot"
    by (simp add: hasFlag_def pushState_def AssemblerPlugin_def)
  from driver_run_ends [OF r h j, of env0] nf r h j show ?thesis by auto
qed

lemma decode_errors: "decode buf i = Inl e \<Longrightarrow> e = BufferOutOfRange"
  by (simp add: decode_def decode_loop_closed split: if_splits)

lemma done_asm_errors: "done_asm p i = Inl e \<Longrightarrow> e = EmptyStateStack \<and> asm_statestack p = []"
  by (auto simp: done_asm_def split: list.splits if_splits)

lemma driver_step_errors:
  "driver_step p env buf i ops d = Inl e \<Longrightarrow>
   e = DecodeFault BufferOutOfRange \<or> (e = DecodeFault EmptyStateStack \<and> asm_statestack p = [])"
proof -
  assume st: "driver_step p env buf i ops d = Inl e"
  show ?thesis
  proof (cases "decode buf i")
    case (Inl e0)
    with st decode_errors [OF Inl] show ?thesis by (simp add: driver_step_def)
  next
    case (Inr r)
    obtain b i1 where r: "r = (b, i1)" by (cases r)
    obtain i2 d2 where an: "analyze_operands p env i1 ops d = Inr (i2, d2)"
      using analyze_operands_evolves by blast
    from st Inr r an have "\<exists>e1. done_asm p i2 = Inl e1 \<and> e = DecodeFault e1"
      by (auto simp: driver_step_def split: sum.splits)
    then show ?thesis using done_asm_errors by blast
  qed
qed

text \<open>
  C8. The errors of a run: a run of the driver fails only because an item's buffer is
  shorter than its instruction (\<open>BufferOutOfRange\<close>) or because it started without a
  pushed context (\<open>EmptyStateStack\<close>, and then the plugin's state stack is empty);
  operand analysis never makes it fail, and once \<open>done\<close> has answered, the context
  stays pushed.
\<close>

theorem driver_run_errors:
  "driver_run p env items d = Inl e \<Longrightarrow>
   e = DecodeFault BufferOutOfRange \<or> (e = DecodeFault EmptyStateStack \<and> asm_statestack p = [])"
proof (induction items arbitrary: p d)
  case Nil
  then show ?case by simp
next
  case (Cons it items)
  obtain buf i ops where it: "it = (buf, i, ops)" by (cases it) auto
  show ?case
  proof (cases "driver_step p env buf i ops d")
    case (Inl e0)
    with Cons.prems it driver_step_errors [OF Inl] show ?thesis by simp
  next
    case (Inr r)
    obtain b p' i' d' where r: "r = (b, p', i', d')" by (cases r) auto
    from Inr r have "done_asm p i' = Inr (b, p')"
      by (auto simp: driver_step_def split: sum.splits prod.splits)
    then have ne: "asm_statestack p' \<noteq> []" using done_flags by blast
    from Cons.prems it Inr r have "b = False" "driver_run p' env items d' = Inl e"
      by (auto split: bool.splits sum.splits prod.splits)
    with Cons.IH [of p' d'] ne show ?thesis by simp
  qed
qed

theorem driver_run_errors_witness:
  "driver_run (pushState (AssemblerPlugin 0)) env0 [([0x90], jump_1000, [])] d0 = Inl (DecodeFault BufferOutOfRange)
   \<and> (DecodeFault BufferOutOfRange = DecodeFault BufferOutOfRange
      \<or> (DecodeFault BufferOutOfRange = DecodeFault EmptyStateStack
         \<and> asm_statestack (pushState (AssemblerPlugin 0)) = []))"
proof -
  have r: "driver_run (pushState (AssemblerPlugin 0)) env0 [([0x90], jump_1000, [])] d0 = Inl (DecodeFault BufferOutOfRange)"
    by (simp add: driver_step_def decode_def decode_loop_closed jump_1000_def)
  from driver_run_errors [OF r] r show ?thesis by simp
qed

end
